theory Spec2Isabelle
  imports Complex_Main "HOL-Library.Sublist"
begin

section \<open>JavaScript values\<close>

text \<open>
  The development embeds \<^verbatim>\<open>src/lib/camera-scanner.js\<close>. That file holds two revisions of
  the class \<^verbatim>\<open>CameraScanner\<close>: the first one (lines 21 to 1983) and a second one whose
  header carries the mark V1 (lines 2002 to 3333). Definitions taken from the second
  revision carry the suffix \<open>_V1\<close>; everything else keeps the name it has in the source,
  without the leading underscore of private members.

  An exception value is reduced to the two properties the code ever reads.
\<close>

record js_error =
  err_name :: string
  err_message :: string

definition Error :: "string \<Rightarrow> js_error" where
  "Error msg = \<lparr>err_name = ''Error'', err_message = msg\<rparr>"

text \<open>\<^verbatim>\<open>String.prototype.includes\<close>: some suffix of the string starts with the argument.\<close>

fun js_includes :: "string \<Rightarrow> string \<Rightarrow> bool" where
  "js_includes [] sub = (sub = [])"
| "js_includes (c # cs) sub = (prefix sub (c # cs) \<or> js_includes cs sub)"

definition toLowerCase_char :: "char \<Rightarrow> char" where
  "toLowerCase_char c =
     (case map_of (zip ''ABCDEFGHIJKLMNOPQRSTUVWXYZ'' ''abcdefghijklmnopqrstuvwxyz'') c of
        None \<Rightarrow> c
      | Some l \<Rightarrow> l)"

definition toLowerCase :: "string \<Rightarrow> string" where
  "toLowerCase s = map toLowerCase_char s"

definition toUpperCase_char :: "char \<Rightarrow> char" where
  "toUpperCase_char c =
     (case map_of (zip ''abcdefghijklmnopqrstuvwxyz'' ''ABCDEFGHIJKLMNOPQRSTUVWXYZ'') c of
        None \<Rightarrow> c
      | Some u \<Rightarrow> u)"

definition toUpperCase :: "string \<Rightarrow> string" where
  "toUpperCase s = map toUpperCase_char s"

text \<open>Decimal rendering of a count inside a template literal.\<close>

fun show_nat :: "nat \<Rightarrow> string" where
  "show_nat n =
     (if n < 10 then [''0123456789'' ! n]
      else show_nat (n div 10) @ [''0123456789'' ! (n mod 10)])"

declare show_nat.simps [simp del]

definition show_int :: "int \<Rightarrow> string" where
  "show_int i = (if i < 0 then CHR ''-'' # show_nat (nat (- i)) else show_nat (nat i))"

text \<open>
  A property that may be absent is an option; the empty string is falsy, so
  \<^verbatim>\<open>a || b\<close> on strings takes \<open>b\<close> when \<open>a\<close> is absent or empty.
\<close>

definition truthy :: "string option \<Rightarrow> bool" where
  "truthy v = (case v of None \<Rightarrow> False | Some t \<Rightarrow> t \<noteq> [])"

definition str_or :: "string option \<Rightarrow> string option \<Rightarrow> string option" where
  "str_or a b = (if truthy a then a else b)"

definition str_or_else :: "string option \<Rightarrow> string \<Rightarrow> string" where
  "str_or_else a b = (case a of None \<Rightarrow> b | Some t \<Rightarrow> if t \<noteq> [] then t else b)"

section \<open>Results of the low-level scanner\<close>

text \<open>
  \<^verbatim>\<open>OpticalScanner\<close> is imported from a file outside this source tree, so what it returns
  is an input of the model. A result carries its \<open>format\<close> and a \<open>data\<close> array, as the
  canonical result of the specification does, plus the optional properties that the
  formatting methods probe. Objects whose properties are never inspected are kept as
  lists of key/value pairs.
\<close>

type_synonym js_object = "(string \<times> string) list"

record validation_info =
  overallStatus :: "string option"
  val_details :: js_object

record mrz_data =
  md_entries :: js_object
  md_validation :: "validation_info option"
  md_invalidFields :: "string list option"

record raw_entry =
  re_data :: "mrz_data option"
  re_validation :: "validation_info option"
  re_invalidFields :: "string list option"

record driver_license =
  dl_raw :: "string option"
  dl_entries :: js_object

record detection_obj =
  det_text :: "string option"
  det_rawValue :: "string option"
  det_driverLicense :: "driver_license option"

datatype detection = DString string | DObject detection_obj

record scan_result =
  res_format :: string
  res_data :: "detection list"
  res_text :: "string option"
  res_rawData :: "raw_entry list option"
  res_driverLicense :: "driver_license option"
  res_fields :: "js_object option"
  res_confidence :: "string option"
  res_boundingBox :: "string option"

section \<open>Outcome objects\<close>

text \<open>
  Every scanning method answers with an object literal; the record below has one field
  per property that some literal sets, absent properties being \<open>None\<close>. Properties that
  only render a clock reading (\<^verbatim>\<open>timestamp\<close>, \<^verbatim>\<open>duration\<close>, \<^verbatim>\<open>processingTime\<close>,
  \<^verbatim>\<open>totalTime\<close>) are formatted floating-point numbers and are left out; where a message
  interpolates such a number the text \<open>{elapsed}\<close> stands in its place. The diagnostic
  properties \<^verbatim>\<open>debug\<close> and \<^verbatim>\<open>videoInfo\<close> of the start outcome are left out as well.
\<close>

datatype text_value = Text string | Data "detection list"

datatype fields_value = MrzFields mrz_data | DLFields driver_license | PlainFields js_object

record file_meta =
  file_name :: string
  file_size :: nat
  file_type :: string
  processedIndex :: nat

record file_summary =
  totalFiles :: nat
  processedFiles :: nat
  successfulFiles :: "nat option"
  failedFiles :: "nat option"

record scan_outcome =
  success :: bool
  scanType :: string
  error :: "string option"
  code :: "string option"
  message :: "string option"
  attempts :: "int option"
  cancelled :: "bool option"
  format :: "string option"
  type_prop :: "string option"
  text_prop :: "text_value option"
  rawData :: "detection list option"
  confidence :: "string option"
  boundingBox :: "string option"
  fields_prop :: "fields_value option"
  parsed :: "bool option"
  valid :: "bool option"
  validation :: "validation_info option"
  invalidFields :: "string list option"
  file_prop :: "file_meta option"
  filesProcessed :: "nat option"
  summary :: "file_summary option"
  videoReady :: "bool option"
  strategy :: "string option"
  mrzMode_prop :: "string option"
  details :: "string option"
  formats_prop :: "string list option"
  containerStrategy :: "string option"

text \<open>The literal \<^verbatim>\<open>{success, scanType}\<close>, to which the other properties are added.\<close>

definition outcome :: "bool \<Rightarrow> string \<Rightarrow> scan_outcome" where
  "outcome ok ty =
     \<lparr>success = ok, scanType = ty, error = None, code = None, message = None,
      attempts = None, cancelled = None, format = None, type_prop = None, text_prop = None,
      rawData = None, confidence = None, boundingBox = None, fields_prop = None,
      parsed = None, valid = None, validation = None, invalidFields = None,
      file_prop = None, filesProcessed = None, summary = None, videoReady = None,
      strategy = None, mrzMode_prop = None, details = None, formats_prop = None,
      containerStrategy = None\<rparr>"

section \<open>Result formatting of revision V1\<close>

text \<open>
  \<^verbatim>\<open>_formatMrzResult\<close> (lines 3128 to 3163). \<^verbatim>\<open>result.rawData?.[0]\<close> is the first entry when
  there is one. Objects and arrays are truthy, so each \<^verbatim>\<open>||\<close> chain takes the first
  operand that is present; \<open>{}\<close> has no \<^verbatim>\<open>overallStatus\<close>.
\<close>

definition first_raw :: "scan_result \<Rightarrow> raw_entry option" where
  "first_raw result =
     (case res_rawData result of
        None \<Rightarrow> None
      | Some [] \<Rightarrow> None
      | Some (e # _) \<Rightarrow> Some e)"

definition empty_object :: js_object where
  "empty_object = []"

definition empty_mrz_data :: mrz_data where
  "empty_mrz_data = \<lparr>md_entries = empty_object, md_validation = None, md_invalidFields = None\<rparr>"

definition empty_validation :: validation_info where
  "empty_validation = \<lparr>overallStatus = None, val_details = empty_object\<rparr>"

definition mrz_mrzData :: "scan_result \<Rightarrow> mrz_data" where
  "mrz_mrzData result =
     (case Option.bind (first_raw result) re_data of
        Some d \<Rightarrow> d
      | None \<Rightarrow> empty_mrz_data)"

definition mrz_validation :: "scan_result \<Rightarrow> validation_info" where
  "mrz_validation result =
     (case Option.bind (Option.bind (first_raw result) re_data) md_validation of
        Some v \<Rightarrow> v
      | None \<Rightarrow>
          (case Option.bind (first_raw result) re_validation of
             Some v \<Rightarrow> v
           | None \<Rightarrow> empty_validation))"

definition mrz_invalidFields :: "scan_result \<Rightarrow> string list" where
  "mrz_invalidFields result =
     (case Option.bind (Option.bind (first_raw result) re_data) md_invalidFields of
        Some l \<Rightarrow> l
      | None \<Rightarrow>
          (case Option.bind (first_raw result) re_invalidFields of
             Some l \<Rightarrow> l
           | None \<Rightarrow> []))"

definition isValid :: "validation_info \<Rightarrow> string list \<Rightarrow> bool" where
  "isValid v bad =
     (overallStatus v = Some ''complete'' \<or>
      (overallStatus v = Some ''partial'' \<and> length bad = 0))"

text \<open>
  The formatters build the format-specific part of the outcome; \<^verbatim>\<open>_formatScanResult\<close>
  then spreads it and sets \<^verbatim>\<open>success\<close>, \<^verbatim>\<open>scanType\<close> and \<^verbatim>\<open>format\<close>. The model writes
  the format-specific properties into an outcome whose common properties are set last.
\<close>

definition formatMrzResult :: "scan_result \<Rightarrow> scan_outcome \<Rightarrow> scan_outcome" where
  "formatMrzResult result out =
     (let mrzData = mrz_mrzData result;
          validation' = mrz_validation result;
          invalidFields' = mrz_invalidFields result;
          isValid' = isValid validation' invalidFields'
      in out\<lparr>type_prop := Some ''MRZ'', fields_prop := Some (MrzFields mrzData),
              valid := Some isValid', validation := Some validation',
              invalidFields := Some invalidFields'\<rparr>)"

text \<open>\<^verbatim>\<open>_formatDriverLicenseResult\<close> (lines 3172 to 3210).\<close>

definition first_driverLicense :: "scan_result \<Rightarrow> (detection_obj \<times> driver_license) option" where
  "first_driverLicense result =
     (case res_data result of
        DObject d # _ \<Rightarrow>
          (case det_driverLicense d of Some dl \<Rightarrow> Some (d, dl) | None \<Rightarrow> None)
      | _ \<Rightarrow> None)"

definition formatDriverLicenseResult :: "scan_result \<Rightarrow> scan_outcome \<Rightarrow> scan_outcome" where
  "formatDriverLicenseResult result out =
     (case first_driverLicense result of
        Some (d, dl) \<Rightarrow>
          out\<lparr>type_prop := Some ''DL'', fields_prop := Some (DLFields dl), parsed := Some True,
              text_prop := map_option Text
                (str_or (det_text d)
                   (str_or (dl_raw dl) (Some ''Enhanced PDF417 with parsed data'')))\<rparr>
      | None \<Rightarrow>
          (case res_driverLicense result of
             Some dl \<Rightarrow>
               out\<lparr>type_prop := Some ''DL'', fields_prop := Some (DLFields dl), parsed := Some True,
                   text_prop := map_option Text
                     (str_or (res_text result) (Some ''Enhanced PDF417 with parsed data''))\<rparr>
           | None \<Rightarrow>
               out\<lparr>type_prop := Some ''DL'',
                   fields_prop := Some (PlainFields
                     (case res_fields result of Some f \<Rightarrow> f | None \<Rightarrow> empty_object)),
                   parsed := Some False,
                   text_prop := map_option Text
                     (str_or (res_text result) (Some ''Enhanced PDF417 data''))\<rparr>))"

text \<open>
  \<^verbatim>\<open>_formatPdf417Result\<close> and \<^verbatim>\<open>_formatQrCodeResult\<close> (lines 3219 to 3278) share the search
  for a text: \<^verbatim>\<open>result.text\<close>, else the first datum if it is a string, else its
  \<^verbatim>\<open>text\<close>, else its \<^verbatim>\<open>rawValue\<close>.
\<close>

definition first_text :: "scan_result \<Rightarrow> string option" where
  "first_text result =
     (if truthy (res_text result) then res_text result
      else
        (case res_data result of
           [] \<Rightarrow> res_text result
         | DString s # _ \<Rightarrow> Some s
         | DObject d # _ \<Rightarrow>
             (if truthy (det_text d) then det_text d
              else if truthy (det_rawValue d) then det_rawValue d
              else res_text result)))"

definition formatPdf417Result :: "scan_result \<Rightarrow> scan_outcome \<Rightarrow> scan_outcome" where
  "formatPdf417Result result out =
     (let pdf417Text = first_text result
      in out\<lparr>type_prop := Some ''PDF_417'',
              text_prop := map_option Text (str_or pdf417Text (Some ''No PDF417 text found''))\<rparr>)"

definition formatQrCodeResult :: "scan_result \<Rightarrow> scan_outcome \<Rightarrow> scan_outcome" where
  "formatQrCodeResult result out =
     (let qrText = first_text result
      in out\<lparr>type_prop := Some ''QR_CODE'',
              text_prop := map_option Text (str_or qrText (Some ''No QR code text found''))\<rparr>)"

text \<open>
  \<^verbatim>\<open>_formatGenericResult\<close> (lines 3288 to 3308). The \<open>data\<close> array is truthy, so the chain
  \<^verbatim>\<open>result.data?.[0]?.text || result.data || ...\<close> ends at its second operand at the latest.
\<close>

definition formatMap :: "string \<Rightarrow> string option" where
  "formatMap =
     map_of [(''qr_code'', ''QR_CODE''), (''pdf417'', ''PDF_417''),
             (''pdf417_enhanced'', ''PDF_417''), (''mrz'', ''MRZ'')]"

definition first_data_text :: "detection list \<Rightarrow> text_value" where
  "first_data_text d =
     (case d of
        DObject x # _ \<Rightarrow>
          (if truthy (det_text x) then Text (the (det_text x)) else Data d)
      | _ \<Rightarrow> Data d)"

definition formatGenericResult :: "scan_result \<Rightarrow> string \<Rightarrow> scan_outcome \<Rightarrow> scan_outcome" where
  "formatGenericResult result detectedFormat out =
     out\<lparr>type_prop := str_or (formatMap detectedFormat) (Some (toUpperCase detectedFormat)),
         text_prop := Some (first_data_text (res_data result))\<rparr>"

text \<open>\<^verbatim>\<open>_formatScanResult\<close> of revision V1 (lines 3059 to 3119).\<close>

definition formatScanResult_V1 :: "string \<Rightarrow> scan_result list option \<Rightarrow> string \<Rightarrow> scan_outcome" where
  "formatScanResult_V1 ty results detectedFormat =
     (case results of
        None \<Rightarrow> (outcome False ty)\<lparr>error := Some ''No results to format''\<rparr>
      | Some [] \<Rightarrow> (outcome False ty)\<lparr>error := Some ''No results to format''\<rparr>
      | Some (result # _) \<Rightarrow>
          (let formattedResult =
                 (if detectedFormat = ''mrz'' then formatMrzResult result
                  else if detectedFormat = ''pdf417_enhanced'' then formatDriverLicenseResult result
                  else if detectedFormat = ''pdf417'' then formatPdf417Result result
                  else if detectedFormat = ''qr_code'' then formatQrCodeResult result
                  else formatGenericResult result detectedFormat)
           in formattedResult ((outcome True ty)\<lparr>format := Some detectedFormat\<rparr>)))"

section \<open>Asynchronous collaborators\<close>

text \<open>
  The camera, the DOM and the low-level scanner are collaborators outside the class. A
  promise they hand back either resolves or rejects some milliseconds after the call, or
  never settles. A method of the class in turn returns a value, throws, or stays pending
  for ever.
\<close>

datatype 'a settled = Resolves nat 'a | Rejects nat js_error | Never

datatype 'a completion = Returned 'a | Threw js_error | Pending

text \<open>
  \<^verbatim>\<open>Promise.race([p, timer])\<close>, where the timer rejects with \<open>e\<close> after \<open>ms\<close> milliseconds:
  the promise listed first wins when it has settled by then. The callers build the timer
  only for a positive delay.
\<close>

definition race :: "'a settled \<Rightarrow> int \<Rightarrow> js_error \<Rightarrow> 'a settled" where
  "race p ms e =
     (if ms > 0 then
        (case p of
           Resolves d v \<Rightarrow> if int d \<le> ms then Resolves d v else Rejects (nat ms) e
         | Rejects d x \<Rightarrow> if int d \<le> ms then Rejects d x else Rejects (nat ms) e
         | Never \<Rightarrow> Rejects (nat ms) e)
      else p)"

text \<open>
  What a method does to its collaborators is logged, each entry with the time in
  milliseconds since the method was called. Styling of the video element and console
  output are not logged. The timers are told apart by what they are for: the timeout of
  a scan (\<^verbatim>\<open>scanTimeout\<close>, in revision V1 \<^verbatim>\<open>timeout\<close>), the timeout of a file scan
  (\<^verbatim>\<open>fileTimeout\<close>), the timer of an interval wait (\<^verbatim>\<open>timeoutId\<close>), and three that the source
  does not name: the one that detaches the abort listener after an interval, the ten
  seconds granted to the video element, and the rest of the minimum scan time.
\<close>

datatype timer =
    ScanTimeout
  | FileTimeout
  | IntervalTimer
  | ListenerCleanup
  | VideoTimeout
  | MinimumTime

datatype effect =
    StartCameraStream
  | CreateVideoElement nat
  | ClearContainer nat
  | AppendChild nat nat
  | TrackStop nat
  | DetachSource nat
  | Scan "string list" string
  | ScanContinuous "string list" string
  | SetTimeout timer int
  | ClearTimeout timer
  | AddAbortListener
  | RemoveAbortListener

type_synonym trace = "(nat \<times> effect) list"

record ('a, 's) run =
  completion :: "'a completion"
  clock :: nat
  after :: 's
  effects :: trace

text \<open>
  An \<^verbatim>\<open>AbortSignal\<close>: the time (since the call of the method it was passed to) at which it
  becomes aborted, if ever, and the reason that \<^verbatim>\<open>throwIfAborted\<close> throws. Unless the
  caller supplies a reason, the reason is a \<^verbatim>\<open>DOMException\<close> named \<open>AbortError\<close>.
\<close>

record abort_signal =
  aborts_at :: "nat option"
  reason :: js_error

definition AbortError :: js_error where
  "AbortError = \<lparr>err_name = ''AbortError'', err_message = ''signal is aborted without reason''\<rparr>"

definition aborted :: "abort_signal \<Rightarrow> nat \<Rightarrow> bool" where
  "aborted sig now = (case aborts_at sig of None \<Rightarrow> False | Some a \<Rightarrow> a \<le> now)"

text \<open>\<^verbatim>\<open>signal?.throwIfAborted()\<close> at time \<open>now\<close>: the error thrown, if any.\<close>

definition throwIfAborted :: "abort_signal option \<Rightarrow> nat \<Rightarrow> js_error option" where
  "throwIfAborted signal now =
     (case signal of
        None \<Rightarrow> None
      | Some sig \<Rightarrow> if aborted sig now then Some (reason sig) else None)"

section \<open>The scanner instance\<close>

datatype js_container = Missing | NotElement | HTMLElement nat

record media_stream =
  stream_id :: nat

record video_element =
  video_id :: nat
  readyState :: nat

record scanner_config =
  cfg_scanType :: string
  cfg_scanMode :: string
  cfg_licenseKey :: string
  cfg_targetContainer :: "nat option"

record mrz_scannerConfig =
  container :: "nat option"

record mrz_options =
  mrz_licenseKey :: string
  mrzMode :: string
  scannerConfig :: "mrz_scannerConfig option"

record pdf417_options =
  pdf_licenseKey :: string
  useDynamsoft :: bool
  parseDL :: bool

record plugin_options =
  mrz :: "mrz_options option"
  pdf417_enhanced :: "pdf417_options option"

text \<open>
  Of the \<^verbatim>\<open>OpticalScanner\<close> instance the class reads the list of supported formats and
  whether a method \<^verbatim>\<open>scanContinuous\<close> exists.
\<close>

record optical_scanner =
  getSupportedFormats :: "string list"
  has_scanContinuous :: bool

record camera_scanner =
  config :: scanner_config
  stream :: "media_stream option"
  videoElement :: "video_element option"
  opticalScanner :: optical_scanner
  pluginOptions :: plugin_options
  isScanning :: bool

text \<open>Revision V1 keeps three more members, set once by its constructor.\<close>

record camera_scanner_V1 = camera_scanner +
  formats_V1 :: "string list"
  useContinuousScanning_V1 :: bool
  mrzMode_V1 :: string

section \<open>Configuration of the first revision\<close>

record scan_config =
  formats :: "string list"
  useContinuousScanning :: bool
  preferredMode :: string

text \<open>\<^verbatim>\<open>_buildPluginOptions\<close> (lines 111 to 181); the fixed view settings are not kept.\<close>

definition buildPluginOptions :: "scanner_config \<Rightarrow> optical_scanner \<Rightarrow> plugin_options" where
  "buildPluginOptions cfg sc =
     (if cfg_licenseKey cfg = [] then \<lparr>mrz = None, pdf417_enhanced = None\<rparr>
      else
        \<lparr>mrz =
           (if ''mrz'' \<in> set (getSupportedFormats sc)
            then Some \<lparr>mrz_licenseKey = cfg_licenseKey cfg,
                       mrzMode = (if cfg_scanType cfg = ''mrz'' then ''camera'' else ''element''),
                       scannerConfig = Some \<lparr>container = cfg_targetContainer cfg\<rparr>\<rparr>
            else None),
         pdf417_enhanced =
           (if ''pdf417_enhanced'' \<in> set (getSupportedFormats sc)
            then Some \<lparr>pdf_licenseKey = cfg_licenseKey cfg, useDynamsoft = True, parseDL = True\<rparr>
            else None)\<rparr>)"

record enhanced_features =
  hasLicense :: bool
  feat_mrz :: bool
  enhancedPDF417 :: bool
  dynamsoft :: bool

definition getEnhancedFeatures :: "'a camera_scanner_scheme \<Rightarrow> enhanced_features" where
  "getEnhancedFeatures s =
     (let hasLicense' = (cfg_licenseKey (config s) \<noteq> []);
          supportedFormats = getSupportedFormats (opticalScanner s)
      in \<lparr>hasLicense = hasLicense',
          feat_mrz = (hasLicense' \<and> ''mrz'' \<in> set supportedFormats),
          enhancedPDF417 = (hasLicense' \<and> ''pdf417_enhanced'' \<in> set supportedFormats),
          dynamsoft = hasLicense'\<rparr>)"

text \<open>\<^verbatim>\<open>_getScanConfig\<close> (lines 255 to 277).\<close>

definition getScanConfig :: "'a camera_scanner_scheme \<Rightarrow> js_error + scan_config" where
  "getScanConfig s =
     (if cfg_scanType (config s) = ''mrz'' then
        Inr \<lparr>formats = [''mrz''], useContinuousScanning = False, preferredMode = ''first''\<rparr>
      else if cfg_scanType (config s) = ''barcode'' then
        Inr \<lparr>formats = [''qr_code'', ''pdf417_enhanced'', ''pdf417''],
             useContinuousScanning = True, preferredMode = cfg_scanMode (config s)\<rparr>
      else Inl (Error (''Unknown scan type: '' @ cfg_scanType (config s))))"

text \<open>\<^verbatim>\<open>_getFileScanFormats\<close> (lines 285 to 300).\<close>

definition getFileScanFormats :: "'a camera_scanner_scheme \<Rightarrow> js_error + string list" where
  "getFileScanFormats s =
     (if cfg_scanType (config s) = ''mrz'' then Inr [''mrz'']
      else if cfg_scanType (config s) = ''barcode'' then
        Inr [''qr_code'', ''pdf417'', ''pdf417_enhanced'']
      else Inl (Error (''Unknown scan type: '' @ cfg_scanType (config s))))"

text \<open>
  \<^verbatim>\<open>_validateConfiguration\<close> (lines 323 to 357): the available formats, or the error
  thrown. The message of the last error is a template literal that spans two source
  lines, so it contains the line break and the indentation of the second line.
\<close>

definition validateConfiguration :: "'a camera_scanner_scheme \<Rightarrow> js_error + string list" where
  "validateConfiguration s =
     (case getScanConfig s of
        Inl e \<Rightarrow> Inl e
      | Inr scanConfig \<Rightarrow>
          (let enhancedFeatures = getEnhancedFeatures s
           in if ''mrz'' \<in> set (formats scanConfig) \<and> \<not> feat_mrz enhancedFeatures then
                (if cfg_licenseKey (config s) = [] then
                   Inl (Error ''MRZ scanning requires a valid Dynamsoft license key'')
                 else
                   Inl (Error ''MRZ scanning is not available- check license key validity''))
              else
                (let supportedFormats = getSupportedFormats (opticalScanner s);
                     availableFormats =
                       filter (\<lambda>f. f \<in> set supportedFormats) (formats scanConfig)
                 in if length availableFormats = 0 then
                      Inl (Error (''No supported formats available for scan type: '' @
                                  CHR 0x0A # ''        '' @ cfg_scanType (config s)))
                    else Inr availableFormats)))"

text \<open>The constructor of the first revision (lines 22 to 99).\<close>

record constructor_options =
  opt_scanType :: "string option"
  opt_scanMode :: "string option"
  opt_licenseKey :: "string option"
  opt_targetContainer :: "nat option"

definition default :: "'a option \<Rightarrow> 'a \<Rightarrow> 'a" where
  "default v d = (case v of None \<Rightarrow> d | Some x \<Rightarrow> x)"

definition CameraScanner :: "constructor_options \<Rightarrow> optical_scanner \<Rightarrow> js_error + camera_scanner" where
  "CameraScanner options sc =
     (let scanType' = default (opt_scanType options) ''barcode'';
          scanMode' = default (opt_scanMode options) ''first'';
          licenseKey' = default (opt_licenseKey options) '''';
          cfg = \<lparr>cfg_scanType = scanType', cfg_scanMode = scanMode',
                 cfg_licenseKey = licenseKey',
                 cfg_targetContainer = opt_targetContainer options\<rparr>
      in if scanType' \<notin> set [''mrz'', ''barcode''] then
           Inl (Error ''scanType must be \"mrz\" or \"barcode\"'')
         else if scanMode' \<notin> set [''first'', ''all'', ''exhaustive''] then
           Inl (Error ''scanMode must be \"first\", \"all\", or \"exhaustive\"'')
         else
           (let s = \<lparr>config = cfg, stream = None, videoElement = None, opticalScanner = sc,
                      pluginOptions = buildPluginOptions cfg sc, isScanning = False\<rparr>
            in case validateConfiguration s of
                 Inl e \<Rightarrow> Inl e
               | Inr _ \<Rightarrow> Inr s))"

section \<open>Starting and stopping the camera\<close>

text \<open>\<^verbatim>\<open>stop\<close> (lines 1215 to 1232, and again 3313 to 3332): the instance afterwards and
  what was released.\<close>

definition stop :: "'a camera_scanner_scheme \<Rightarrow> 'a camera_scanner_scheme \<times> effect list" where
  "stop s =
     (s\<lparr>isScanning := False, stream := None, videoElement := None\<rparr>,
      (case stream s of None \<Rightarrow> [] | Some st \<Rightarrow> [TrackStop (stream_id st)]) @
      (case videoElement s of None \<Rightarrow> [] | Some v \<Rightarrow> [DetachSource (video_id v)]))"

text \<open>The camera utilities as they answer one call of \<^verbatim>\<open>start\<close>.\<close>

record camera_env =
  startCameraStream :: "media_stream settled"
  createVideoElement :: "video_element settled"

text \<open>The \<^verbatim>\<open>catch\<close> block of \<^verbatim>\<open>start\<close> (lines 598 to 630).\<close>

definition start_failure :: "string \<Rightarrow> js_error \<Rightarrow> scan_outcome" where
  "start_failure ty e =
     (let (userMessage, errorCode) =
            (if err_name e = ''NotAllowedError'' then
               (''Camera permission denied. Please allow camera access and try again.'',
                ''CAMERA_PERMISSION_DENIED'')
             else if err_name e = ''NotFoundError'' then
               (''No camera found. Please connect a camera and try again.'',
                ''NO_CAMERA_FOUND'')
             else if js_includes (err_message e) ''timeout'' then
               (''Camera initialization timed out. Please try again.'', ''CAMERA_TIMEOUT'')
             else if js_includes (err_message e) ''Container'' then
               (''Invalid container provided for camera display.'', ''INVALID_CONTAINER'')
             else (''Failed to start camera'', ''CAMERA_START_ERROR''))
      in (outcome False ty)\<lparr>error := Some userMessage, code := Some errorCode,
                             details := Some (err_message e)\<rparr>)"

definition start_catch ::
  "camera_scanner \<Rightarrow> js_error \<Rightarrow> nat \<Rightarrow> trace \<Rightarrow> (scan_outcome, camera_scanner) run" where
  "start_catch s e t tr =
     (let (s', released) = stop s
      in \<lparr>completion = Returned (start_failure (cfg_scanType (config s)) e),
          clock = t, after = s', effects = tr @ map (Pair t) released\<rparr>)"

text \<open>Steps 2 to 5 of \<^verbatim>\<open>start\<close> (lines 443 to 596), run once stream and video exist.\<close>

definition start_setup ::
  "camera_scanner \<Rightarrow> video_element \<Rightarrow> nat \<Rightarrow> nat \<Rightarrow> trace \<Rightarrow> (scan_outcome, camera_scanner) run" where
  "start_setup s v el t tr =
     (case getScanConfig s of
        Inl e \<Rightarrow> start_catch s e t tr
      | Inr scanConfig \<Rightarrow>
          (let (containerStrategy, mrzPluginMode) =
                 (if cfg_scanType (config s) = ''mrz'' then
                    (case mrz (pluginOptions s) of
                       Some m \<Rightarrow>
                         if mrzMode m = ''camera'' then (''dynamsoft_native'', Some (mrzMode m))
                         else (''video_insertion'', Some (mrzMode m))
                     | None \<Rightarrow> (''video_insertion'', None))
                  else (''video_insertion'', None));
               tr1 = tr @ [(t, ClearContainer el)];
               ok = (outcome True (cfg_scanType (config s)))
                      \<lparr>videoReady := Some (readyState v \<ge> 2),
                       strategy := Some containerStrategy,
                       mrzMode_prop := mrzPluginMode,
                       message := Some (''Camera ready for '' @ cfg_scanType (config s) @
                                        '' scanning'')\<rparr>
           in if containerStrategy = ''video_insertion'' then
                \<lparr>completion = Returned ok, clock = t, after = s,
                 effects = tr1 @ [(t, AppendChild el (video_id v))]\<rparr>
              else
                (case mrz (pluginOptions s) of
                   None \<Rightarrow>
                     start_catch s
                       (Error ''MRZ plugin configuration invalid - missing scannerConfig'') t tr1
                 | Some m \<Rightarrow>
                     (case scannerConfig m of
                        None \<Rightarrow>
                          start_catch s
                            (Error ''MRZ plugin configuration invalid - missing scannerConfig'')
                            t tr1
                      | Some c \<Rightarrow>
                          \<lparr>completion = Returned ok, clock = t,
                           after = s\<lparr>pluginOptions := (pluginOptions s)
                             \<lparr>mrz := Some (m\<lparr>scannerConfig := Some (c\<lparr>container := Some el\<rparr>)\<rparr>)\<rparr>\<rparr>,
                           effects = tr1\<rparr>))))"

text \<open>Step 1 (lines 413 to 441): the stream, then the video element raced against a
  ten-second timer.\<close>

definition start_try :: "camera_scanner \<Rightarrow> nat \<Rightarrow> camera_env \<Rightarrow> (scan_outcome, camera_scanner) run" where
  "start_try s el cam =
     (case startCameraStream cam of
        Never \<Rightarrow>
          \<lparr>completion = Pending, clock = 0, after = s, effects = [(0, StartCameraStream)]\<rparr>
      | Rejects d e \<Rightarrow> start_catch s e d [(0, StartCameraStream)]
      | Resolves d st \<Rightarrow>
          (let s1 = s\<lparr>stream := Some st\<rparr>;
               tr = [(0, StartCameraStream), (d, CreateVideoElement (stream_id st)),
                     (d, SetTimeout VideoTimeout 10000)]
           in case race (createVideoElement cam) 10000 (Error ''Video load timeout'') of
                Never \<Rightarrow> \<lparr>completion = Pending, clock = d, after = s1, effects = tr\<rparr>
              | Rejects d2 e \<Rightarrow> start_catch s1 e (d + d2) tr
              | Resolves d2 v \<Rightarrow>
                  start_setup (s1\<lparr>videoElement := Some v\<rparr>) v el (d + d2) tr))"

text \<open>\<^verbatim>\<open>start\<close> (lines 386 to 631). The two container checks come before the \<^verbatim>\<open>try\<close>.\<close>

definition start :: "camera_scanner \<Rightarrow> js_container \<Rightarrow> camera_env \<Rightarrow> (scan_outcome, camera_scanner) run" where
  "start s c cam =
     (case c of
        Missing \<Rightarrow>
          \<lparr>completion =
             Threw (Error ''Container element is required for CameraScanner.start()''),
           clock = 0, after = s, effects = []\<rparr>
      | NotElement \<Rightarrow>
          \<lparr>completion = Threw (Error ''Container must be a valid DOM element''),
           clock = 0, after = s, effects = []\<rparr>
      | HTMLElement el \<Rightarrow>
          if stream s \<noteq> None \<and> videoElement s \<noteq> None then
            \<lparr>completion = Returned ((outcome True (cfg_scanType (config s)))
               \<lparr>videoReady := Some True, message := Some ''Camera already active''\<rparr>),
             clock = 0, after = s, effects = []\<rparr>
          else start_try s el cam)"

section \<open>Revision V1: construction and start\<close>

text \<open>The constructor of revision V1 with \<^verbatim>\<open>_initializeConfiguration\<close> (lines 2003 to 2108).\<close>

definition CameraScanner_V1 :: "constructor_options \<Rightarrow> optical_scanner \<Rightarrow> js_error + camera_scanner_V1" where
  "CameraScanner_V1 options sc =
     (let scanMode' = default (opt_scanMode options) ''first'';
          licenseKey' = default (opt_licenseKey options) ''''
      in case opt_scanType options of
           None \<Rightarrow> Inl (Error ''scanType must be \"mrz\" or \"barcode\"'')
         | Some scanType' \<Rightarrow>
             if scanType' \<notin> set [''mrz'', ''barcode''] then
               Inl (Error ''scanType must be \"mrz\" or \"barcode\"'')
             else if scanMode' \<notin> set [''first'', ''all'', ''exhaustive''] then
               Inl (Error ''scanMode must be \"first\", \"all\", or \"exhaustive\"'')
             else
               (let mrzMode' = (if scanType' = ''mrz'' then ''camera'' else ''element'')
                in Inr \<lparr>config = \<lparr>cfg_scanType = scanType', cfg_scanMode = scanMode',
                                   cfg_licenseKey = licenseKey', cfg_targetContainer = None\<rparr>,
                         stream = None, videoElement = None, opticalScanner = sc,
                         pluginOptions =
                           (if licenseKey' = [] then \<lparr>mrz = None, pdf417_enhanced = None\<rparr>
                            else
                              \<lparr>mrz =
                                 (if scanType' = ''mrz''
                                  then Some \<lparr>mrz_licenseKey = licenseKey', mrzMode = mrzMode',
                                             scannerConfig = Some \<lparr>container = None\<rparr>\<rparr>
                                  else None),
                               pdf417_enhanced =
                                 (if scanType' = ''barcode''
                                  then Some \<lparr>pdf_licenseKey = licenseKey', useDynamsoft = True,
                                             parseDL = True\<rparr>
                                  else None)\<rparr>),
                         isScanning = False,
                         formats_V1 =
                           (if scanType' = ''mrz'' then [''mrz'']
                            else [''qr_code'', ''pdf417_enhanced'', ''pdf417'']),
                         useContinuousScanning_V1 = (scanType' \<noteq> ''mrz''),
                         mrzMode_V1 = mrzMode'\<rparr>))"

text \<open>The \<^verbatim>\<open>catch\<close> block of \<^verbatim>\<open>start\<close> in revision V1 (lines 2245 to 2274).\<close>

definition start_failure_V1 :: "string \<Rightarrow> js_error \<Rightarrow> scan_outcome" where
  "start_failure_V1 ty e =
     (let (userMessage, errorCode) =
            (if err_name e = ''NotAllowedError'' then
               (''Camera permission denied. Please allow camera access.'',
                ''CAMERA_PERMISSION_DENIED'')
             else if err_name e = ''NotFoundError'' then
               (''No camera found. Please connect a camera.'', ''NO_CAMERA_FOUND'')
             else if js_includes (err_message e) ''timeout'' then
               (''Camera initialization timed out. Please try again.'', ''CAMERA_TIMEOUT'')
             else (''Failed to start camera'', ''CAMERA_START_ERROR''))
      in (outcome False ty)\<lparr>error := Some userMessage, code := Some errorCode,
                             details := Some (err_message e)\<rparr>)"

definition start_catch_V1 ::
  "camera_scanner_V1 \<Rightarrow> js_error \<Rightarrow> nat \<Rightarrow> trace \<Rightarrow> (scan_outcome, camera_scanner_V1) run" where
  "start_catch_V1 s e t tr =
     (let (s', released) = stop s
      in \<lparr>completion = Returned (start_failure_V1 (cfg_scanType (config s)) e),
          clock = t, after = s', effects = tr @ map (Pair t) released\<rparr>)"

definition mrz_camera_mode :: "'a camera_scanner_scheme \<Rightarrow> bool" where
  "mrz_camera_mode s =
     (cfg_scanType (config s) = ''mrz'' \<and>
      (case mrz (pluginOptions s) of None \<Rightarrow> False | Some m \<Rightarrow> mrzMode m = ''camera''))"

text \<open>\<^verbatim>\<open>_handleContainerSetup\<close> (lines 2284 to 2324).\<close>

definition handleContainerSetup ::
  "camera_scanner_V1 \<Rightarrow> video_element \<Rightarrow> nat \<Rightarrow> camera_scanner_V1 \<times> effect list" where
  "handleContainerSetup s v el =
     (if mrz_camera_mode s then
        (case mrz (pluginOptions s) of
           None \<Rightarrow> (s, [ClearContainer el])
         | Some m \<Rightarrow>
             (case scannerConfig m of
                None \<Rightarrow> (s, [ClearContainer el])
              | Some c \<Rightarrow>
                  (s\<lparr>pluginOptions := (pluginOptions s)
                       \<lparr>mrz := Some (m\<lparr>scannerConfig := Some (c\<lparr>container := Some el\<rparr>)\<rparr>)\<rparr>\<rparr>,
                   [ClearContainer el])))
      else (s, [ClearContainer el, AppendChild el (video_id v)]))"

definition start_try_V1 ::
  "camera_scanner_V1 \<Rightarrow> nat \<Rightarrow> camera_env \<Rightarrow> (scan_outcome, camera_scanner_V1) run" where
  "start_try_V1 s el cam =
     (case startCameraStream cam of
        Never \<Rightarrow>
          \<lparr>completion = Pending, clock = 0, after = s, effects = [(0, StartCameraStream)]\<rparr>
      | Rejects d e \<Rightarrow> start_catch_V1 s e d [(0, StartCameraStream)]
      | Resolves d st \<Rightarrow>
          (let s1 = s\<lparr>stream := Some st\<rparr>;
               tr = [(0, StartCameraStream), (d, CreateVideoElement (stream_id st)),
                     (d, SetTimeout VideoTimeout 10000)]
           in case race (createVideoElement cam) 10000 (Error ''Video creation timeout'') of
                Never \<Rightarrow> \<lparr>completion = Pending, clock = d, after = s1, effects = tr\<rparr>
              | Rejects d2 e \<Rightarrow> start_catch_V1 s1 e (d + d2) tr
              | Resolves d2 v \<Rightarrow>
                  (let (s2, eff) = handleContainerSetup (s1\<lparr>videoElement := Some v\<rparr>) v el
                   in \<lparr>completion = Returned ((outcome True (cfg_scanType (config s)))
                          \<lparr>videoReady := Some (readyState v \<ge> 2),
                           formats_prop := Some (formats_V1 s),
                           containerStrategy :=
                             Some (if mrz_camera_mode s then ''dynamsoft_native''
                                   else ''video_insertion'')\<rparr>),
                        clock = d + d2, after = s2,
                        effects = tr @ map (Pair (d + d2)) eff\<rparr>)))"

text \<open>
  \<^verbatim>\<open>start\<close> of revision V1 (lines 2169 to 2275). The camera constraints built from the
  options only reach \<^verbatim>\<open>startCameraStream\<close>, whose answer is an input here.
\<close>

definition start_V1 ::
  "camera_scanner_V1 \<Rightarrow> js_container \<Rightarrow> camera_env \<Rightarrow> (scan_outcome, camera_scanner_V1) run" where
  "start_V1 s c cam =
     (case c of
        HTMLElement el \<Rightarrow>
          if stream s \<noteq> None \<and> videoElement s \<noteq> None then
            \<lparr>completion = Returned ((outcome True (cfg_scanType (config s)))
               \<lparr>videoReady := Some True, message := Some ''Camera already active''\<rparr>),
             clock = 0, after = s, effects = []\<rparr>
          else start_try_V1 s el cam
      | _ \<Rightarrow>
          \<lparr>completion = Threw (Error ''Valid container element is required''),
           clock = 0, after = s, effects = []\<rparr>)"

section \<open>Single scans\<close>

record scan_options =
  opt_formats :: "string list option"
  opt_mode :: "string option"
  opt_timeoutMs :: "int option"
  opt_signal :: "abort_signal option"
  opt_interval :: "int option"
  opt_maxAttempts :: "int option"
  opt_processAll :: "bool option"

record timeout_config =
  scanTimeout :: int
  minScanTime :: int
  description :: string

text \<open>\<^verbatim>\<open>_getTimeoutConfig\<close> (lines 1241 to 1272).\<close>

definition getTimeoutConfig :: "'a camera_scanner_scheme \<Rightarrow> string list \<Rightarrow> timeout_config" where
  "getTimeoutConfig s fs =
     (if ''mrz'' \<in> set fs then
        (let isMrzCameraMode =
               (case mrz (pluginOptions s) of None \<Rightarrow> False | Some m \<Rightarrow> mrzMode m = ''camera'')
         in if isMrzCameraMode then
              \<lparr>scanTimeout = 0, minScanTime = 0, description = ''MRZ camera mode (user-driven)''\<rparr>
            else
              \<lparr>scanTimeout = 30000, minScanTime = 1500, description = ''MRZ element mode''\<rparr>)
      else if ''pdf417_enhanced'' \<in> set fs then
        \<lparr>scanTimeout = 20000, minScanTime = 1500, description = ''Enhanced PDF417''\<rparr>
      else
        \<lparr>scanTimeout = 10000, minScanTime = 1500, description = ''Standard barcode scanning''\<rparr>)"

text \<open>\<^verbatim>\<open>_formatScanResult\<close> of the first revision (lines 1179 to 1210).\<close>

definition FORMAT_TO_HTML5QRCODE_MAP :: "string \<Rightarrow> string option" where
  "FORMAT_TO_HTML5QRCODE_MAP =
     map_of [(''qr_code'', ''QR_CODE''), (''pdf417'', ''PDF_417''),
             (''pdf417_enhanced'', ''PDF_417''), (''mrz'', ''MRZ'')]"

definition formatScanResult :: "string \<Rightarrow> scan_result list option \<Rightarrow> string \<Rightarrow> scan_outcome" where
  "formatScanResult ty results detectedFormat =
     (case results of
        None \<Rightarrow> (outcome False ty)\<lparr>error := Some ''No results to format''\<rparr>
      | Some [] \<Rightarrow> (outcome False ty)\<lparr>error := Some ''No results to format''\<rparr>
      | Some (result # _) \<Rightarrow>
          (outcome True ty)
            \<lparr>format := Some detectedFormat,
             type_prop := Some (str_or_else (FORMAT_TO_HTML5QRCODE_MAP detectedFormat) detectedFormat),
             text_prop := Some (first_data_text (res_data result)),
             rawData := Some (res_data result),
             confidence := res_confidence result,
             boundingBox := res_boundingBox result\<rparr>)"

text \<open>\<^verbatim>\<open>results && results.length > 0\<close>.\<close>

definition has_results :: "'a list option \<Rightarrow> bool" where
  "has_results results = (case results of None \<Rightarrow> False | Some rs \<Rightarrow> length rs > 0)"

definition first_format :: "scan_result list option \<Rightarrow> string" where
  "first_format results =
     (case results of Some (result # _) \<Rightarrow> res_format result | _ \<Rightarrow> [])"

text \<open>The \<^verbatim>\<open>catch\<close> block of \<^verbatim>\<open>scanOnce\<close> (lines 823 to 867), given the error and the flag
  \<^verbatim>\<open>scanSucceeded\<close>.\<close>

definition scanOnce_catch :: "string \<Rightarrow> js_error \<Rightarrow> bool \<Rightarrow> scan_outcome" where
  "scanOnce_catch ty e scanSucceeded =
     (if err_name e = ''AbortError'' \<and> scanSucceeded then
        (outcome True ty)\<lparr>message := Some ''Scan completed successfully despite cleanup abort''\<rparr>
      else if err_message e = ''SCAN_TIMEOUT'' then
        (outcome False ty)
          \<lparr>error := Some ''Scan timed out after {elapsed}s- try repositioning or better lighting'',
           code := Some ''SCAN_TIMEOUT''\<rparr>
      else
        (outcome False ty)
          \<lparr>error := Some (str_or_else (Some (err_message e)) ''Scan failed''),
           code := Some ''SCAN_ERROR''\<rparr>)"

text \<open>
  The part of \<^verbatim>\<open>scanOnce\<close> after the scan promise has resolved (lines 775 to 821): the
  success flag, clearing the timer, the minimum scan time, the answer. \<open>timer\<close> tells
  whether a timeout timer was set; \<open>d\<close> is the time the scan took.
\<close>

definition scanOnce_resolved ::
  "string \<Rightarrow> string list \<Rightarrow> int \<Rightarrow> bool \<Rightarrow> nat \<Rightarrow> scan_result list option \<Rightarrow>
   scan_outcome \<times> nat \<times> trace" where
  "scanOnce_resolved ty finalFormats minScanTime' timer d results =
     (let scanSucceeded = has_results results;
          tr1 = (if timer then [(d, ClearTimeout ScanTimeout)] else []);
          needsMinTime = (''mrz'' \<notin> set finalFormats \<and> minScanTime' > 0);
          elapsedTime = int d;
          (t, tr2) =
            (if needsMinTime \<and> elapsedTime < minScanTime' then
               (d + nat (minScanTime' - elapsedTime),
                tr1 @ [(d, SetTimeout MinimumTime (minScanTime' - elapsedTime))])
             else (d, tr1))
      in if scanSucceeded then (formatScanResult ty results (first_format results), t, tr2)
         else ((outcome False ty)\<lparr>error := Some ''No optical codes detected in current frame''\<rparr>,
               t, tr2))"

text \<open>
  The configuration part of the \<^verbatim>\<open>try\<close> block of \<^verbatim>\<open>scanOnce\<close> (lines 682 to 712): the
  formats that will be scanned, the mode, the timeout and the minimum scan time, or the
  error thrown on the way.
\<close>

record scan_plan =
  finalFormats :: "string list"
  plan_mode :: string
  timeoutMs :: int
  plan_minScanTime :: int

definition scanOnce_setup :: "camera_scanner \<Rightarrow> scan_options \<Rightarrow> js_error + scan_plan" where
  "scanOnce_setup s options =
     (case getScanConfig s of
        Inl e \<Rightarrow> Inl e
      | Inr scanConfig \<Rightarrow>
          (let formats' = default (opt_formats options) (formats scanConfig);
               mode = str_or_else (opt_mode options) (preferredMode scanConfig)
           in case validateConfiguration s of
                Inl e \<Rightarrow> Inl e
              | Inr availableFormats \<Rightarrow>
                  (let finalFormats' = filter (\<lambda>f. f \<in> set availableFormats) formats'
                   in if length finalFormats' = 0 then
                        Inl (Error ''No supported formats available for scanning'')
                      else
                        (let timeoutConfig = getTimeoutConfig s finalFormats'
                         in Inr \<lparr>finalFormats = finalFormats', plan_mode = mode,
                                  timeoutMs = default (opt_timeoutMs options)
                                                (scanTimeout timeoutConfig),
                                  plan_minScanTime = minScanTime timeoutConfig\<rparr>))))"

text \<open>The \<^verbatim>\<open>try\<close> block of \<^verbatim>\<open>scanOnce\<close> (lines 671 to 821) with its \<^verbatim>\<open>catch\<close> and
  \<^verbatim>\<open>finally\<close>; \<open>s\<close> is the instance before the flag is set.\<close>

definition scanOnce_try ::
  "camera_scanner \<Rightarrow> scan_options \<Rightarrow> scan_result list option settled \<Rightarrow>
   (scan_outcome, camera_scanner) run" where
  "scanOnce_try s options scanner =
     (let ty = cfg_scanType (config s);
          finish = (\<lambda>out t tr. \<lparr>completion = Returned out, clock = t,
                                  after = s\<lparr>isScanning := False\<rparr>, effects = tr\<rparr>);
          hang = (\<lambda>tr. \<lparr>completion = Pending, clock = 0,
                          after = s\<lparr>isScanning := True\<rparr>, effects = tr\<rparr>)
      in case scanOnce_setup s options of
           Inl e \<Rightarrow> finish (scanOnce_catch ty e False) 0 []
         | Inr plan \<Rightarrow>
             if mrz_camera_mode s then
               (case scanner of
                  Never \<Rightarrow> hang [(0, Scan [''mrz''] ''first'')]
                | Rejects d e \<Rightarrow>
                    finish (scanOnce_catch ty e False) d [(0, Scan [''mrz''] ''first'')]
                | Resolves d results \<Rightarrow>
                    finish (formatScanResult ty results ''mrz'') d
                      [(0, Scan [''mrz''] ''first'')])
             else
               (let timer = (timeoutMs plan > 0);
                    tr = (0, Scan (finalFormats plan) (plan_mode plan)) #
                         (if timer then [(0, SetTimeout ScanTimeout (timeoutMs plan))] else [])
                in case race scanner (timeoutMs plan) (Error ''SCAN_TIMEOUT'') of
                     Never \<Rightarrow> hang tr
                   | Rejects d e \<Rightarrow>
                       finish (scanOnce_catch ty e False) d
                         (tr @ (if timer then [(d, ClearTimeout ScanTimeout)] else []))
                   | Resolves d results \<Rightarrow>
                       (let (out, t, tr') =
                              scanOnce_resolved ty (finalFormats plan) (plan_minScanTime plan)
                                timer d results
                        in finish out t (tr @ tr'))))"

text \<open>\<^verbatim>\<open>scanOnce\<close> (lines 650 to 872). The two guards throw before the \<^verbatim>\<open>try\<close>.\<close>

definition scanOnce ::
  "camera_scanner \<Rightarrow> scan_options \<Rightarrow> scan_result list option settled \<Rightarrow>
   (scan_outcome, camera_scanner) run" where
  "scanOnce s options scanner =
     (if videoElement s = None \<or> stream s = None then
        \<lparr>completion = Threw (Error ''Camera not started. Call start() first.''),
         clock = 0, after = s, effects = []\<rparr>
      else if isScanning s then
        \<lparr>completion = Threw (Error ''Scan already in progress.Wait for current scan to complete.''),
         clock = 0, after = s, effects = []\<rparr>
      else scanOnce_try s options scanner)"

section \<open>Single scans of revision V1\<close>

text \<open>\<^verbatim>\<open>_getTimeout\<close> (lines 2116 to 2139). A zero entry of the table is falsy, so it gives
  way to the default.\<close>

definition TIMEOUT_CONFIG :: "string \<Rightarrow> int option" where
  "TIMEOUT_CONFIG =
     map_of [(''mrz_camera'', 0), (''mrz_element'', 30000), (''pdf417_enhanced'', 20000),
             (''pdf417'', 10000), (''qr_code'', 10000), (''default'', 12000),
             (''minScanTime'', 1500), (''continuousInterval'', 2500)]"

definition getTimeout_V1 :: "camera_scanner_V1 \<Rightarrow> int" where
  "getTimeout_V1 s =
     (if cfg_scanType (config s) = ''mrz'' then
        (let isCameraMode =
               (case mrz (pluginOptions s) of None \<Rightarrow> False | Some m \<Rightarrow> mrzMode m = ''camera'')
         in if isCameraMode then 0 else 30000)
      else
        (case formats_V1 s of
           [] \<Rightarrow> 12000
         | primaryFormat # _ \<Rightarrow>
             (case TIMEOUT_CONFIG primaryFormat of
                None \<Rightarrow> 12000
              | Some ms \<Rightarrow> if ms = 0 then 12000 else ms)))"

text \<open>\<^verbatim>\<open>_getMinScanTime\<close> (lines 2146 to 2149).\<close>

definition getMinScanTime_V1 :: "camera_scanner_V1 \<Rightarrow> int" where
  "getMinScanTime_V1 s = (if ''mrz'' \<in> set (formats_V1 s) then 0 else 1500)"

text \<open>
  \<^verbatim>\<open>_buildScanOptions\<close> (lines 3026 to 3043). The options are spread last, so a format
  list or mode given by the caller is passed on as it is.
\<close>

definition buildScanOptions_V1 :: "camera_scanner_V1 \<Rightarrow> scan_options \<Rightarrow> string list \<times> string" where
  "buildScanOptions_V1 s options =
     (default (opt_formats options) (formats_V1 s),
      default (opt_mode options) (cfg_scanMode (config s)))"

text \<open>The \<^verbatim>\<open>catch\<close> block of \<^verbatim>\<open>scan\<close> (lines 2753 to 2787).\<close>

definition scan_catch_V1 :: "string \<Rightarrow> js_error \<Rightarrow> scan_outcome" where
  "scan_catch_V1 ty e =
     (if err_message e = ''SCAN_TIMEOUT'' then
        (outcome False ty)
          \<lparr>error := Some ''Scan timed out after {elapsed}s - try repositioning or better lighting'',
           code := Some ''SCAN_TIMEOUT''\<rparr>
      else
        (outcome False ty)
          \<lparr>error := Some (str_or_else (Some (err_message e)) ''Scan failed''),
           code := Some ''SCAN_ERROR''\<rparr>)"

text \<open>The part of \<^verbatim>\<open>scan\<close> after the scan promise has resolved (lines 2703 to 2751).\<close>

definition scan_resolved_V1 ::
  "string \<Rightarrow> int \<Rightarrow> bool \<Rightarrow> nat \<Rightarrow> scan_result list option \<Rightarrow> scan_outcome \<times> nat \<times> trace" where
  "scan_resolved_V1 ty minScanTime' timer d results =
     (let scanSucceeded = has_results results;
          tr1 = (if timer then [(d, ClearTimeout ScanTimeout)] else []);
          elapsedTime = int d;
          (t, tr2) =
            (if minScanTime' > 0 \<and> elapsedTime < minScanTime' then
               (d + nat (minScanTime' - elapsedTime),
                tr1 @ [(d, SetTimeout MinimumTime (minScanTime' - elapsedTime))])
             else (d, tr1))
      in if scanSucceeded then (formatScanResult_V1 ty results (first_format results), t, tr2)
         else ((outcome False ty)\<lparr>error := Some ''No optical codes detected in current frame'',
                                    code := Some ''NO_RESULTS''\<rparr>,
               t, tr2))"

text \<open>\<^verbatim>\<open>scan\<close> of revision V1 (lines 2635 to 2795).\<close>

definition scan_V1 ::
  "camera_scanner_V1 \<Rightarrow> scan_options \<Rightarrow> scan_result list option settled \<Rightarrow>
   (scan_outcome, camera_scanner_V1) run" where
  "scan_V1 s options scanner =
     (if videoElement s = None \<or> stream s = None then
        \<lparr>completion = Threw (Error ''Camera not started. Call start() first.''),
         clock = 0, after = s, effects = []\<rparr>
      else if isScanning s then
        \<lparr>completion = Threw (Error ''Scan already in progress. Wait for current scan to complete.''),
         clock = 0, after = s, effects = []\<rparr>
      else
        (let ty = cfg_scanType (config s);
             (formats', mode) = buildScanOptions_V1 s options;
             timeoutMs = getTimeout_V1 s;
             minScanTime' = getMinScanTime_V1 s;
             tr = (0, Scan formats' mode) #
                  (if timeoutMs > 0 then [(0, SetTimeout ScanTimeout timeoutMs)] else [])
         in case race scanner timeoutMs (Error ''SCAN_TIMEOUT'') of
              Never \<Rightarrow>
                \<lparr>completion = Pending, clock = 0, after = s\<lparr>isScanning := True\<rparr>, effects = tr\<rparr>
            | Rejects d e \<Rightarrow>
                \<lparr>completion = Returned (scan_catch_V1 ty e), clock = d,
                 after = s\<lparr>isScanning := False\<rparr>,
                 effects = tr @ (if timeoutMs > 0 then [(d, ClearTimeout ScanTimeout)] else [])\<rparr>
            | Resolves d results \<Rightarrow>
                (let (out, t, tr') = scan_resolved_V1 ty minScanTime' (timeoutMs > 0) d results
                 in \<lparr>completion = Returned out, clock = t,
                     after = s\<lparr>isScanning := False\<rparr>, effects = tr @ tr'\<rparr>)))"

section \<open>Continuous scanning\<close>

text \<open>\<^verbatim>\<open>_getContinuousConfig\<close> (lines 1280 to 1286): the default interval.\<close>

definition getContinuousConfig_interval :: int where
  "getContinuousConfig_interval = 2500"

text \<open>The \<^verbatim>\<open>catch\<close> block of \<^verbatim>\<open>scanContinuous\<close> (lines 1114 to 1164), given the error, the
  flag \<^verbatim>\<open>scanSucceeded\<close> and the attempt counter.\<close>

definition scanContinuous_catch :: "string \<Rightarrow> js_error \<Rightarrow> bool \<Rightarrow> nat \<Rightarrow> scan_outcome" where
  "scanContinuous_catch ty e scanSucceeded attempt =
     (if err_name e = ''AbortError'' \<and> scanSucceeded then
        (outcome True ty)
          \<lparr>message := Some ''Continuous scan completed successfully despite cleanup abort'',
           attempts := Some (int attempt)\<rparr>
      else if err_name e = ''AbortError'' \<or> js_includes (err_message e) ''cancelled'' then
        (outcome False ty)
          \<lparr>cancelled := Some True, error := Some ''Continuous scan cancelled'',
           attempts := Some (int attempt)\<rparr>
      else
        (outcome False ty)
          \<lparr>error := Some (str_or_else (Some (err_message e)) ''Continuous scan failed''),
           code := Some ''CONTINUOUS_SCAN_ERROR'', attempts := Some (int attempt)\<rparr>)"

text \<open>
  The wait between two attempts (lines 1085 to 1110), begun at time \<open>t\<close>. A timer of
  \<open>interval\<close> milliseconds resolves the promise; a non-positive delay fires at once. With
  a signal: if it is aborted already, the timer is cleared and the promise rejects on the
  spot; otherwise a listener is attached, which on an abort before the timer fires clears
  the timer and rejects, and a second timer of the same length detaches the listener. An
  abort that falls on the very millisecond at which the timer fires comes too late for
  the listener.
\<close>

record wait_run =
  wait_error :: "js_error option"
  wait_end :: nat
  wait_effects :: trace

definition interval_wait :: "int \<Rightarrow> abort_signal option \<Rightarrow> nat \<Rightarrow> wait_run" where
  "interval_wait interval signal t =
     (case signal of
        None \<Rightarrow>
          \<lparr>wait_error = None, wait_end = t + nat interval,
           wait_effects = [(t, SetTimeout IntervalTimer interval)]\<rparr>
      | Some sig \<Rightarrow>
          if aborted sig t then
            \<lparr>wait_error = Some (Error ''Scan cancelled during interval wait''), wait_end = t,
             wait_effects = [(t, SetTimeout IntervalTimer interval),
                             (t, ClearTimeout IntervalTimer)]\<rparr>
          else
            (case aborts_at sig of
               None \<Rightarrow>
                 \<lparr>wait_error = None, wait_end = t + nat interval,
                  wait_effects = [(t, SetTimeout IntervalTimer interval), (t, AddAbortListener),
                                  (t, SetTimeout ListenerCleanup interval),
                                  (t + nat interval, RemoveAbortListener)]\<rparr>
             | Some a \<Rightarrow>
                 if a < t + nat interval then
                   \<lparr>wait_error = Some (Error ''Scan cancelled during interval wait''),
                    wait_end = a,
                    wait_effects = [(t, SetTimeout IntervalTimer interval), (t, AddAbortListener),
                                    (t, SetTimeout ListenerCleanup interval),
                                    (a, ClearTimeout IntervalTimer)]\<rparr>
                 else
                   \<lparr>wait_error = None, wait_end = t + nat interval,
                    wait_effects = [(t, SetTimeout IntervalTimer interval), (t, AddAbortListener),
                                    (t, SetTimeout ListenerCleanup interval),
                                    (t + nat interval, RemoveAbortListener)]\<rparr>))"

text \<open>
  What the fallback loop works with: scan type, formats, mode, interval, the attempt
  bound (\<^verbatim>\<open>options.maxAttempts || null\<close>) and the signal.
\<close>

record loop_ctx =
  lc_scanType :: string
  lc_formats :: "string list"
  lc_mode :: string
  lc_interval :: int
  lc_maxAttempts :: "int option"
  lc_signal :: "abort_signal option"

text \<open>\<^verbatim>\<open>Math.min(interval * 0.8, 5000)\<close> (line 1044), as a rational number.\<close>

definition individualTimeout :: "int \<Rightarrow> rat" where
  "individualTimeout interval = min (of_int interval * (8 / 10)) 5000"

text \<open>\<^verbatim>\<open>maxAttempts && attempt > maxAttempts\<close>.\<close>

definition max_reached :: "int option \<Rightarrow> nat \<Rightarrow> bool" where
  "max_reached maxAttempts attempt =
     (case maxAttempts of None \<Rightarrow> False | Some m \<Rightarrow> m \<noteq> 0 \<and> int attempt > m)"

definition max_attempts_outcome :: "string \<Rightarrow> int option \<Rightarrow> nat \<Rightarrow> scan_outcome" where
  "max_attempts_outcome ty maxAttempts attempt =
     (outcome False ty)
       \<lparr>error := Some (''Max attempts reached ('' @
                        (case maxAttempts of None \<Rightarrow> ''null'' | Some m \<Rightarrow> show_int m) @ '')''),
        code := Some ''MAX_ATTEMPTS_REACHED'',
        attempts := Some (int attempt - 1)\<rparr>"

text \<open>
  The fallback loop (lines 1013 to 1111). \<open>scans k\<close> is how the \<open>k\<close>-th call of the
  low-level scanner answers; \<open>attempt\<close> is the counter before its increment, \<open>now\<close> the
  time at which the iteration begins, \<open>tr\<close> the effects so far. The loop has no exit of
  its own when no bound is set and nothing is ever found, so it is a partial function:
  \<open>None\<close> means it runs for ever. Otherwise the result says how the loop was left (by
  \<^verbatim>\<open>return\<close>, by an exception, or stuck on a scan that never settles), the value of the
  counter, the time and the effects. The value \<^verbatim>\<open>individualTimeout\<close> is computed in each
  iteration and then not passed on.
\<close>

partial_function (option) scan_loop ::
  "loop_ctx \<Rightarrow> (nat \<Rightarrow> scan_result list option settled) \<Rightarrow> nat \<Rightarrow> nat \<Rightarrow> trace \<Rightarrow>
   (scan_outcome completion \<times> nat \<times> nat \<times> trace) option" where
  "scan_loop ctx scans attempt now tr =
     (case throwIfAborted (lc_signal ctx) now of
        Some e \<Rightarrow> Some (Threw e, attempt + 1, now, tr)
      | None \<Rightarrow>
          if max_reached (lc_maxAttempts ctx) (attempt + 1) then
            Some (Returned (max_attempts_outcome (lc_scanType ctx) (lc_maxAttempts ctx)
                    (attempt + 1)), attempt + 1, now, tr)
          else
            (let individualTimeout' = individualTimeout (lc_interval ctx)
             in case scans (attempt + 1) of
                  Never \<Rightarrow>
                    Some (Pending, attempt + 1, now,
                          tr @ [(now, Scan (lc_formats ctx) (lc_mode ctx))])
                | Resolves d results \<Rightarrow>
                    if has_results results then
                      Some (Returned (formatScanResult (lc_scanType ctx) results
                              (first_format results)),
                            attempt + 1, now + d,
                            tr @ [(now, Scan (lc_formats ctx) (lc_mode ctx))])
                    else
                      (case wait_error (interval_wait (lc_interval ctx) (lc_signal ctx) (now + d)) of
                         Some e \<Rightarrow>
                           Some (Threw e, attempt + 1,
                                 wait_end (interval_wait (lc_interval ctx) (lc_signal ctx) (now + d)),
                                 tr @ (now, Scan (lc_formats ctx) (lc_mode ctx)) #
                                   wait_effects (interval_wait (lc_interval ctx) (lc_signal ctx)
                                     (now + d)))
                       | None \<Rightarrow>
                           scan_loop ctx scans (attempt + 1)
                             (wait_end (interval_wait (lc_interval ctx) (lc_signal ctx) (now + d)))
                             (tr @ (now, Scan (lc_formats ctx) (lc_mode ctx)) #
                                wait_effects (interval_wait (lc_interval ctx) (lc_signal ctx)
                                  (now + d))))
                | Rejects d e \<Rightarrow>
                    if err_name e = ''AbortError'' then
                      Some (Threw e, attempt + 1, now + d,
                            tr @ [(now, Scan (lc_formats ctx) (lc_mode ctx))])
                    else
                      (case wait_error (interval_wait (lc_interval ctx) (lc_signal ctx) (now + d)) of
                         Some e' \<Rightarrow>
                           Some (Threw e', attempt + 1,
                                 wait_end (interval_wait (lc_interval ctx) (lc_signal ctx) (now + d)),
                                 tr @ (now, Scan (lc_formats ctx) (lc_mode ctx)) #
                                   wait_effects (interval_wait (lc_interval ctx) (lc_signal ctx)
                                     (now + d)))
                       | None \<Rightarrow>
                           scan_loop ctx scans (attempt + 1)
                             (wait_end (interval_wait (lc_interval ctx) (lc_signal ctx) (now + d)))
                             (tr @ (now, Scan (lc_formats ctx) (lc_mode ctx)) #
                                wait_effects (interval_wait (lc_interval ctx) (lc_signal ctx)
                                  (now + d))))))"

declare scan_loop.simps [code]

text \<open>
  The configuration part of the \<^verbatim>\<open>try\<close> block of \<^verbatim>\<open>scanContinuous\<close> (lines 935 to 959),
  reached once the scan type is known to scan continuously.
\<close>

definition scanContinuous_setup ::
  "camera_scanner \<Rightarrow> scan_options \<Rightarrow> scan_config \<Rightarrow> js_error + loop_ctx" where
  "scanContinuous_setup s options scanConfig =
     (let formats' = default (opt_formats options) (formats scanConfig);
          mode = str_or_else (opt_mode options) (preferredMode scanConfig);
          maxAttempts =
            (case opt_maxAttempts options of
               None \<Rightarrow> None
             | Some m \<Rightarrow> if m = 0 then None else Some m)
      in case validateConfiguration s of
           Inl e \<Rightarrow> Inl e
         | Inr availableFormats \<Rightarrow>
             (let finalFormats' = filter (\<lambda>f. f \<in> set availableFormats) formats'
              in if length finalFormats' = 0 then
                   Inl (Error ''No supported formats available for scanning'')
                 else
                   Inr \<lparr>lc_scanType = cfg_scanType (config s), lc_formats = finalFormats',
                        lc_mode = mode,
                        lc_interval = default (opt_interval options) getContinuousConfig_interval,
                        lc_maxAttempts = maxAttempts, lc_signal = opt_signal options\<rparr>))"

text \<open>The low-level scanner as it answers one call of \<^verbatim>\<open>scanContinuous\<close>: its own
  \<^verbatim>\<open>scanContinuous\<close>, where it has one, and its successive \<^verbatim>\<open>scan\<close> calls.\<close>

record continuous_env =
  delegate :: "scan_result list option settled"
  scans :: "nat \<Rightarrow> scan_result list option settled"

text \<open>
  The \<^verbatim>\<open>try\<close> block of \<^verbatim>\<open>scanContinuous\<close> (lines 915 to 1112) with \<^verbatim>\<open>catch\<close> and
  \<^verbatim>\<open>finally\<close>. Whenever an exception reaches the \<^verbatim>\<open>catch\<close> block the flag
  \<^verbatim>\<open>scanSucceeded\<close> is still false, since it is set only right before a \<^verbatim>\<open>return\<close>. The
  method returns \<^verbatim>\<open>undefined\<close> (\<open>None\<close>) when the delegate resolves without results.
  For a scan type that does not scan continuously it returns the promise of \<^verbatim>\<open>scanOnce\<close>, called while the flag is set; the \<^verbatim>\<open>finally\<close> block then
  clears the flag.
\<close>

definition scanContinuous_try ::
  "camera_scanner \<Rightarrow> scan_options \<Rightarrow> continuous_env \<Rightarrow>
   (scan_outcome option, camera_scanner) run option" where
  "scanContinuous_try s options env =
     (let ty = cfg_scanType (config s);
          finish = (\<lambda>out t tr. \<lparr>completion = Returned out, clock = t,
                                  after = s\<lparr>isScanning := False\<rparr>, effects = tr\<rparr>);
          hang = (\<lambda>t tr. \<lparr>completion = Pending, clock = t,
                            after = s\<lparr>isScanning := True\<rparr>, effects = tr\<rparr>)
      in case getScanConfig s of
           Inl e \<Rightarrow> Some (finish (Some (scanContinuous_catch ty e False 0)) 0 [])
         | Inr scanConfig \<Rightarrow>
             if \<not> useContinuousScanning scanConfig then
               (let r = scanOnce (s\<lparr>isScanning := True\<rparr>) options (scans env 1)
                in Some \<lparr>completion =
                           (case completion r of
                              Returned out \<Rightarrow> Returned (Some out)
                            | Threw e \<Rightarrow> Threw e
                            | Pending \<Rightarrow> Pending),
                         clock = clock r, after = (after r)\<lparr>isScanning := False\<rparr>,
                         effects = effects r\<rparr>)
             else
               (case scanContinuous_setup s options scanConfig of
                  Inl e \<Rightarrow> Some (finish (Some (scanContinuous_catch ty e False 0)) 0 [])
                | Inr ctx \<Rightarrow>
                    (case throwIfAborted (lc_signal ctx) 0 of
                       Some e \<Rightarrow> Some (finish (Some (scanContinuous_catch ty e False 0)) 0 [])
                     | None \<Rightarrow>
                         if has_scanContinuous (opticalScanner s) then
                           (case delegate env of
                              Never \<Rightarrow>
                                Some (hang 0 [(0, ScanContinuous (lc_formats ctx) (lc_mode ctx))])
                            | Rejects d e \<Rightarrow>
                                Some (finish (Some (scanContinuous_catch ty e False 0)) d
                                        [(0, ScanContinuous (lc_formats ctx) (lc_mode ctx))])
                            | Resolves d results \<Rightarrow>
                                Some (finish
                                        (if has_results results then
                                           Some (formatScanResult ty results (first_format results))
                                         else None)
                                        d [(0, ScanContinuous (lc_formats ctx) (lc_mode ctx))]))
                         else
                           map_option
                             (\<lambda>(c, attempt, t, tr).
                                case c of
                                  Returned out \<Rightarrow> finish (Some out) t tr
                                | Threw e \<Rightarrow>
                                    finish (Some (scanContinuous_catch ty e False attempt)) t tr
                                | Pending \<Rightarrow> hang t tr)
                             (scan_loop ctx (scans env) 0 0 []))))"

text \<open>\<^verbatim>\<open>scanContinuous\<close> (lines 892 to 1169).\<close>

definition scanContinuous ::
  "camera_scanner \<Rightarrow> scan_options \<Rightarrow> continuous_env \<Rightarrow>
   (scan_outcome option, camera_scanner) run option" where
  "scanContinuous s options env =
     (if videoElement s = None \<or> stream s = None then
        Some \<lparr>completion = Threw (Error ''Camera not started. Call start() first.''),
              clock = 0, after = s, effects = []\<rparr>
      else if isScanning s then
        Some \<lparr>completion =
                Threw (Error ''Scan already in progress. Wait for current scan to complete.''),
              clock = 0, after = s, effects = []\<rparr>
      else scanContinuous_try s options env)"

section \<open>Scanning files\<close>

record js_file =
  js_file_name :: string
  js_file_size :: nat
  js_file_type :: string

text \<open>The first argument of \<^verbatim>\<open>scanFile\<close>: nothing, one file, or an array of files.\<close>

datatype files_arg = NoFiles | OneFile js_file | FileArray "js_file list"

text \<open>The type check of \<^verbatim>\<open>scanFile\<close> (lines 1330 to 1333): the lower-cased type of the file
  has to contain what follows the slash in one of the supported types.\<close>

definition supportedTypes :: "string list" where
  "supportedTypes =
     [''image/jpeg'', ''image/jpg'', ''image/png'', ''image/gif'', ''image/bmp'', ''image/webp'']"

definition after_slash :: "string \<Rightarrow> string" where
  "after_slash ty = takeWhile (\<lambda>c. c \<noteq> CHR ''/'') (drop 1 (dropWhile (\<lambda>c. c \<noteq> CHR ''/'') ty))"

definition supported_file :: "js_file \<Rightarrow> bool" where
  "supported_file f =
     list_ex (\<lambda>ty. js_includes (toLowerCase (js_file_type f)) (after_slash ty)) supportedTypes"

text \<open>\<^verbatim>\<open>Array.prototype.join\<close> with separator \<open>", "\<close>.\<close>

fun join_comma :: "string list \<Rightarrow> string" where
  "join_comma [] = []"
| "join_comma [x] = x"
| "join_comma (x # y # ys) = x @ '', '' @ join_comma (y # ys)"

text \<open>\<^verbatim>\<open>_getFileTimeoutConfig\<close> (lines 1692 to 1710): the timeout per file.\<close>

definition getFileTimeoutConfig :: "string list \<Rightarrow> int" where
  "getFileTimeoutConfig fs =
     (if ''mrz'' \<in> set fs then 60000
      else if ''pdf417_enhanced'' \<in> set fs then 30000
      else 20000)"

text \<open>The configuration part of the \<^verbatim>\<open>try\<close> block of \<^verbatim>\<open>scanFile\<close> (lines 1353 to 1390).\<close>

record file_plan =
  fp_scanType :: string
  fp_formats :: "string list"
  fp_mode :: string
  fp_timeoutMs :: int
  fp_processAll :: bool
  fp_signal :: "abort_signal option"

definition scanFile_setup :: "camera_scanner \<Rightarrow> scan_options \<Rightarrow> js_error + file_plan" where
  "scanFile_setup s options =
     (case getScanConfig s of
        Inl e \<Rightarrow> Inl e
      | Inr scanConfig \<Rightarrow>
          (case (case opt_formats options of
                   Some fs \<Rightarrow> Inr fs
                 | None \<Rightarrow> getFileScanFormats s) of
             Inl e \<Rightarrow> Inl e
           | Inr formats' \<Rightarrow>
               (let mode = str_or_else (opt_mode options) (preferredMode scanConfig)
                in case validateConfiguration s of
                     Inl e \<Rightarrow> Inl e
                   | Inr availableFormats \<Rightarrow>
                       (let finalFormats' = filter (\<lambda>f. f \<in> set availableFormats) formats'
                        in if length finalFormats' = 0 then
                             Inl (Error ''No supported formats available for file scanning'')
                           else
                             Inr \<lparr>fp_scanType = cfg_scanType (config s),
                                  fp_formats = finalFormats', fp_mode = mode,
                                  fp_timeoutMs = default (opt_timeoutMs options)
                                                   (getFileTimeoutConfig finalFormats'),
                                  fp_processAll = default (opt_processAll options) False,
                                  fp_signal = opt_signal options\<rparr>))))"

definition file_info :: "js_file \<Rightarrow> nat \<Rightarrow> file_meta" where
  "file_info f processed =
     \<lparr>file_name = js_file_name f, file_size = js_file_size f, file_type = js_file_type f,
      processedIndex = processed\<rparr>"

text \<open>The entry for a file whose scan failed for another reason than an abort (lines 1535
  to 1548). The seconds of the timeout are a formatted quotient and are not rendered.\<close>

definition fileError :: "string \<Rightarrow> js_error \<Rightarrow> js_file \<Rightarrow> nat \<Rightarrow> scan_outcome" where
  "fileError ty e f processed =
     (outcome False ty)
       \<lparr>error := Some (if err_message e = ''FILE_SCAN_TIMEOUT''
                        then ''File scan timed out after {timeoutMs / 1000}s''
                        else ''File scanning failed: '' @ err_message e),
        code := Some (if err_message e = ''FILE_SCAN_TIMEOUT'' then ''FILE_SCAN_TIMEOUT''
                      else ''FILE_SCAN_ERROR''),
        file_prop := Some (file_info f processed)\<rparr>"

text \<open>How the loop over the files is left: by returning the first hit, by an exception
  that is passed on to the outer \<^verbatim>\<open>catch\<close>, stuck on a scan that never settles, or at the
  end of the array with the entries collected.\<close>

datatype file_exit =
    FirstHit scan_outcome
  | Passed js_error
  | Stuck
  | Finished "scan_outcome list"

record file_loop_result =
  fl_exit :: file_exit
  fl_processedFiles :: nat
  fl_scanSucceeded :: bool
  fl_clock :: nat
  fl_effects :: trace

text \<open>
  The loop over the files (lines 1411 to 1560). \<open>answers k\<close> is how the low-level scanner
  answers for the \<open>k\<close>-th file; the other arguments are the counter \<^verbatim>\<open>processedFiles\<close>, the
  array \<^verbatim>\<open>allResults\<close>, the flag \<^verbatim>\<open>scanSucceeded\<close>, the time and the effects so far.
\<close>

fun file_loop ::
  "file_plan \<Rightarrow> (nat \<Rightarrow> scan_result list option settled) \<Rightarrow> js_file list \<Rightarrow>
   nat \<Rightarrow> scan_outcome list \<Rightarrow> bool \<Rightarrow> nat \<Rightarrow> trace \<Rightarrow> file_loop_result" where
  "file_loop plan answers [] processed allResults succeeded now tr =
     \<lparr>fl_exit = Finished allResults, fl_processedFiles = processed,
      fl_scanSucceeded = succeeded, fl_clock = now, fl_effects = tr\<rparr>"
| "file_loop plan answers (f # fs) processed allResults succeeded now tr =
     (case throwIfAborted (fp_signal plan) now of
        Some e \<Rightarrow>
          \<lparr>fl_exit = Passed e, fl_processedFiles = processed + 1,
           fl_scanSucceeded = succeeded, fl_clock = now, fl_effects = tr\<rparr>
      | None \<Rightarrow>
          (let timer = (fp_timeoutMs plan > 0);
               tr1 = tr @ (now, Scan (fp_formats plan) (fp_mode plan)) #
                     (if timer then [(now, SetTimeout FileTimeout (fp_timeoutMs plan))] else [])
           in case race (answers (processed + 1)) (fp_timeoutMs plan)
                     (Error ''FILE_SCAN_TIMEOUT'') of
                Never \<Rightarrow>
                  \<lparr>fl_exit = Stuck, fl_processedFiles = processed + 1,
                   fl_scanSucceeded = succeeded, fl_clock = now, fl_effects = tr1\<rparr>
              | Rejects d e \<Rightarrow>
                  (let tr2 = tr1 @ (if timer then [(now + d, ClearTimeout FileTimeout)] else [])
                   in if err_name e = ''AbortError'' then
                        \<lparr>fl_exit = Passed e, fl_processedFiles = processed + 1,
                         fl_scanSucceeded = succeeded, fl_clock = now + d, fl_effects = tr2\<rparr>
                      else
                        file_loop plan answers fs (processed + 1)
                          (if fp_processAll plan
                           then allResults @ [fileError (fp_scanType plan) e f (processed + 1)]
                           else allResults)
                          succeeded (now + d) tr2)
              | Resolves d fileResults \<Rightarrow>
                  (let tr2 = tr1 @ (if timer then [(now + d, ClearTimeout FileTimeout)] else [])
                   in if has_results fileResults then
                        (let enrichedResult =
                               (formatScanResult (fp_scanType plan) fileResults
                                  (first_format fileResults))
                                 \<lparr>file_prop := Some (file_info f (processed + 1))\<rparr>
                         in if fp_processAll plan then
                              file_loop plan answers fs (processed + 1)
                                (allResults @ [enrichedResult]) True (now + d) tr2
                            else
                              \<lparr>fl_exit = FirstHit enrichedResult,
                               fl_processedFiles = processed + 1, fl_scanSucceeded = True,
                               fl_clock = now + d, fl_effects = tr2\<rparr>)
                      else
                        file_loop plan answers fs (processed + 1)
                          (if fp_processAll plan
                           then allResults @
                                [(outcome False (fp_scanType plan))
                                   \<lparr>error := Some ''No optical codes detected in file'',
                                    file_prop := Some (file_info f (processed + 1))\<rparr>]
                           else allResults)
                          succeeded (now + d) tr2)))"

text \<open>The outer \<^verbatim>\<open>catch\<close> block of \<^verbatim>\<open>scanFile\<close> (lines 1601 to 1648).\<close>

definition scanFile_catch :: "string \<Rightarrow> js_error \<Rightarrow> bool \<Rightarrow> nat \<Rightarrow> scan_outcome" where
  "scanFile_catch ty e scanSucceeded processed =
     (if err_name e = ''AbortError'' \<and> scanSucceeded then
        (outcome True ty)
          \<lparr>message := Some ''File scan completed successfully despite cleanup abort'',
           filesProcessed := Some processed\<rparr>
      else if err_name e = ''AbortError'' \<or> js_includes (err_message e) ''cancelled'' then
        (outcome False ty)
          \<lparr>cancelled := Some True, error := Some ''File scanning cancelled'',
           filesProcessed := Some processed\<rparr>
      else
        (outcome False ty)
          \<lparr>error := Some (str_or_else (Some (err_message e)) ''File scanning failed''),
           code := Some ''FILE_SCAN_ERROR'', filesProcessed := Some processed\<rparr>)"

text \<open>What \<^verbatim>\<open>scanFile\<close> returns: an outcome object, which in the mode that processes all
  files also carries the array of entries.\<close>

record batch_outcome = scan_outcome +
  results_prop :: "scan_outcome list option"

definition plain :: "scan_outcome \<Rightarrow> batch_outcome" where
  "plain out = scan_outcome.extend out (batch_outcome.fields None)"

definition batch :: "scan_outcome \<Rightarrow> scan_outcome list \<Rightarrow> batch_outcome" where
  "batch out entries = scan_outcome.extend out (batch_outcome.fields (Some entries))"

text \<open>The final result compilation (lines 1569 to 1599).\<close>

definition scanFile_final :: "file_plan \<Rightarrow> nat \<Rightarrow> nat \<Rightarrow> scan_outcome list \<Rightarrow> batch_outcome" where
  "scanFile_final plan n processed allResults =
     (if fp_processAll plan then
        (let successCount = length (filter (\<lambda>r. success r \<noteq> False) allResults)
         in batch
              ((outcome (successCount > 0) (fp_scanType plan))
                 \<lparr>summary := Some \<lparr>totalFiles = n, processedFiles = processed,
                                   successfulFiles = Some successCount,
                                   failedFiles = Some (length allResults - successCount)\<rparr>\<rparr>)
              allResults)
      else
        plain
          ((outcome False (fp_scanType plan))
             \<lparr>error := Some (''No optical codes found in any of the '' @ show_nat processed @
                              '' processed files''),
              code := Some ''NO_RESULTS_IN_FILES'',
              summary := Some \<lparr>totalFiles = n, processedFiles = processed,
                                successfulFiles = None, failedFiles = None\<rparr>\<rparr>))"

text \<open>The \<^verbatim>\<open>try\<close> block of \<^verbatim>\<open>scanFile\<close> with its \<^verbatim>\<open>catch\<close> (lines 1345 to 1648).\<close>

definition scanFile_try ::
  "camera_scanner \<Rightarrow> js_file list \<Rightarrow> scan_options \<Rightarrow> (nat \<Rightarrow> scan_result list option settled) \<Rightarrow>
   (batch_outcome, camera_scanner) run" where
  "scanFile_try s fileArray options answers =
     (let ty = cfg_scanType (config s)
      in case scanFile_setup s options of
           Inl e \<Rightarrow>
             \<lparr>completion = Returned (plain (scanFile_catch ty e False 0)), clock = 0,
              after = s, effects = []\<rparr>
         | Inr plan \<Rightarrow>
             (case throwIfAborted (fp_signal plan) 0 of
                Some e \<Rightarrow>
                  \<lparr>completion = Returned (plain (scanFile_catch ty e False 0)), clock = 0,
                   after = s, effects = []\<rparr>
              | None \<Rightarrow>
                  (let l = file_loop plan answers fileArray 0 [] False 0 []
                   in \<lparr>completion =
                         (case fl_exit l of
                            FirstHit enrichedResult \<Rightarrow> Returned (plain enrichedResult)
                          | Passed e \<Rightarrow>
                              Returned (plain (scanFile_catch ty e (fl_scanSucceeded l)
                                                 (fl_processedFiles l)))
                          | Stuck \<Rightarrow> Pending
                          | Finished allResults \<Rightarrow>
                              Returned (scanFile_final plan (length fileArray)
                                          (fl_processedFiles l) allResults)),
                       clock = fl_clock l, after = s, effects = fl_effects l\<rparr>)))"

text \<open>\<^verbatim>\<open>scanFile\<close> (lines 1305 to 1649). The checks of the argument throw before the
  \<^verbatim>\<open>try\<close>; the low-level scanner always exists once the constructor has run.\<close>

definition scanFile ::
  "camera_scanner \<Rightarrow> files_arg \<Rightarrow> scan_options \<Rightarrow> (nat \<Rightarrow> scan_result list option settled) \<Rightarrow>
   (batch_outcome, camera_scanner) run" where
  "scanFile s files options answers =
     (case (case files of NoFiles \<Rightarrow> None | OneFile f \<Rightarrow> Some [f] | FileArray fs \<Rightarrow> Some fs) of
        None \<Rightarrow>
          \<lparr>completion = Threw (Error ''No files provided for scanning''), clock = 0,
           after = s, effects = []\<rparr>
      | Some fileArray \<Rightarrow>
          if length fileArray = 0 then
            \<lparr>completion = Threw (Error ''No files provided for scanning''), clock = 0,
             after = s, effects = []\<rparr>
          else
            (let invalidFiles = filter (\<lambda>f. \<not> supported_file f) fileArray
             in if length invalidFiles > 0 then
                  \<lparr>completion =
                     Threw (Error (''Unsupported file types: '' @
                                   join_comma (map js_file_name invalidFiles))),
                   clock = 0, after = s, effects = []\<rparr>
                else scanFile_try s fileArray options answers))"

section \<open>Sample instances\<close>

text \<open>
  Instances on which the properties below are exercised: a barcode scanner as the first
  constructor builds it over a low-level scanner that offers four formats and no
  \<^verbatim>\<open>scanContinuous\<close>, the same with its camera running, and their V1 counterparts.
\<close>

definition four_formats :: optical_scanner where
  "four_formats =
     \<lparr>getSupportedFormats = [''qr_code'', ''pdf417'', ''pdf417_enhanced'', ''mrz''],
      has_scanContinuous = False\<rparr>"

definition barcode_options :: constructor_options where
  "barcode_options =
     \<lparr>opt_scanType = Some ''barcode'', opt_scanMode = None, opt_licenseKey = None,
      opt_targetContainer = None\<rparr>"

definition barcode_scanner :: camera_scanner where
  "barcode_scanner =
     \<lparr>config = \<lparr>cfg_scanType = ''barcode'', cfg_scanMode = ''first'', cfg_licenseKey = '''',
                 cfg_targetContainer = None\<rparr>,
      stream = None, videoElement = None, opticalScanner = four_formats,
      pluginOptions = \<lparr>mrz = None, pdf417_enhanced = None\<rparr>, isScanning = False\<rparr>"

definition running_scanner :: camera_scanner where
  "running_scanner =
     barcode_scanner\<lparr>stream := Some \<lparr>stream_id = 1\<rparr>,
                      videoElement := Some \<lparr>video_id = 2, readyState = 4\<rparr>\<rparr>"

definition barcode_scanner_V1 :: camera_scanner_V1 where
  "barcode_scanner_V1 =
     \<lparr>config = \<lparr>cfg_scanType = ''barcode'', cfg_scanMode = ''first'', cfg_licenseKey = '''',
                 cfg_targetContainer = None\<rparr>,
      stream = None, videoElement = None, opticalScanner = four_formats,
      pluginOptions = \<lparr>mrz = None, pdf417_enhanced = None\<rparr>, isScanning = False,
      formats_V1 = [''qr_code'', ''pdf417_enhanced'', ''pdf417''],
      useContinuousScanning_V1 = True, mrzMode_V1 = ''element''\<rparr>"

definition running_scanner_V1 :: camera_scanner_V1 where
  "running_scanner_V1 =
     barcode_scanner_V1\<lparr>stream := Some \<lparr>stream_id = 1\<rparr>,
                         videoElement := Some \<lparr>video_id = 2, readyState = 4\<rparr>\<rparr>"

definition no_options :: scan_options where
  "no_options =
     \<lparr>opt_formats = None, opt_mode = None, opt_timeoutMs = None, opt_signal = None,
      opt_interval = None, opt_maxAttempts = None, opt_processAll = None\<rparr>"

definition qr_hit :: scan_result where
  "qr_hit =
     \<lparr>res_format = ''qr_code'',
      res_data = [DObject \<lparr>det_text = Some ''hello'', det_rawValue = None,
                           det_driverLicense = None\<rparr>],
      res_text = None, res_rawData = None, res_driverLicense = None, res_fields = None,
      res_confidence = None, res_boundingBox = None\<rparr>"

text \<open>Camera utilities that hand out a stream and then never deliver the video element,
  that are refused the constraints, and that are never called.\<close>

definition slow_video :: camera_env where
  "slow_video =
     \<lparr>startCameraStream = Resolves 40 \<lparr>stream_id = 1\<rparr>, createVideoElement = Never\<rparr>"

definition overconstrained :: camera_env where
  "overconstrained =
     \<lparr>startCameraStream =
        Rejects 3 \<lparr>err_name = ''OverconstrainedError'',
                   err_message = ''Constraints could not be satisfied''\<rparr>,
      createVideoElement = Never\<rparr>"

definition idle_camera :: camera_env where
  "idle_camera = \<lparr>startCameraStream = Never, createVideoElement = Never\<rparr>"


definition quick_misses :: continuous_env where
  "quick_misses = \<lparr>delegate = Never, scans = (\<lambda>k. Resolves 100 (Some []))\<rparr>"

definition three_attempts :: scan_options where
  "three_attempts = no_options\<lparr>opt_maxAttempts := Some 3\<rparr>"

definition abort_after_3s :: abort_signal where
  "abort_after_3s = \<lparr>aborts_at = Some 3000, reason = AbortError\<rparr>"

text \<open>A signal aborted with the standard error at a given time; a running barcode scanner
  whose low-level scanner does offer \<^verbatim>\<open>scanContinuous\<close>, with a delegate that finds a QR
  code; low-level scanners whose first scan finds nothing and whose second finds a QR
  code, quickly and slowly.\<close>

definition abort_at :: "nat \<Rightarrow> abort_signal" where
  "abort_at a = \<lparr>aborts_at = Some a, reason = AbortError\<rparr>"

definition native_scanner :: camera_scanner where
  "native_scanner = running_scanner\<lparr>opticalScanner := four_formats\<lparr>has_scanContinuous := True\<rparr>\<rparr>"

definition native_hit :: continuous_env where
  "native_hit = \<lparr>delegate = Resolves 50 (Some [qr_hit]), scans = (\<lambda>k. Never)\<rparr>"

definition miss_then_hit :: continuous_env where
  "miss_then_hit =
     \<lparr>delegate = Never,
      scans = (\<lambda>k. if k = 1 then Resolves 100 (Some []) else Resolves 50 (Some [qr_hit]))\<rparr>"


definition barcode_config :: scan_config where
  "barcode_config =
     \<lparr>formats = [''qr_code'', ''pdf417_enhanced'', ''pdf417''],
      useContinuousScanning = True, preferredMode = ''first''\<rparr>"

definition barcode_ctx :: "int option \<Rightarrow> abort_signal option \<Rightarrow> loop_ctx" where
  "barcode_ctx m sig =
     \<lparr>lc_scanType = ''barcode'', lc_formats = [''qr_code'', ''pdf417_enhanced'', ''pdf417''],
      lc_mode = ''first'', lc_interval = 2500, lc_maxAttempts = m, lc_signal = sig\<rparr>"

text \<open>Three image files and a text file; a low-level scanner that finds a QR code in
  the first and third file and fails on the second; the option to process all files.\<close>

definition front_png :: js_file where
  "front_png = \<lparr>js_file_name = ''front.png'', js_file_size = 2048, js_file_type = ''image/png''\<rparr>"

definition back_jpg :: js_file where
  "back_jpg = \<lparr>js_file_name = ''back.jpg'', js_file_size = 4096, js_file_type = ''image/jpeg''\<rparr>"

definition blurred_png :: js_file where
  "blurred_png =
     \<lparr>js_file_name = ''blurred.png'', js_file_size = 1024, js_file_type = ''image/png''\<rparr>"

definition notes_txt :: js_file where
  "notes_txt = \<lparr>js_file_name = ''notes.txt'', js_file_size = 12, js_file_type = ''text/plain''\<rparr>"

definition hit_miss_hit :: "nat \<Rightarrow> scan_result list option settled" where
  "hit_miss_hit k =
     (if k = 2 then Rejects 20 (Error ''decode failed'') else Resolves 30 (Some [qr_hit]))"

definition process_all :: scan_options where
  "process_all = no_options\<lparr>opt_processAll := Some True\<rparr>"

definition barcode_file_plan :: "abort_signal option \<Rightarrow> file_plan" where
  "barcode_file_plan sig =
     \<lparr>fp_scanType = ''barcode'', fp_formats = [''qr_code'', ''pdf417'', ''pdf417_enhanced''],
      fp_mode = ''first'', fp_timeoutMs = 30000, fp_processAll = True, fp_signal = sig\<rparr>"

text \<open>An MRZ scanner with a license key, as each constructor builds it, its camera
  running; and a result of the MRZ plugin.\<close>

definition mrz_constructor_options :: constructor_options where
  "mrz_constructor_options =
     \<lparr>opt_scanType = Some ''mrz'', opt_scanMode = None, opt_licenseKey = Some ''LICENSE'',
      opt_targetContainer = None\<rparr>"

definition mrz_scanner :: camera_scanner where
  "mrz_scanner =
     \<lparr>config = \<lparr>cfg_scanType = ''mrz'', cfg_scanMode = ''first'', cfg_licenseKey = ''LICENSE'',
                 cfg_targetContainer = None\<rparr>,
      stream = None, videoElement = None, opticalScanner = four_formats,
      pluginOptions =
        \<lparr>mrz = Some \<lparr>mrz_licenseKey = ''LICENSE'', mrzMode = ''camera'',
                      scannerConfig = Some \<lparr>container = None\<rparr>\<rparr>,
         pdf417_enhanced = Some \<lparr>pdf_licenseKey = ''LICENSE'', useDynamsoft = True,
                                  parseDL = True\<rparr>\<rparr>,
      isScanning = False\<rparr>"

definition running_mrz_scanner :: camera_scanner where
  "running_mrz_scanner =
     mrz_scanner\<lparr>stream := Some \<lparr>stream_id = 1\<rparr>,
                  videoElement := Some \<lparr>video_id = 2, readyState = 4\<rparr>\<rparr>"

definition mrz_scanner_V1 :: camera_scanner_V1 where
  "mrz_scanner_V1 =
     \<lparr>config = \<lparr>cfg_scanType = ''mrz'', cfg_scanMode = ''first'', cfg_licenseKey = ''LICENSE'',
                 cfg_targetContainer = None\<rparr>,
      stream = None, videoElement = None, opticalScanner = four_formats,
      pluginOptions =
        \<lparr>mrz = Some \<lparr>mrz_licenseKey = ''LICENSE'', mrzMode = ''camera'',
                      scannerConfig = Some \<lparr>container = None\<rparr>\<rparr>,
         pdf417_enhanced = None\<rparr>,
      isScanning = False, formats_V1 = [''mrz''], useContinuousScanning_V1 = False,
      mrzMode_V1 = ''camera''\<rparr>"

definition running_mrz_scanner_V1 :: camera_scanner_V1 where
  "running_mrz_scanner_V1 =
     mrz_scanner_V1\<lparr>stream := Some \<lparr>stream_id = 1\<rparr>,
                     videoElement := Some \<lparr>video_id = 2, readyState = 4\<rparr>\<rparr>"

definition mrz_hit :: scan_result where
  "mrz_hit =
     \<lparr>res_format = ''mrz'', res_data = [], res_text = None,
      res_rawData =
        Some [\<lparr>re_data = Some \<lparr>md_entries = [(''documentNumber'', ''L898902C3'')],
                                 md_validation = None, md_invalidFields = None\<rparr>,
               re_validation = Some \<lparr>overallStatus = Some ''partial'', val_details = []\<rparr>,
               re_invalidFields = Some []\<rparr>],
      res_driverLicense = None, res_fields = None, res_confidence = None,
      res_boundingBox = None\<rparr>"

definition barcode_plan :: scan_plan where
  "barcode_plan =
     \<lparr>finalFormats = [''qr_code'', ''pdf417_enhanced'', ''pdf417''], plan_mode = ''first'',
      timeoutMs = 20000, plan_minScanTime = 1500\<rparr>"

definition mrz_plan :: scan_plan where
  "mrz_plan =
     \<lparr>finalFormats = [''mrz''], plan_mode = ''first'', timeoutMs = 0, plan_minScanTime = 0\<rparr>"

section \<open>Notions used to state the properties\<close>

text \<open>The error with which acquiring the stream or the video element fails in a call of
  \<^verbatim>\<open>start\<close>, if it does, and the stream that was acquired, if any.\<close>

definition acquisition_error :: "camera_env \<Rightarrow> js_error option" where
  "acquisition_error cam =
     (case startCameraStream cam of
        Rejects d e \<Rightarrow> Some e
      | Never \<Rightarrow> None
      | Resolves d st \<Rightarrow>
          (case race (createVideoElement cam) 10000 (Error ''Video load timeout'') of
             Rejects d2 e \<Rightarrow> Some e
           | _ \<Rightarrow> None))"

definition acquired_stream :: "camera_env \<Rightarrow> media_stream option" where
  "acquired_stream cam =
     (case startCameraStream cam of Resolves d st \<Rightarrow> Some st | _ \<Rightarrow> None)"

definition start_codes :: "string list" where
  "start_codes =
     [''CAMERA_PERMISSION_DENIED'', ''NO_CAMERA_FOUND'', ''CAMERA_TIMEOUT'',
      ''INVALID_CONTAINER'', ''CAMERA_START_ERROR'']"

text \<open>The value a method returned, for use where it is known to have returned.\<close>

definition returned :: "('a, 's) run \<Rightarrow> 'a option" where
  "returned r = (case completion r of Returned out \<Rightarrow> Some out | _ \<Rightarrow> None)"

text \<open>A promise that settles after \<open>d\<close> milliseconds settles before a timer of \<open>ms\<close>
  milliseconds fires, or no timer is set.\<close>

definition in_time :: "nat \<Rightarrow> int \<Rightarrow> bool" where
  "in_time d ms = (ms \<le> 0 \<or> int d \<le> ms)"

text \<open>
  Notions for the fallback loop. A scan attempt yields no detection when it resolves
  without results or rejects with anything but an abort; \<open>settle_time\<close> is the time it
  takes. If the first \<open>k\<close> attempts yield nothing and each wait runs its full length,
  attempt \<open>k + 1\<close> begins at \<open>iteration_start\<close>, and \<open>failed_trace\<close> is what has been done
  to the collaborators by then.
\<close>

definition no_detection :: "scan_result list option settled \<Rightarrow> bool" where
  "no_detection p =
     (case p of
        Resolves d results \<Rightarrow> \<not> has_results results
      | Rejects d e \<Rightarrow> err_name e \<noteq> ''AbortError''
      | Never \<Rightarrow> False)"

fun settle_time :: "'a settled \<Rightarrow> nat" where
  "settle_time (Resolves d v) = d"
| "settle_time (Rejects d e) = d"
| "settle_time Never = 0"

fun iteration_start :: "loop_ctx \<Rightarrow> (nat \<Rightarrow> scan_result list option settled) \<Rightarrow> nat \<Rightarrow> nat" where
  "iteration_start ctx sc 0 = 0"
| "iteration_start ctx sc (Suc k) =
     iteration_start ctx sc k + settle_time (sc (Suc k)) + nat (lc_interval ctx)"

fun failed_trace :: "loop_ctx \<Rightarrow> (nat \<Rightarrow> scan_result list option settled) \<Rightarrow> nat \<Rightarrow> trace" where
  "failed_trace ctx sc 0 = []"
| "failed_trace ctx sc (Suc k) =
     failed_trace ctx sc k @
     (iteration_start ctx sc k, Scan (lc_formats ctx) (lc_mode ctx)) #
     wait_effects (interval_wait (lc_interval ctx) (lc_signal ctx)
       (iteration_start ctx sc k + settle_time (sc (Suc k))))"

fun is_scan :: "effect \<Rightarrow> bool" where
  "is_scan (Scan fs m) = True"
| "is_scan _ = False"

definition scan_calls :: "trace \<Rightarrow> nat" where
  "scan_calls tr = length (filter is_scan (map snd tr))"


text \<open>
  Notions for the file batch. The scan of a file is a hit when it resolves with results
  before its timeout; it settles when it resolves, or rejects with anything but an abort,
  or the timeout fires. A signal is never aborted when it is absent or has no abort time.
\<close>

definition file_hit :: "file_plan \<Rightarrow> scan_result list option settled \<Rightarrow> bool" where
  "file_hit plan p =
     (case race p (fp_timeoutMs plan) (Error ''FILE_SCAN_TIMEOUT'') of
        Resolves d rs \<Rightarrow> has_results rs
      | _ \<Rightarrow> False)"

definition file_settles :: "file_plan \<Rightarrow> scan_result list option settled \<Rightarrow> bool" where
  "file_settles plan p =
     (case race p (fp_timeoutMs plan) (Error ''FILE_SCAN_TIMEOUT'') of
        Resolves d rs \<Rightarrow> True
      | Rejects d e \<Rightarrow> err_name e \<noteq> ''AbortError''
      | Never \<Rightarrow> False)"

text \<open>
  The scan of a file ends when it settles in any way or its timeout fires. If the loop
  over the files gets that far, the scan of file \<open>k\<close> has ended at \<open>file_done\<close>. The loop
  is left with a success when it returns a first hit that is a success and not a
  cancellation, when it passes on an \<open>AbortError\<close> with the flag \<^verbatim>\<open>scanSucceeded\<close> set, or
  when it ends in the mode that processes all files with a successful entry collected.
\<close>

definition file_ends :: "file_plan \<Rightarrow> scan_result list option settled \<Rightarrow> bool" where
  "file_ends plan p = (race p (fp_timeoutMs plan) (Error ''FILE_SCAN_TIMEOUT'') \<noteq> Never)"

fun file_done :: "file_plan \<Rightarrow> (nat \<Rightarrow> scan_result list option settled) \<Rightarrow> nat \<Rightarrow> nat" where
  "file_done plan answers 0 = 0"
| "file_done plan answers (Suc k) =
     file_done plan answers k +
     settle_time (race (answers (Suc k)) (fp_timeoutMs plan) (Error ''FILE_SCAN_TIMEOUT''))"

definition benign_exit :: "file_plan \<Rightarrow> file_loop_result \<Rightarrow> bool" where
  "benign_exit plan l =
     (case fl_exit l of
        FirstHit out \<Rightarrow> success out \<and> cancelled out = None
      | Passed e \<Rightarrow> err_name e = ''AbortError'' \<and> fl_scanSucceeded l
      | Stuck \<Rightarrow> False
      | Finished allResults \<Rightarrow> fp_processAll plan \<and> list_ex success allResults)"

definition never_aborted :: "abort_signal option \<Rightarrow> bool" where
  "never_aborted signal = (case signal of None \<Rightarrow> True | Some sig \<Rightarrow> aborts_at sig = None)"

definition hit_count :: "file_plan \<Rightarrow> (nat \<Rightarrow> scan_result list option settled) \<Rightarrow> nat \<Rightarrow> nat \<Rightarrow> nat" where
  "hit_count plan answers processed n =
     length (filter (\<lambda>k. file_hit plan (answers k)) [processed + 1 ..< processed + n + 1])"

definition entry_names :: "scan_outcome list \<Rightarrow> string option list" where
  "entry_names entries = map (\<lambda>r. map_option file_name (file_prop r)) entries"

section \<open>The MRZ validity flag\<close>

text \<open>
  C3. In every outcome that \<^verbatim>\<open>_formatScanResult\<close> builds for the format \<open>mrz\<close>, the
  property \<open>valid\<close> is present and equals: the \<open>overallStatus\<close> of the outcome's
  \<open>validation\<close> is \<open>complete\<close>, or it is \<open>partial\<close> and the outcome's \<open>invalidFields\<close> is
  empty. This holds for every status (absent ones included) and every list of invalid
  fields, wherever in the raw data the two were found.
\<close>

theorem mrz_valid_predicate:
  "\<exists>v bad.
     validation (formatScanResult_V1 ty (Some (r # rs)) ''mrz'') = Some v \<and>
     invalidFields (formatScanResult_V1 ty (Some (r # rs)) ''mrz'') = Some bad \<and>
     v = mrz_validation r \<and> bad = mrz_invalidFields r \<and>
     valid (formatScanResult_V1 ty (Some (r # rs)) ''mrz'') =
       Some (overallStatus v = Some ''complete'' \<or>
             (overallStatus v = Some ''partial'' \<and> bad = []))"
  by (simp add: formatScanResult_V1_def formatMrzResult_def isValid_def Let_def)

section \<open>The sample instances are what the constructors build\<close>

lemma barcode_scanner_constructed:
  "CameraScanner barcode_options four_formats = Inr barcode_scanner"
  by (simp add: CameraScanner_def barcode_options_def four_formats_def barcode_scanner_def
      default_def Let_def buildPluginOptions_def validateConfiguration_def getScanConfig_def
      getEnhancedFeatures_def)

lemma barcode_scanner_V1_constructed:
  "CameraScanner_V1 barcode_options four_formats = Inr barcode_scanner_V1"
  by (simp add: CameraScanner_V1_def barcode_options_def four_formats_def
      barcode_scanner_V1_def default_def Let_def)

section \<open>Starting a camera that is already running\<close>

text \<open>
  C10. When stream and video element are both set, \<^verbatim>\<open>start\<close> with a DOM element as
  container returns the outcome \<open>Camera already active\<close> with \<open>success\<close> true at once; the
  instance afterwards is the instance before, and nothing is done to the camera or the
  container (the effect log is empty). Both revisions behave so.
\<close>

theorem start_already_active:
  assumes "stream s \<noteq> None" and "videoElement s \<noteq> None"
    and "stream v \<noteq> None" and "videoElement v \<noteq> None"
  shows "start s (HTMLElement el) cam =
           \<lparr>completion = Returned ((outcome True (cfg_scanType (config s)))
               \<lparr>videoReady := Some True, message := Some ''Camera already active''\<rparr>),
            clock = 0, after = s, effects = []\<rparr> \<and>
         start_V1 v (HTMLElement el) cam =
           \<lparr>completion = Returned ((outcome True (cfg_scanType (config v)))
               \<lparr>videoReady := Some True, message := Some ''Camera already active''\<rparr>),
            clock = 0, after = v, effects = []\<rparr>"
  using assms by (auto simp: start_def start_V1_def)

theorem start_already_active_witness:
  "Option.bind (returned (start running_scanner (HTMLElement 7)
       \<lparr>startCameraStream = Never, createVideoElement = Never\<rparr>)) message =
     Some ''Camera already active'' \<and>
   after (start running_scanner (HTMLElement 7)
       \<lparr>startCameraStream = Never, createVideoElement = Never\<rparr>) = running_scanner \<and>
   effects (start_V1 running_scanner_V1 (HTMLElement 7)
       \<lparr>startCameraStream = Never, createVideoElement = Never\<rparr>) = []"
  using start_already_active [of running_scanner running_scanner_V1 7
      "\<lparr>startCameraStream = Never, createVideoElement = Never\<rparr>"]
  by (simp add: running_scanner_def running_scanner_V1_def outcome_def returned_def)

section \<open>Failing to start\<close>

lemma start_failure_code: "\<exists>c. code (start_failure ty e) = Some c \<and> c \<in> set start_codes"
  by (simp add: start_failure_def start_codes_def outcome_def)

lemma start_failure_fields:
  "\<not> success (start_failure ty e)" "details (start_failure ty e) = Some (err_message e)"
  by (simp_all add: start_failure_def outcome_def split: prod.splits)

lemma start_catch_released:
  "completion (start_catch s e t tr) = Returned (start_failure (cfg_scanType (config s)) e)"
  "stream (after (start_catch s e t tr)) = None"
  "videoElement (after (start_catch s e t tr)) = None"
  "\<not> isScanning (after (start_catch s e t tr))"
  "stream s = Some st \<Longrightarrow> TrackStop (stream_id st) \<in> snd ` set (effects (start_catch s e t tr))"
  by (simp_all add: start_catch_def stop_def image_iff)

text \<open>
  C7, as the code has it. Let \<^verbatim>\<open>start\<close> be called with a DOM element as container on an
  instance whose camera is not already running, and let acquiring the stream or the video
  element fail with error \<open>e\<close> (a rejection, or the ten-second timer). Then \<^verbatim>\<open>start\<close>
  returns, and does not throw, an outcome with \<open>success\<close> false, with \<open>details\<close> the
  message of \<open>e\<close> and with a \<open>code\<close> among \<open>CAMERA_PERMISSION_DENIED\<close>, \<open>NO_CAMERA_FOUND\<close>,
  \<open>CAMERA_TIMEOUT\<close>, \<open>INVALID_CONTAINER\<close> and the default \<open>CAMERA_START_ERROR\<close>; \<^verbatim>\<open>stop\<close>
  has run: stream and video element are null, the scanning flag is false, and the tracks
  of a stream that had been acquired were stopped.
\<close>

theorem start_failure_structured:
  assumes "stream s = None \<or> videoElement s = None"
    and "acquisition_error cam = Some e"
  shows "\<exists>out c. completion (start s (HTMLElement el) cam) = Returned out \<and>
           \<not> success out \<and> code out = Some c \<and> c \<in> set start_codes \<and>
           details out = Some (err_message e) \<and>
           stream (after (start s (HTMLElement el) cam)) = None \<and>
           videoElement (after (start s (HTMLElement el) cam)) = None \<and>
           \<not> isScanning (after (start s (HTMLElement el) cam)) \<and>
           (case acquired_stream cam of
              None \<Rightarrow> True
            | Some st \<Rightarrow>
                TrackStop (stream_id st) \<in> snd ` set (effects (start s (HTMLElement el) cam)))"
proof -
  have st: "start s (HTMLElement el) cam = start_try s el cam"
    using assms(1) by (auto simp: start_def)
  show ?thesis
  proof (cases "startCameraStream cam")
    case (Rejects d x)
    then have "x = e"
      using assms(2) by (simp add: acquisition_error_def)
    with Rejects show ?thesis
      using start_failure_code [of "cfg_scanType (config s)" e]
      by (auto simp: st start_try_def start_catch_released start_failure_fields
          acquired_stream_def)
  next
    case Never
    then show ?thesis
      using assms(2) by (simp add: acquisition_error_def)
  next
    case (Resolves d stm)
    then obtain d2 where
      r: "race (createVideoElement cam) 10000 (Error ''Video load timeout'') = Rejects d2 e"
      using assms(2) by (auto simp: acquisition_error_def split: settled.splits)
    show ?thesis
      using start_failure_code [of "cfg_scanType (config s)" e] Resolves r
      by (auto simp: st start_try_def Let_def start_catch_released start_failure_fields
          acquired_stream_def)
  qed
qed

theorem start_failure_structured_witness:
  "acquisition_error slow_video = Some (Error ''Video load timeout'') \<and>
   (\<exists>out. completion (start barcode_scanner (HTMLElement 7) slow_video) = Returned out \<and>
          \<not> success out \<and> code out = Some ''CAMERA_TIMEOUT'') \<and>
   stream (after (start barcode_scanner (HTMLElement 7) slow_video)) = None \<and>
   TrackStop 1 \<in> snd ` set (effects (start barcode_scanner (HTMLElement 7) slow_video))"
proof -
  have h1: "stream barcode_scanner = None \<or> videoElement barcode_scanner = None"
    by (simp add: barcode_scanner_def)
  have h2: "acquisition_error slow_video = Some (Error ''Video load timeout'')"
    by (simp add: acquisition_error_def slow_video_def race_def)
  have c: "code (start_failure ''barcode'' (Error ''Video load timeout'')) = Some ''CAMERA_TIMEOUT''"
    by (simp add: start_failure_def Error_def outcome_def)
  have r: "completion (start barcode_scanner (HTMLElement 7) slow_video) =
      Returned (start_failure ''barcode'' (Error ''Video load timeout''))"
    by (simp add: start_def start_try_def barcode_scanner_def slow_video_def race_def
        start_catch_def stop_def)
  from start_failure_structured [OF h1 h2, of 7] show ?thesis
    using h2 c r by (auto simp: acquired_stream_def slow_video_def)
qed

text \<open>
  The claim as first stated fails twice: without a container \<^verbatim>\<open>start\<close> throws, and an
  error that is none of the classified ones gets the default code.
\<close>

theorem start_failure_counterexample:
  "completion (start barcode_scanner Missing idle_camera) =
     Threw (Error ''Container element is required for CameraScanner.start()'') \<and>
   Option.bind (returned (start barcode_scanner (HTMLElement 7) overconstrained)) code =
     Some ''CAMERA_START_ERROR''"
  by (simp add: start_def start_try_def barcode_scanner_def overconstrained_def idle_camera_def
      start_catch_def stop_def start_failure_def outcome_def returned_def)

section \<open>Reentrancy\<close>

text \<open>
  C2. While a scan is in flight the flag \<^verbatim>\<open>_isScanning\<close> is set and the camera is running.
  A call of \<^verbatim>\<open>scanOnce\<close> (or of \<^verbatim>\<open>scan\<close> in revision V1) on such an instance throws the
  error "scan already in progress" at entry, at time 0; the low-level scanner is not
  called and no timer is set (the effect log is empty), so nothing is queued; and the
  instance is left as it was, flag included, so the call in flight is not disturbed.
\<close>

theorem scan_in_progress:
  assumes "videoElement s \<noteq> None" and "stream s \<noteq> None" and "isScanning s"
    and "videoElement v \<noteq> None" and "stream v \<noteq> None" and "isScanning v"
  shows "scanOnce s options scanner =
           \<lparr>completion = Threw (Error ''Scan already in progress.Wait for current scan to complete.''),
            clock = 0, after = s, effects = []\<rparr> \<and>
         scan_V1 v options scanner =
           \<lparr>completion = Threw (Error ''Scan already in progress. Wait for current scan to complete.''),
            clock = 0, after = v, effects = []\<rparr>"
  using assms by (auto simp: scanOnce_def scan_V1_def)

theorem scan_in_progress_witness:
  "completion (scanOnce running_scanner (no_options\<lparr>opt_timeoutMs := Some 0\<rparr>) Never) = Pending \<and>
   scanOnce (after (scanOnce running_scanner (no_options\<lparr>opt_timeoutMs := Some 0\<rparr>) Never))
       no_options (Resolves 5 (Some [qr_hit])) =
     \<lparr>completion = Threw (Error ''Scan already in progress.Wait for current scan to complete.''),
      clock = 0,
      after = after (scanOnce running_scanner (no_options\<lparr>opt_timeoutMs := Some 0\<rparr>) Never),
      effects = []\<rparr> \<and>
   completion (scan_V1 (running_scanner_V1\<lparr>isScanning := True\<rparr>) no_options
       (Resolves 5 (Some [qr_hit]))) =
     Threw (Error ''Scan already in progress. Wait for current scan to complete.'')"
proof -
  let ?s = "after (scanOnce running_scanner (no_options\<lparr>opt_timeoutMs := Some 0\<rparr>) Never)"
  let ?v = "running_scanner_V1\<lparr>isScanning := True\<rparr>"
  have first: "scanOnce running_scanner (no_options\<lparr>opt_timeoutMs := Some 0\<rparr>) Never =
      \<lparr>completion = Pending, clock = 0, after = running_scanner\<lparr>isScanning := True\<rparr>,
       effects = [(0, Scan [''qr_code'', ''pdf417_enhanced'', ''pdf417''] ''first'')]\<rparr>"
    by (simp add: scanOnce_def scanOnce_try_def scanOnce_setup_def running_scanner_def
        barcode_scanner_def no_options_def getScanConfig_def validateConfiguration_def
        getEnhancedFeatures_def four_formats_def default_def str_or_else_def Let_def
        getTimeoutConfig_def mrz_camera_mode_def race_def)
  have h: "videoElement ?s \<noteq> None" "stream ?s \<noteq> None" "isScanning ?s"
    unfolding first by (simp_all add: running_scanner_def barcode_scanner_def)
  have hv: "videoElement ?v \<noteq> None" "stream ?v \<noteq> None" "isScanning ?v"
    by (simp_all add: running_scanner_V1_def barcode_scanner_V1_def)
  from scan_in_progress [OF h hv, of no_options "Resolves 5 (Some [qr_hit])"]
  show ?thesis
    using first by simp
qed

section \<open>The fallback loop of continuous scanning\<close>

lemma throwIfAborted_mono:
  "throwIfAborted signal t = None \<Longrightarrow> t' \<le> t \<Longrightarrow> throwIfAborted signal t' = None"
  by (auto simp: throwIfAborted_def aborted_def split: option.splits if_splits)

lemma interval_wait_full:
  assumes "throwIfAborted signal (t + nat interval) = None"
  shows "wait_error (interval_wait interval signal t) = None"
    and "wait_end (interval_wait interval signal t) = t + nat interval"
  using assms
  by (auto simp: interval_wait_def throwIfAborted_def aborted_def split: option.splits if_splits)

lemma interval_wait_no_scan: "scan_calls (wait_effects (interval_wait interval signal t)) = 0"
  by (auto simp: interval_wait_def scan_calls_def split: option.splits)

lemma scan_calls_append [simp]: "scan_calls (xs @ ys) = scan_calls xs + scan_calls ys"
  by (simp add: scan_calls_def)

lemma failed_trace_scan_calls: "scan_calls (failed_trace ctx sc k) = k"
proof (induction k)
  case 0
  show ?case by (simp add: scan_calls_def)
next
  case (Suc k)
  have "scan_calls ((iteration_start ctx sc k, Scan (lc_formats ctx) (lc_mode ctx)) #
     wait_effects (interval_wait (lc_interval ctx) (lc_signal ctx)
       (iteration_start ctx sc k + settle_time (sc (Suc k))))) = 1"
    using interval_wait_no_scan [of "lc_interval ctx" "lc_signal ctx"
        "iteration_start ctx sc k + settle_time (sc (Suc k))"]
    by (simp add: scan_calls_def)
  with Suc show ?case by simp
qed

lemma scan_loop_step:
  assumes "throwIfAborted (lc_signal ctx)
             (now + settle_time (sc (Suc attempt)) + nat (lc_interval ctx)) = None"
    and "\<not> max_reached (lc_maxAttempts ctx) (Suc attempt)"
    and "no_detection (sc (Suc attempt))"
  shows "scan_loop ctx sc attempt now tr =
         scan_loop ctx sc (Suc attempt)
           (now + settle_time (sc (Suc attempt)) + nat (lc_interval ctx))
           (tr @ (now, Scan (lc_formats ctx) (lc_mode ctx)) #
              wait_effects (interval_wait (lc_interval ctx) (lc_signal ctx)
                (now + settle_time (sc (Suc attempt)))))"
proof -
  have a0: "throwIfAborted (lc_signal ctx) now = None"
    using assms(1) by (rule throwIfAborted_mono) simp
  note w = interval_wait_full [OF assms(1) [unfolded add.assoc [symmetric]]]
  show ?thesis
  proof (cases "sc (Suc attempt)")
    case (Resolves d results)
    then show ?thesis
      using assms(2,3) a0 w
      by (subst scan_loop.simps) (simp add: no_detection_def Let_def)
  next
    case (Rejects d e)
    then show ?thesis
      using assms(2,3) a0 w
      by (subst scan_loop.simps) (simp add: no_detection_def Let_def)
  next
    case Never
    then show ?thesis
      using assms(3) by (simp add: no_detection_def)
  qed
qed

lemma scan_loop_progress:
  assumes "throwIfAborted (lc_signal ctx) (iteration_start ctx sc k) = None"
    and "\<forall>j. 1 \<le> j \<and> j \<le> k \<longrightarrow> \<not> max_reached (lc_maxAttempts ctx) j \<and> no_detection (sc j)"
  shows "scan_loop ctx sc 0 0 [] =
         scan_loop ctx sc k (iteration_start ctx sc k) (failed_trace ctx sc k)"
  using assms
proof (induction k)
  case 0
  show ?case by simp
next
  case (Suc k)
  have "throwIfAborted (lc_signal ctx) (iteration_start ctx sc k) = None"
    using Suc.prems(1) by (rule throwIfAborted_mono) simp
  moreover have "\<forall>j. 1 \<le> j \<and> j \<le> k \<longrightarrow>
      \<not> max_reached (lc_maxAttempts ctx) j \<and> no_detection (sc j)"
    using Suc.prems(2) by auto
  ultimately have "scan_loop ctx sc 0 0 [] =
      scan_loop ctx sc k (iteration_start ctx sc k) (failed_trace ctx sc k)"
    by (rule Suc.IH)
  also have "\<dots> = scan_loop ctx sc (Suc k) (iteration_start ctx sc (Suc k))
      (failed_trace ctx sc (Suc k))"
    using scan_loop_step [of ctx "iteration_start ctx sc k" sc k "failed_trace ctx sc k"]
      Suc.prems by simp
  finally show ?case .
qed

lemma scanContinuous_setup_ctx:
  assumes "scanContinuous_setup s options scanConfig = Inr ctx"
  shows "lc_signal ctx = opt_signal options"
    and "lc_scanType ctx = cfg_scanType (config s)"
    and "lc_interval ctx = default (opt_interval options) getContinuousConfig_interval"
    and "opt_maxAttempts options = Some m \<Longrightarrow> m \<noteq> 0 \<Longrightarrow> lc_maxAttempts ctx = Some m"
  using assms
  by (auto simp: scanContinuous_setup_def Let_def split: sum.splits if_splits)

lemma scanContinuous_fallback:
  assumes "videoElement s \<noteq> None" and "stream s \<noteq> None" and "\<not> isScanning s"
    and "getScanConfig s = Inr scanConfig" and "useContinuousScanning scanConfig"
    and "scanContinuous_setup s options scanConfig = Inr ctx"
    and "\<not> has_scanContinuous (opticalScanner s)"
    and "throwIfAborted (opt_signal options) 0 = None"
    and "scan_loop ctx (scans env) 0 0 [] = Some (c, attempt, t, tr)"
  shows "scanContinuous s options env =
     Some (case c of
        Returned out \<Rightarrow>
          \<lparr>completion = Returned (Some out), clock = t, after = s\<lparr>isScanning := False\<rparr>,
           effects = tr\<rparr>
      | Threw e \<Rightarrow>
          \<lparr>completion = Returned (Some (scanContinuous_catch (cfg_scanType (config s)) e False attempt)),
           clock = t, after = s\<lparr>isScanning := False\<rparr>, effects = tr\<rparr>
      | Pending \<Rightarrow>
          \<lparr>completion = Pending, clock = t, after = s\<lparr>isScanning := True\<rparr>, effects = tr\<rparr>)"
  using assms scanContinuous_setup_ctx(1) [OF assms(6)]
  by (auto simp: scanContinuous_def scanContinuous_try_def Let_def split: completion.splits)

lemma scan_loop_hit:
  assumes "throwIfAborted (lc_signal ctx) (iteration_start ctx sc k) = None"
    and "\<forall>j. 1 \<le> j \<and> j \<le> k \<longrightarrow> \<not> max_reached (lc_maxAttempts ctx) j \<and> no_detection (sc j)"
    and "\<not> max_reached (lc_maxAttempts ctx) (Suc k)"
    and "sc (Suc k) = Resolves d results" and "has_results results"
  shows "scan_loop ctx sc 0 0 [] =
         Some (Returned (formatScanResult (lc_scanType ctx) results (first_format results)),
               Suc k, iteration_start ctx sc k + d,
               failed_trace ctx sc k @
               [(iteration_start ctx sc k, Scan (lc_formats ctx) (lc_mode ctx))])"
proof -
  have "scan_loop ctx sc 0 0 [] =
      scan_loop ctx sc k (iteration_start ctx sc k) (failed_trace ctx sc k)"
    using assms(1,2) by (rule scan_loop_progress)
  also have "\<dots> = Some (Returned (formatScanResult (lc_scanType ctx) results (first_format results)),
      Suc k, iteration_start ctx sc k + d,
      failed_trace ctx sc k @ [(iteration_start ctx sc k, Scan (lc_formats ctx) (lc_mode ctx))])"
    using assms(1,3,4,5) by (subst scan_loop.simps) (simp add: Let_def)
  finally show ?thesis .
qed

lemma scanContinuous_hit:
  assumes "videoElement s \<noteq> None" and "stream s \<noteq> None" and "\<not> isScanning s"
    and "getScanConfig s = Inr scanConfig" and "useContinuousScanning scanConfig"
    and "scanContinuous_setup s options scanConfig = Inr ctx"
    and "\<not> has_scanContinuous (opticalScanner s)"
    and "throwIfAborted (opt_signal options) (iteration_start ctx (scans env) k) = None"
    and "\<forall>j. 1 \<le> j \<and> j \<le> k \<longrightarrow>
           \<not> max_reached (lc_maxAttempts ctx) j \<and> no_detection (scans env j)"
    and "\<not> max_reached (lc_maxAttempts ctx) (Suc k)"
    and "scans env (Suc k) = Resolves d results" and "has_results results"
  shows "scanContinuous s options env =
         Some \<lparr>completion = Returned (Some (formatScanResult (cfg_scanType (config s)) results
                                            (first_format results))),
               clock = iteration_start ctx (scans env) k + d,
               after = s\<lparr>isScanning := False\<rparr>,
               effects = failed_trace ctx (scans env) k @
                         [(iteration_start ctx (scans env) k,
                           Scan (lc_formats ctx) (lc_mode ctx))]\<rparr>"
proof -
  have sig: "lc_signal ctx = opt_signal options"
    by (rule scanContinuous_setup_ctx(1) [OF assms(6)])
  have ty: "lc_scanType ctx = cfg_scanType (config s)"
    by (rule scanContinuous_setup_ctx(2) [OF assms(6)])
  have a0: "throwIfAborted (opt_signal options) 0 = None"
    using assms(8) by (rule throwIfAborted_mono) simp
  have a: "throwIfAborted (lc_signal ctx) (iteration_start ctx (scans env) k) = None"
    using assms(8) by (simp add: sig)
  note loop = scan_loop_hit [OF a assms(9-12)]
  show ?thesis
    using scanContinuous_fallback [OF assms(1-7) a0 loop] by (simp add: ty)
qed

lemma scanContinuous_delegate_hit:
  assumes "videoElement s \<noteq> None" and "stream s \<noteq> None" and "\<not> isScanning s"
    and "getScanConfig s = Inr scanConfig" and "useContinuousScanning scanConfig"
    and "scanContinuous_setup s options scanConfig = Inr ctx"
    and "has_scanContinuous (opticalScanner s)"
    and "throwIfAborted (opt_signal options) 0 = None"
    and "delegate env = Resolves d results" and "has_results results"
  shows "scanContinuous s options env =
         Some \<lparr>completion = Returned (Some (formatScanResult (cfg_scanType (config s)) results
                                            (first_format results))),
               clock = d, after = s\<lparr>isScanning := False\<rparr>,
               effects = [(0, ScanContinuous (lc_formats ctx) (lc_mode ctx))]\<rparr>"
  using assms scanContinuous_setup_ctx(1) [OF assms(6)]
  by (auto simp: scanContinuous_def scanContinuous_try_def Let_def)



text \<open>
  C4. Let \<^verbatim>\<open>scanContinuous\<close> run its fallback loop (the low-level scanner has no
  \<^verbatim>\<open>scanContinuous\<close>) on a running, idle instance with a valid configuration and
  \<^verbatim>\<open>maxAttempts = n\<close>, \<open>n \<ge> 1\<close>. If each of the first \<open>n\<close> scans settles without a
  detection and the signal, if any, is not aborted before the loop ends, then the call
  returns: the outcome has \<open>success\<close> false, the code \<open>MAX_ATTEMPTS_REACHED\<close> and
  \<open>attempts = n\<close>, the low-level scanner has been called exactly \<open>n\<close> times, and the
  scanning flag is cleared.
\<close>

theorem max_attempts_reached:
  assumes "videoElement s \<noteq> None" and "stream s \<noteq> None" and "\<not> isScanning s"
    and "getScanConfig s = Inr scanConfig" and "useContinuousScanning scanConfig"
    and "scanContinuous_setup s options scanConfig = Inr ctx"
    and "\<not> has_scanContinuous (opticalScanner s)"
    and "opt_maxAttempts options = Some (int n)" and "1 \<le> n"
    and "throwIfAborted (opt_signal options) (iteration_start ctx (scans env) n) = None"
    and "\<forall>k. 1 \<le> k \<and> k \<le> n \<longrightarrow> no_detection (scans env k)"
  shows "\<exists>r out. scanContinuous s options env = Some r \<and>
           completion r = Returned (Some out) \<and> \<not> success out \<and>
           code out = Some ''MAX_ATTEMPTS_REACHED'' \<and> attempts out = Some (int n) \<and>
           scan_calls (effects r) = n \<and> clock r = iteration_start ctx (scans env) n \<and>
           \<not> isScanning (after r)"
proof -
  have sig: "lc_signal ctx = opt_signal options"
    by (rule scanContinuous_setup_ctx(1) [OF assms(6)])
  have mx: "lc_maxAttempts ctx = Some (int n)"
    using scanContinuous_setup_ctx(4) [OF assms(6) assms(8)] assms(9) by simp
  have ok: "\<forall>j. 1 \<le> j \<and> j \<le> n \<longrightarrow>
      \<not> max_reached (lc_maxAttempts ctx) j \<and> no_detection (sc j)" if "sc = scans env" for sc
    using assms(11) that by (auto simp: mx max_reached_def)
  have "scan_loop ctx (scans env) 0 0 [] =
      scan_loop ctx (scans env) n (iteration_start ctx (scans env) n)
        (failed_trace ctx (scans env) n)"
    using assms(10) ok [OF refl] by (intro scan_loop_progress) (simp_all add: sig)
  also have "\<dots> = Some (Returned (max_attempts_outcome (lc_scanType ctx) (Some (int n)) (n + 1)),
      n + 1, iteration_start ctx (scans env) n, failed_trace ctx (scans env) n)"
    using assms(9,10)
    by (subst scan_loop.simps) (simp add: sig mx max_reached_def)
  finally have loop: "scan_loop ctx (scans env) 0 0 [] =
      Some (Returned (max_attempts_outcome (lc_scanType ctx) (Some (int n)) (n + 1)),
        n + 1, iteration_start ctx (scans env) n, failed_trace ctx (scans env) n)" .
  have a0: "throwIfAborted (opt_signal options) 0 = None"
    using assms(10) by (rule throwIfAborted_mono) simp
  show ?thesis
    using scanContinuous_fallback [OF assms(1-7) a0 loop]
    by (simp add: max_attempts_outcome_def outcome_def failed_trace_scan_calls)
qed

lemma interval_wait_aborted:
  assumes "aborts_at sig = Some a" and "a < t + nat interval"
  shows "wait_error (interval_wait interval (Some sig) t) =
           Some (Error ''Scan cancelled during interval wait'')"
    and "wait_end (interval_wait interval (Some sig) t) = max a t"
    and "last (wait_effects (interval_wait interval (Some sig) t)) = (max a t, ClearTimeout IntervalTimer)"
  using assms by (auto simp: interval_wait_def aborted_def max_def)

lemma cancelled_outcome:
  "scanContinuous_catch ty (Error ''Scan cancelled during interval wait'') False k =
     (outcome False ty)\<lparr>cancelled := Some True, error := Some ''Continuous scan cancelled'',
                        attempts := Some (int k)\<rparr>"
  by (simp add: scanContinuous_catch_def Error_def)

text \<open>
  C8. In the fallback loop, let the first \<open>k\<close> attempts and waits pass without a
  detection and without an abort, let attempt \<open>k + 1\<close> yield no detection either, and let
  the signal become aborted at a time \<open>a\<close> after that attempt began and before its
  interval wait would end (so possibly before the wait began). Then the call returns the
  cancelled outcome (\<open>success\<close> false, \<open>cancelled\<close> true, \<open>attempts = k + 1\<close>) at time
  \<open>a\<close>, or at the start of the wait if the signal was aborted by then; the last thing it
  does, at that very time, is to clear the timer; and unless the interval is not positive
  this is before the interval has run out.
\<close>

theorem cancelled_during_wait:
  assumes "videoElement s \<noteq> None" and "stream s \<noteq> None" and "\<not> isScanning s"
    and "getScanConfig s = Inr scanConfig" and "useContinuousScanning scanConfig"
    and "scanContinuous_setup s options scanConfig = Inr ctx"
    and "\<not> has_scanContinuous (opticalScanner s)"
    and "opt_signal options = Some sig" and "aborts_at sig = Some a"
    and "iteration_start ctx (scans env) k < a"
    and "a < iteration_start ctx (scans env) (Suc k)"
    and "\<forall>j. 1 \<le> j \<and> j \<le> Suc k \<longrightarrow>
           \<not> max_reached (lc_maxAttempts ctx) j \<and> no_detection (scans env j)"
  shows "\<exists>r out. scanContinuous s options env = Some r \<and>
           completion r = Returned (Some out) \<and> \<not> success out \<and>
           cancelled out = Some True \<and> attempts out = Some (int (Suc k)) \<and>
           clock r = max a (iteration_start ctx (scans env) k + settle_time (scans env (Suc k))) \<and>
           last (effects r) = (clock r, ClearTimeout IntervalTimer) \<and>
           (clock r < iteration_start ctx (scans env) (Suc k) \<or> lc_interval ctx \<le> 0) \<and>
           \<not> isScanning (after r)"
proof -
  let ?T = "iteration_start ctx (scans env) k"
  let ?d = "settle_time (scans env (Suc k))"
  let ?w = "interval_wait (lc_interval ctx) (Some sig) (?T + ?d)"
  have sig: "lc_signal ctx = Some sig"
    using scanContinuous_setup_ctx(1) [OF assms(6)] assms(8) by simp
  have nowT: "throwIfAborted (lc_signal ctx) ?T = None"
    using assms(9,10) by (simp add: sig throwIfAborted_def aborted_def)
  have a0: "throwIfAborted (opt_signal options) 0 = None"
    using assms(9,10) by (simp add: assms(8) throwIfAborted_def aborted_def)
  have ok: "\<forall>j. 1 \<le> j \<and> j \<le> k \<longrightarrow>
      \<not> max_reached (lc_maxAttempts ctx) j \<and> no_detection (scans env j)"
    using assms(12) by auto
  have last: "\<not> max_reached (lc_maxAttempts ctx) (Suc k)" "no_detection (scans env (Suc k))"
    using assms(12) by auto
  have a_in: "a < ?T + ?d + nat (lc_interval ctx)"
    using assms(11) by simp
  note w = interval_wait_aborted [OF assms(9) a_in]
  have "scan_loop ctx (scans env) 0 0 [] =
      scan_loop ctx (scans env) k ?T (failed_trace ctx (scans env) k)"
    using nowT ok by (rule scan_loop_progress)
  also have "\<dots> = Some (Threw (Error ''Scan cancelled during interval wait''), Suc k,
      max a (?T + ?d),
      failed_trace ctx (scans env) k @ (?T, Scan (lc_formats ctx) (lc_mode ctx)) # wait_effects ?w)"
  proof (cases "scans env (Suc k)")
    case (Resolves d results)
    then show ?thesis
      using last nowT w
      by (subst scan_loop.simps) (simp add: sig no_detection_def Let_def)
  next
    case (Rejects d e)
    then show ?thesis
      using last nowT w
      by (subst scan_loop.simps) (simp add: sig no_detection_def Let_def)
  next
    case Never
    then show ?thesis
      using last(2) by (simp add: no_detection_def)
  qed
  finally have loop: "scan_loop ctx (scans env) 0 0 [] =
      Some (Threw (Error ''Scan cancelled during interval wait''), Suc k, max a (?T + ?d),
        failed_trace ctx (scans env) k @ (?T, Scan (lc_formats ctx) (lc_mode ctx)) # wait_effects ?w)" .
  have ne: "wait_effects ?w \<noteq> []"
    by (auto simp: interval_wait_def split: option.splits)
  have prompt: "max a (?T + ?d) < iteration_start ctx (scans env) (Suc k) \<or> lc_interval ctx \<le> 0"
    using assms(11) by auto
  show ?thesis
    using scanContinuous_fallback [OF assms(1-7) a0 loop] w(3) ne prompt
    by (simp add: cancelled_outcome outcome_def)
qed

lemma running_getScanConfig: "getScanConfig running_scanner = Inr barcode_config"
  by (simp add: getScanConfig_def running_scanner_def barcode_scanner_def barcode_config_def)

lemma running_validateConfiguration:
  "validateConfiguration running_scanner = Inr [''qr_code'', ''pdf417_enhanced'', ''pdf417'']"
  by (simp add: validateConfiguration_def getScanConfig_def getEnhancedFeatures_def
      running_scanner_def barcode_scanner_def four_formats_def Let_def)

lemma running_setup:
  assumes "opt_formats options = None" and "opt_mode options = None"
    and "opt_interval options = None" and "opt_maxAttempts options = m" and "m \<noteq> Some 0"
  shows "scanContinuous_setup running_scanner options barcode_config =
         Inr (barcode_ctx m (opt_signal options))"
  using assms
  by (simp add: scanContinuous_setup_def running_validateConfiguration barcode_config_def
      barcode_ctx_def default_def str_or_else_def Let_def getContinuousConfig_interval_def
      split: option.splits)
    (simp add: running_scanner_def barcode_scanner_def)

lemma running_ready:
  "videoElement running_scanner \<noteq> None" "stream running_scanner \<noteq> None"
  "\<not> isScanning running_scanner" "\<not> has_scanContinuous (opticalScanner running_scanner)"
  by (simp_all add: running_scanner_def barcode_scanner_def four_formats_def)




text \<open>A scan that never settles keeps the call pending for ever: nothing in the loop
  ends the attempt.\<close>

lemma scanContinuous_never_settles:
  assumes "videoElement s \<noteq> None" and "stream s \<noteq> None" and "\<not> isScanning s"
    and "getScanConfig s = Inr scanConfig" and "useContinuousScanning scanConfig"
    and "scanContinuous_setup s options scanConfig = Inr ctx"
    and "\<not> has_scanContinuous (opticalScanner s)"
    and "throwIfAborted (opt_signal options) (iteration_start ctx (scans env) k) = None"
    and "\<forall>j. 1 \<le> j \<and> j \<le> k \<longrightarrow>
           \<not> max_reached (lc_maxAttempts ctx) j \<and> no_detection (scans env j)"
    and "\<not> max_reached (lc_maxAttempts ctx) (Suc k)"
    and "scans env (Suc k) = Never"
  shows "\<exists>r. scanContinuous s options env = Some r \<and> completion r = Pending \<and>
           isScanning (after r)"
proof -
  have sig: "lc_signal ctx = opt_signal options"
    by (rule scanContinuous_setup_ctx(1) [OF assms(6)])
  have a0: "throwIfAborted (opt_signal options) 0 = None"
    using assms(8) by (rule throwIfAborted_mono) simp
  have a: "throwIfAborted (lc_signal ctx) (iteration_start ctx (scans env) k) = None"
    using assms(8) by (simp add: sig)
  have "scan_loop ctx (scans env) 0 0 [] =
      scan_loop ctx (scans env) k (iteration_start ctx (scans env) k)
        (failed_trace ctx (scans env) k)"
    using a assms(9) by (rule scan_loop_progress)
  also have "\<dots> = Some (Pending, Suc k, iteration_start ctx (scans env) k,
      failed_trace ctx (scans env) k @
      [(iteration_start ctx (scans env) k, Scan (lc_formats ctx) (lc_mode ctx))])"
    using a assms(10,11) by (subst scan_loop.simps) (simp add: Let_def)
  finally have loop: "scan_loop ctx (scans env) 0 0 [] =
      Some (Pending, Suc k, iteration_start ctx (scans env) k,
        failed_trace ctx (scans env) k @
        [(iteration_start ctx (scans env) k, Scan (lc_formats ctx) (lc_mode ctx))])" .
  show ?thesis
    using scanContinuous_fallback [OF assms(1-7) a0 loop] by simp
qed

theorem max_attempts_reached_witness:
  "\<exists>r out. scanContinuous running_scanner three_attempts quick_misses = Some r \<and>
     completion r = Returned (Some out) \<and> code out = Some ''MAX_ATTEMPTS_REACHED'' \<and>
     attempts out = Some 3 \<and> scan_calls (effects r) = 3 \<and> clock r = 7800"
proof -
  have s: "scanContinuous_setup running_scanner three_attempts barcode_config =
      Inr (barcode_ctx (Some 3) None)"
    using running_setup [of three_attempts "Some 3"]
    by (simp add: three_attempts_def no_options_def)
  have u: "useContinuousScanning barcode_config"
    by (simp add: barcode_config_def)
  have m: "opt_maxAttempts three_attempts = Some (int 3)"
    by (simp add: three_attempts_def)
  have t: "iteration_start (barcode_ctx (Some 3) None) (scans quick_misses) 3 = 7800"
    by (simp add: numeral_3_eq_3 barcode_ctx_def quick_misses_def)
  have a: "throwIfAborted (opt_signal three_attempts)
      (iteration_start (barcode_ctx (Some 3) None) (scans quick_misses) 3) = None"
    by (simp add: three_attempts_def no_options_def throwIfAborted_def)
  have n: "\<forall>k. 1 \<le> k \<and> k \<le> 3 \<longrightarrow> no_detection (scans quick_misses k)"
    by (simp add: quick_misses_def no_detection_def has_results_def)
  from max_attempts_reached [OF running_ready(1-3) running_getScanConfig u s running_ready(4)
      m _ a n]
  show ?thesis
    by (auto simp: t)
qed

theorem cancelled_during_wait_witness:
  "\<exists>r out. scanContinuous running_scanner (no_options\<lparr>opt_signal := Some abort_after_3s\<rparr>)
       quick_misses = Some r \<and>
     completion r = Returned (Some out) \<and> \<not> success out \<and> cancelled out = Some True \<and>
     attempts out = Some 2 \<and> clock r = 3000 \<and> last (effects r) = (3000, ClearTimeout IntervalTimer)"
proof -
  let ?o = "no_options\<lparr>opt_signal := Some abort_after_3s\<rparr>"
  let ?c = "barcode_ctx None (Some abort_after_3s)"
  have s: "scanContinuous_setup running_scanner ?o barcode_config = Inr ?c"
    using running_setup [of ?o None]
    by (simp add: no_options_def)
  have u: "useContinuousScanning barcode_config"
    by (simp add: barcode_config_def)
  have g: "opt_signal ?o = Some abort_after_3s" "aborts_at abort_after_3s = Some 3000"
    by (simp_all add: abort_after_3s_def)
  have t1: "iteration_start ?c (scans quick_misses) 1 = 2600"
    by (simp add: barcode_ctx_def quick_misses_def)
  have t2: "iteration_start ?c (scans quick_misses) (Suc 1) = 5200"
    by (simp add: barcode_ctx_def quick_misses_def)
  have n: "\<forall>j. 1 \<le> j \<and> j \<le> Suc 1 \<longrightarrow>
      \<not> max_reached (lc_maxAttempts ?c) j \<and> no_detection (scans quick_misses j)"
    by (simp add: quick_misses_def no_detection_def has_results_def barcode_ctx_def
        max_reached_def)
  have lt: "iteration_start ?c (scans quick_misses) 1 < 3000"
    "3000 < iteration_start ?c (scans quick_misses) (Suc 1)"
    unfolding t1 t2 by simp_all
  from cancelled_during_wait [OF running_ready(1-3) running_getScanConfig u s running_ready(4)
      g lt n]
  show ?thesis
    by (auto simp: quick_misses_def barcode_ctx_def)
qed

section \<open>File batches and aborts after a success\<close>

lemma hit_count_Suc:
  "hit_count plan answers processed (Suc n) =
     (if file_hit plan (answers (Suc processed)) then 1 else 0) +
     hit_count plan answers (Suc processed) n"
  by (simp add: hit_count_def upt_conv_Cons del: upt_Suc)

lemma never_aborted_throwIfAborted: "never_aborted signal \<Longrightarrow> throwIfAborted signal t = None"
  by (auto simp: never_aborted_def throwIfAborted_def aborted_def split: option.splits)

lemma formatScanResult_success: "has_results rs \<Longrightarrow> success (formatScanResult ty rs fmt)"
  by (auto simp: has_results_def formatScanResult_def outcome_def split: option.splits list.splits)

lemma formatScanResult_kept:
  "has_results rs \<Longrightarrow> cancelled (formatScanResult ty rs fmt) = None"
  by (auto simp: has_results_def formatScanResult_def outcome_def split: option.splits list.splits)

lemma file_done_mono: "j \<le> k \<Longrightarrow> file_done plan answers j \<le> file_done plan answers k"
proof (induction k)
  case 0
  then show ?case by simp
next
  case (Suc k)
  then show ?case by (cases "j = Suc k") auto
qed

lemma file_loop_after_success:
  assumes "fp_processAll plan"
    and "\<forall>t e. throwIfAborted (fp_signal plan) t = Some e \<longrightarrow> err_name e = ''AbortError''"
    and "\<forall>j. processed < j \<and> j \<le> processed + length fs \<longrightarrow> file_ends plan (answers j)"
    and "list_ex success allResults"
  shows "benign_exit plan (file_loop plan answers fs processed allResults True now tr)"
  using assms(3,4)
proof (induction fs arbitrary: processed allResults now tr)
  case Nil
  then show ?case using assms(1) by (simp add: benign_exit_def)
next
  case (Cons f fs)
  have rest: "\<forall>j. Suc processed < j \<and> j \<le> Suc processed + length fs \<longrightarrow>
      file_ends plan (answers j)"
    using Cons.prems(1) by simp
  have en: "file_ends plan (answers (Suc processed))"
    using Cons.prems(1) by simp
  have more: "list_ex success (allResults @ [x])" for x
    using Cons.prems(2) by (simp add: list_ex_iff)
  show ?case
  proof (cases "throwIfAborted (fp_signal plan) now")
    case (Some e)
    then show ?thesis using assms(2) by (auto simp: benign_exit_def)
  next
    case None
    show ?thesis
    proof (cases "race (answers (Suc processed)) (fp_timeoutMs plan) (Error ''FILE_SCAN_TIMEOUT'')")
      case Never
      then show ?thesis using en by (simp add: file_ends_def)
    next
      case (Rejects d e)
      show ?thesis
      proof (cases "err_name e = ''AbortError''")
        case True
        then show ?thesis
          using None Rejects by (simp add: Let_def benign_exit_def)
      next
        case False
        then show ?thesis
          using None Rejects assms(1) Cons.IH [OF rest more] by (simp add: Let_def)
      qed
    next
      case (Resolves d rs)
      show ?thesis
        using None Resolves assms(1) Cons.IH [OF rest more]
        by (simp add: Let_def)
    qed
  qed
qed

lemma file_loop_hit:
  assumes "\<forall>t e. throwIfAborted (fp_signal plan) t = Some e \<longrightarrow> err_name e = ''AbortError''"
    and "file_hit plan (answers k)"
    and "throwIfAborted (fp_signal plan) (file_done plan answers k) = None"
    and "processed < k" and "k \<le> processed + length fs"
    and "\<forall>j. processed < j \<and> j < k \<longrightarrow> file_settles plan (answers j)"
    and "\<forall>j. k < j \<and> j \<le> processed + length fs \<longrightarrow> file_ends plan (answers j)"
    and "now = file_done plan answers processed"
  shows "benign_exit plan (file_loop plan answers fs processed allResults succeeded now tr)"
  using assms(4-8)
proof (induction fs arbitrary: processed allResults succeeded now tr)
  case Nil
  then show ?case by simp
next
  case (Cons f fs)
  have a0: "throwIfAborted (fp_signal plan) now = None"
    using assms(3)
    by (rule throwIfAborted_mono) (simp add: Cons.prems(5) file_done_mono less_imp_le [OF Cons.prems(1)])
  let ?p = "race (answers (Suc processed)) (fp_timeoutMs plan) (Error ''FILE_SCAN_TIMEOUT'')"
  have nx: "now + settle_time ?p = file_done plan answers (Suc processed)"
    by (simp add: Cons.prems(5))
  show ?case
  proof (cases "k = Suc processed")
    case True
    then obtain d rs where r: "?p = Resolves d rs" and h: "has_results rs"
      using assms(2) by (auto simp: file_hit_def split: settled.splits)
    have later: "\<forall>j. Suc processed < j \<and> j \<le> Suc processed + length fs \<longrightarrow>
        file_ends plan (answers j)"
      using Cons.prems(4) True by simp
    let ?entry = "(formatScanResult (fp_scanType plan) rs (first_format rs))
         \<lparr>file_prop := Some (file_info f (Suc processed))\<rparr>"
    have e: "success ?entry" "cancelled ?entry = None"
      using formatScanResult_success [OF h] formatScanResult_kept [OF h] by simp_all
    show ?thesis
    proof (cases "fp_processAll plan")
      case True
      have "list_ex success (allResults @ [?entry])"
        using e by (simp add: list_ex_iff)
      from file_loop_after_success [OF True assms(1) later this]
      show ?thesis
        using a0 r h True by (simp add: Let_def)
    next
      case False
      then show ?thesis
        using a0 r h e by (simp add: Let_def benign_exit_def)
    qed
  next
    case False
    then have lt: "Suc processed < k"
      using Cons.prems(1) by simp
    have st: "file_settles plan (answers (Suc processed))"
      using Cons.prems(3) lt by simp
    have le: "k \<le> Suc processed + length fs"
      using Cons.prems(2) by simp
    have before: "\<forall>j. Suc processed < j \<and> j < k \<longrightarrow> file_settles plan (answers j)"
      using Cons.prems(3) by simp
    have later: "\<forall>j. k < j \<and> j \<le> Suc processed + length fs \<longrightarrow> file_ends plan (answers j)"
      using Cons.prems(4) by simp
    note IH = Cons.IH [OF lt le before later]
    show ?thesis
    proof (cases ?p)
      case Never
      then show ?thesis using st by (simp add: file_settles_def)
    next
      case (Rejects d e)
      then have ne: "err_name e \<noteq> ''AbortError''"
        using st by (simp add: file_settles_def)
      have t: "now + d = file_done plan answers (Suc processed)"
        using nx Rejects by simp
      show ?thesis
        using a0 Rejects ne IH [OF t] by (simp add: Let_def)
    next
      case (Resolves d rs)
      have t: "now + d = file_done plan answers (Suc processed)"
        using nx Resolves by simp
      show ?thesis
      proof (cases "has_results rs \<and> \<not> fp_processAll plan")
        case True
        then show ?thesis
          using a0 Resolves formatScanResult_success [of rs "fp_scanType plan" "first_format rs"]
            formatScanResult_kept [of rs "fp_scanType plan" "first_format rs"]
          by (simp add: Let_def benign_exit_def)
      next
        case False
        then show ?thesis
          using a0 Resolves IH [OF t] by (auto simp: Let_def)
      qed
    qed
  qed
qed

lemma scanFile_catch_benign:
  assumes "err_name e = ''AbortError''"
  shows "success (scanFile_catch ty e True processed)"
    and "cancelled (scanFile_catch ty e True processed) = None"
  using assms by (simp_all add: scanFile_catch_def outcome_def)

lemma scanFile_final_success:
  assumes "fp_processAll plan" and "list_ex success allResults"
  shows "success (scanFile_final plan n processed allResults)"
    and "cancelled (scanFile_final plan n processed allResults) = None"
  using assms
  by (auto simp: scanFile_final_def batch_def scan_outcome.defs outcome_def Let_def
      list_ex_iff filter_empty_conv)

lemma file_loop_processAll:
  assumes "fp_processAll plan" and "never_aborted (fp_signal plan)"
    and "\<forall>k. processed < k \<and> k \<le> processed + length fs \<longrightarrow> file_settles plan (answers k)"
  shows "\<exists>new sc t tr'.
           file_loop plan answers fs processed allResults succeeded now tr =
             \<lparr>fl_exit = Finished (allResults @ new),
              fl_processedFiles = processed + length fs,
              fl_scanSucceeded = sc, fl_clock = t, fl_effects = tr'\<rparr> \<and>
           entry_names new = map (\<lambda>f. Some (js_file_name f)) fs \<and>
           length (filter success new) = hit_count plan answers processed (length fs)"
  using assms(3)
proof (induction fs arbitrary: processed allResults succeeded now tr)
  case Nil
  show ?case by (simp add: entry_names_def hit_count_def)
next
  case (Cons f fs)
  have a: "throwIfAborted (fp_signal plan) now = None"
    using assms(2) by (rule never_aborted_throwIfAborted)
  have st: "file_settles plan (answers (Suc processed))"
    using Cons.prems by simp
  have rest: "\<forall>k. Suc processed < k \<and> k \<le> Suc processed + length fs \<longrightarrow>
      file_settles plan (answers k)"
    using Cons.prems by simp
  show ?case
  proof (cases "race (answers (Suc processed)) (fp_timeoutMs plan) (Error ''FILE_SCAN_TIMEOUT'')")
    case Never
    then show ?thesis using st by (simp add: file_settles_def)
  next
    case (Rejects d e)
    then have ne: "err_name e \<noteq> ''AbortError''"
      using st by (simp add: file_settles_def)
    have nh: "\<not> file_hit plan (answers (Suc processed))"
      using Rejects by (simp add: file_hit_def)
    let ?entry = "fileError (fp_scanType plan) e f (Suc processed)"
    let ?tr = "(tr @ (now, Scan (fp_formats plan) (fp_mode plan)) #
           (if fp_timeoutMs plan > 0 then [(now, SetTimeout FileTimeout (fp_timeoutMs plan))] else [])) @
           (if fp_timeoutMs plan > 0 then [(now + d, ClearTimeout FileTimeout)] else [])"
    from Cons.IH [OF rest, of "allResults @ [?entry]" succeeded "now + d" ?tr]
    obtain new sc t tr' where
      l: "file_loop plan answers fs (Suc processed) (allResults @ [?entry]) succeeded (now + d) ?tr =
          \<lparr>fl_exit = Finished ((allResults @ [?entry]) @ new),
           fl_processedFiles = Suc processed + length fs,
           fl_scanSucceeded = sc, fl_clock = t, fl_effects = tr'\<rparr>"
      and n: "entry_names new = map (\<lambda>f. Some (js_file_name f)) fs"
      and c: "length (filter success new) = hit_count plan answers (Suc processed) (length fs)"
      by blast
    have e: "\<not> success ?entry" "file_prop ?entry = Some (file_info f (Suc processed))"
      by (simp_all add: fileError_def outcome_def)
    show ?thesis
      apply (rule exI [of _ "?entry # new"])
      apply (rule exI [of _ sc], rule exI [of _ t], rule exI [of _ tr'])
      using Rejects ne nh a assms(1) l n c e
      by (simp add: Let_def entry_names_def file_info_def hit_count_Suc)
  next
    case (Resolves d rs)
    let ?tr = "(tr @ (now, Scan (fp_formats plan) (fp_mode plan)) #
           (if fp_timeoutMs plan > 0 then [(now, SetTimeout FileTimeout (fp_timeoutMs plan))] else [])) @
           (if fp_timeoutMs plan > 0 then [(now + d, ClearTimeout FileTimeout)] else [])"
    show ?thesis
    proof (cases "has_results rs")
      case True
      have h: "file_hit plan (answers (Suc processed))"
        using Resolves True by (simp add: file_hit_def)
      let ?entry = "(formatScanResult (fp_scanType plan) rs (first_format rs))
           \<lparr>file_prop := Some (file_info f (Suc processed))\<rparr>"
      from Cons.IH [OF rest, of "allResults @ [?entry]" True "now + d" ?tr]
      obtain new sc t tr' where
        l: "file_loop plan answers fs (Suc processed) (allResults @ [?entry]) True (now + d) ?tr =
            \<lparr>fl_exit = Finished ((allResults @ [?entry]) @ new),
             fl_processedFiles = Suc processed + length fs,
             fl_scanSucceeded = sc, fl_clock = t, fl_effects = tr'\<rparr>"
        and n: "entry_names new = map (\<lambda>f. Some (js_file_name f)) fs"
        and c: "length (filter success new) = hit_count plan answers (Suc processed) (length fs)"
        by blast
      have e: "success ?entry" "file_prop ?entry = Some (file_info f (Suc processed))"
        using formatScanResult_success [OF True] by simp_all
      show ?thesis
        apply (rule exI [of _ "?entry # new"])
        apply (rule exI [of _ sc], rule exI [of _ t], rule exI [of _ tr'])
        using Resolves True h a assms(1) l n c e
        by (simp add: Let_def entry_names_def file_info_def hit_count_Suc)
    next
      case False
      have nh: "\<not> file_hit plan (answers (Suc processed))"
        using Resolves False by (simp add: file_hit_def)
      let ?entry = "(outcome False (fp_scanType plan))
           \<lparr>error := Some ''No optical codes detected in file'',
            file_prop := Some (file_info f (Suc processed))\<rparr>"
      from Cons.IH [OF rest, of "allResults @ [?entry]" succeeded "now + d" ?tr]
      obtain new sc t tr' where
        l: "file_loop plan answers fs (Suc processed) (allResults @ [?entry]) succeeded (now + d) ?tr =
            \<lparr>fl_exit = Finished ((allResults @ [?entry]) @ new),
             fl_processedFiles = Suc processed + length fs,
             fl_scanSucceeded = sc, fl_clock = t, fl_effects = tr'\<rparr>"
        and n: "entry_names new = map (\<lambda>f. Some (js_file_name f)) fs"
        and c: "length (filter success new) = hit_count plan answers (Suc processed) (length fs)"
        by blast
      have e: "\<not> success ?entry" "file_prop ?entry = Some (file_info f (Suc processed))"
        by (simp_all add: outcome_def)
      show ?thesis
        apply (rule exI [of _ "?entry # new"])
        apply (rule exI [of _ sc], rule exI [of _ t], rule exI [of _ tr'])
        using Resolves False nh a assms(1) l n c e
        by (simp add: Let_def entry_names_def file_info_def hit_count_Suc)
    qed
  qed
qed


lemma scanFile_setup_plan:
  assumes "scanFile_setup s options = Inr plan"
  shows "fp_signal plan = opt_signal options"
    and "fp_processAll plan = default (opt_processAll options) False"
    and "fp_scanType plan = cfg_scanType (config s)"
  using assms
  by (auto simp: scanFile_setup_def Let_def split: sum.splits option.splits if_splits)

text \<open>
  C6, as the code has it. Let \<^verbatim>\<open>scanFile\<close> be called with \<^verbatim>\<open>processAll = true\<close> on a
  non-empty array of files that all pass the type check, with a valid configuration and
  a signal that is absent or never aborted, and let the scan of every file settle
  (resolve, reject with something other than an abort, or run into its timeout). Then the
  call returns a summary: \<open>totalFiles\<close> and \<open>processedFiles\<close> are the number of files,
  \<open>successfulFiles\<close> is the number of files whose scan found something, \<open>failedFiles\<close> is
  the number of the others, there is one entry per file, carrying the file names in the
  order given, and \<open>success\<close> tells whether some file was a hit. So no failure of a single
  scan ends the batch. A file that does not pass the type check is not part of this: the
  check comes first and throws.
\<close>

theorem scanFile_processAll_summary:
  assumes "fs \<noteq> []" and "list_all supported_file fs"
    and "scanFile_setup s options = Inr plan" and "opt_processAll options = Some True"
    and "never_aborted (opt_signal options)"
    and "\<forall>k. 1 \<le> k \<and> k \<le> length fs \<longrightarrow> file_settles plan (answers k)"
  shows "\<exists>out entries.
           completion (scanFile s (FileArray fs) options answers) = Returned out \<and>
           results_prop out = Some entries \<and>
           entry_names entries = map (\<lambda>f. Some (js_file_name f)) fs \<and>
           summary out =
             Some \<lparr>totalFiles = length fs, processedFiles = length fs,
                   successfulFiles = Some (hit_count plan answers 0 (length fs)),
                   failedFiles = Some (length fs - hit_count plan answers 0 (length fs))\<rparr> \<and>
           success out = (0 < hit_count plan answers 0 (length fs))"
proof -
  have pa: "fp_processAll plan"
    using scanFile_setup_plan(2) [OF assms(3)] assms(4) by (simp add: default_def)
  have na: "never_aborted (fp_signal plan)"
    using scanFile_setup_plan(1) [OF assms(3)] assms(5) by simp
  have st: "\<forall>k. 0 < k \<and> k \<le> 0 + length fs \<longrightarrow> file_settles plan (answers k)"
    using assms(6) by auto
  from file_loop_processAll [OF pa na st, of "[]" False 0 "[]"]
  obtain new sc t tr' where
    l: "file_loop plan answers fs 0 [] False 0 [] =
        \<lparr>fl_exit = Finished new, fl_processedFiles = length fs,
         fl_scanSucceeded = sc, fl_clock = t, fl_effects = tr'\<rparr>"
    and n: "entry_names new = map (\<lambda>f. Some (js_file_name f)) fs"
    and c: "length (filter success new) = hit_count plan answers 0 (length fs)"
    by auto
  have len: "length new = length fs"
    using n by (simp add: entry_names_def) (metis length_map)
  have inv: "filter (\<lambda>f. \<not> supported_file f) fs = []"
    using assms(2) by (simp add: list_all_iff)
  have body: "scanFile s (FileArray fs) options answers = scanFile_try s fs options answers"
    using assms(1) inv by (simp add: scanFile_def)
  show ?thesis
    using l n c len pa never_aborted_throwIfAborted [OF na, of 0]
    by (simp add: body scanFile_try_def assms(3) Let_def scanFile_final_def batch_def
        scan_outcome.defs batch_outcome.defs outcome_def)
qed

lemma scanFile_hit:
  assumes "fs \<noteq> []" and "list_all supported_file fs"
    and "scanFile_setup s options = Inr plan"
    and "\<forall>t e. throwIfAborted (opt_signal options) t = Some e \<longrightarrow> err_name e = ''AbortError''"
    and "1 \<le> k" and "k \<le> length fs" and "file_hit plan (answers k)"
    and "throwIfAborted (opt_signal options) (file_done plan answers k) = None"
    and "\<forall>j. 1 \<le> j \<and> j < k \<longrightarrow> file_settles plan (answers j)"
    and "\<forall>j. k < j \<and> j \<le> length fs \<longrightarrow> file_ends plan (answers j)"
  shows "\<exists>out. completion (scanFile s (FileArray fs) options answers) = Returned out \<and>
           success out \<and> cancelled out = None"
proof -
  have sig: "fp_signal plan = opt_signal options"
    by (rule scanFile_setup_plan(1) [OF assms(3)])
  have a0: "throwIfAborted (fp_signal plan) 0 = None"
    using assms(8) unfolding sig by (rule throwIfAborted_mono) simp
  have b: "benign_exit plan (file_loop plan answers fs 0 [] False 0 [])"
    using assms(4-10) by (intro file_loop_hit [where k = k]) (auto simp: sig)
  have inv: "filter (\<lambda>f. \<not> supported_file f) fs = []"
    using assms(2) by (simp add: list_all_iff)
  have body: "scanFile s (FileArray fs) options answers = scanFile_try s fs options answers"
    using assms(1) inv by (simp add: scanFile_def)
  show ?thesis
    using b a0 scanFile_catch_benign scanFile_final_success
    by (auto simp: body scanFile_try_def assms(3) Let_def benign_exit_def plain_def
        scan_outcome.defs split: file_exit.splits)
qed

text \<open>With a positive timeout per file every scan ends.\<close>

lemma file_ends_timeout: "0 < fp_timeoutMs plan \<Longrightarrow> file_ends plan p"
  by (simp add: file_ends_def race_def split: settled.splits)

lemma scanOnce_hit:
  assumes "videoElement s \<noteq> None" and "stream s \<noteq> None" and "\<not> isScanning s"
    and "scanOnce_setup s options = Inr plan"
    and "mrz_camera_mode s \<or> in_time d (timeoutMs plan)"
    and "has_results results"
  shows "completion (scanOnce s options (Resolves d results)) =
         Returned (formatScanResult (cfg_scanType (config s)) results
                     (if mrz_camera_mode s then ''mrz'' else first_format results))"
  using assms
  by (auto simp: scanOnce_def scanOnce_try_def Let_def race_def in_time_def
      scanOnce_resolved_def case_prod_beta)

lemma aborts_later:
  assumes "aborts_at sig = Some a" and "t < a"
  shows "throwIfAborted (Some sig) t = None"
  using assms by (simp add: throwIfAborted_def aborted_def)

lemma abort_named:
  assumes "err_name (reason sig) = ''AbortError''"
  shows "\<forall>t e. throwIfAborted (Some sig) t = Some e \<longrightarrow> err_name e = ''AbortError''"
  using assms by (auto simp: throwIfAborted_def split: if_splits)

text \<open>
  C9. Let the signal handed to a call be aborted at time \<open>a\<close> with an error named
  \<open>AbortError\<close>, after a successful result has been captured.
  In \<^verbatim>\<open>scanOnce\<close>, when the scan resolves with detections after \<open>d < a\<close> milliseconds, in
  time for its timeout, the call returns these detections formatted; the abort may fall
  into the wait for the minimum scan time. In \<^verbatim>\<open>scanContinuous\<close>, when after \<open>k\<close> attempts
  without a detection attempt \<open>k + 1\<close> finds a code before \<open>a\<close>, or when the delegate
  of the low-level scanner does, the call returns the detections formatted and clears the
  scanning flag. In both methods the flag \<^verbatim>\<open>scanSucceeded\<close> is set right before the
  \<^verbatim>\<open>return\<close>, so nothing is thrown after it. In \<^verbatim>\<open>scanFile\<close>, when the scan of file \<open>n\<close>
  finds a code before \<open>a\<close>, the files before it having settled, and the scan of each later
  file ends in some way (it may reject with an \<open>AbortError\<close>), the call returns an outcome
  with \<open>success\<close> true that is not a cancellation: the first hit, or in the mode that
  processes all files the summary, or the answer of the \<^verbatim>\<open>catch\<close> block when the check
  before a later file or a later scan throws the abort.
\<close>

theorem abort_after_success_benign:
  assumes "opt_signal options = Some sig" and "aborts_at sig = Some a"
    and "err_name (reason sig) = ''AbortError''"
  shows
    "(videoElement s \<noteq> None \<and> stream s \<noteq> None \<and> \<not> isScanning s \<and>
      scanOnce_setup s options = Inr plan \<and>
      (mrz_camera_mode s \<or> in_time d (timeoutMs plan)) \<and> has_results results \<and> d < a \<longrightarrow>
      (\<exists>out. completion (scanOnce s options (Resolves d results)) = Returned out \<and>
         out = formatScanResult (cfg_scanType (config s)) results
                 (if mrz_camera_mode s then ''mrz'' else first_format results) \<and>
         success out \<and> cancelled out = None)) \<and>
     (videoElement s \<noteq> None \<and> stream s \<noteq> None \<and> \<not> isScanning s \<and>
      getScanConfig s = Inr scanConfig \<and> useContinuousScanning scanConfig \<and>
      scanContinuous_setup s options scanConfig = Inr ctx \<and>
      \<not> has_scanContinuous (opticalScanner s) \<and>
      (\<forall>j. 1 \<le> j \<and> j \<le> k \<longrightarrow>
         \<not> max_reached (lc_maxAttempts ctx) j \<and> no_detection (scans env j)) \<and>
      \<not> max_reached (lc_maxAttempts ctx) (Suc k) \<and>
      scans env (Suc k) = Resolves d results \<and> has_results results \<and>
      iteration_start ctx (scans env) k + d < a \<longrightarrow>
      (\<exists>r out. scanContinuous s options env = Some r \<and>
         completion r = Returned (Some out) \<and>
         out = formatScanResult (cfg_scanType (config s)) results (first_format results) \<and>
         success out \<and> cancelled out = None \<and> \<not> isScanning (after r))) \<and>
     (videoElement s \<noteq> None \<and> stream s \<noteq> None \<and> \<not> isScanning s \<and>
      getScanConfig s = Inr scanConfig \<and> useContinuousScanning scanConfig \<and>
      scanContinuous_setup s options scanConfig = Inr ctx \<and>
      has_scanContinuous (opticalScanner s) \<and>
      delegate env = Resolves d results \<and> has_results results \<and> d < a \<longrightarrow>
      (\<exists>r out. scanContinuous s options env = Some r \<and>
         completion r = Returned (Some out) \<and>
         out = formatScanResult (cfg_scanType (config s)) results (first_format results) \<and>
         success out \<and> cancelled out = None \<and> \<not> isScanning (after r))) \<and>
     (fs \<noteq> [] \<and> list_all supported_file fs \<and> scanFile_setup s options = Inr fplan \<and>
      1 \<le> n \<and> n \<le> length fs \<and> file_hit fplan (answers n) \<and>
      file_done fplan answers n < a \<and>
      (\<forall>j. 1 \<le> j \<and> j < n \<longrightarrow> file_settles fplan (answers j)) \<and>
      (\<forall>j. n < j \<and> j \<le> length fs \<longrightarrow> file_ends fplan (answers j)) \<longrightarrow>
      (\<exists>out. completion (scanFile s (FileArray fs) options answers) = Returned out \<and>
         success out \<and> cancelled out = None))"
proof (intro conjI impI)
  assume h: "videoElement s \<noteq> None \<and> stream s \<noteq> None \<and> \<not> isScanning s \<and>
      scanOnce_setup s options = Inr plan \<and>
      (mrz_camera_mode s \<or> in_time d (timeoutMs plan)) \<and> has_results results \<and> d < a"
  then have "completion (scanOnce s options (Resolves d results)) =
      Returned (formatScanResult (cfg_scanType (config s)) results
                  (if mrz_camera_mode s then ''mrz'' else first_format results))"
    by (intro scanOnce_hit) blast+
  then show "\<exists>out. completion (scanOnce s options (Resolves d results)) = Returned out \<and>
         out = formatScanResult (cfg_scanType (config s)) results
                 (if mrz_camera_mode s then ''mrz'' else first_format results) \<and>
         success out \<and> cancelled out = None"
    using h formatScanResult_success formatScanResult_kept by simp
next
  assume h: "videoElement s \<noteq> None \<and> stream s \<noteq> None \<and> \<not> isScanning s \<and>
      getScanConfig s = Inr scanConfig \<and> useContinuousScanning scanConfig \<and>
      scanContinuous_setup s options scanConfig = Inr ctx \<and>
      \<not> has_scanContinuous (opticalScanner s) \<and>
      (\<forall>j. 1 \<le> j \<and> j \<le> k \<longrightarrow>
         \<not> max_reached (lc_maxAttempts ctx) j \<and> no_detection (scans env j)) \<and>
      \<not> max_reached (lc_maxAttempts ctx) (Suc k) \<and>
      scans env (Suc k) = Resolves d results \<and> has_results results \<and>
      iteration_start ctx (scans env) k + d < a"
  have "throwIfAborted (opt_signal options) (iteration_start ctx (scans env) k) = None"
    unfolding assms(1) using assms(2) by (rule aborts_later) (use h in simp)
  with h have "scanContinuous s options env =
         Some \<lparr>completion = Returned (Some (formatScanResult (cfg_scanType (config s)) results
                                            (first_format results))),
               clock = iteration_start ctx (scans env) k + d,
               after = s\<lparr>isScanning := False\<rparr>,
               effects = failed_trace ctx (scans env) k @
                         [(iteration_start ctx (scans env) k,
                           Scan (lc_formats ctx) (lc_mode ctx))]\<rparr>"
    by (intro scanContinuous_hit) blast+
  then show "\<exists>r out. scanContinuous s options env = Some r \<and>
         completion r = Returned (Some out) \<and>
         out = formatScanResult (cfg_scanType (config s)) results (first_format results) \<and>
         success out \<and> cancelled out = None \<and> \<not> isScanning (after r)"
    using h formatScanResult_success formatScanResult_kept by simp
next
  assume h: "videoElement s \<noteq> None \<and> stream s \<noteq> None \<and> \<not> isScanning s \<and>
      getScanConfig s = Inr scanConfig \<and> useContinuousScanning scanConfig \<and>
      scanContinuous_setup s options scanConfig = Inr ctx \<and>
      has_scanContinuous (opticalScanner s) \<and>
      delegate env = Resolves d results \<and> has_results results \<and> d < a"
  have "throwIfAborted (opt_signal options) 0 = None"
    unfolding assms(1) using assms(2) by (rule aborts_later) (use h in simp)
  with h have "scanContinuous s options env =
         Some \<lparr>completion = Returned (Some (formatScanResult (cfg_scanType (config s)) results
                                            (first_format results))),
               clock = d, after = s\<lparr>isScanning := False\<rparr>,
               effects = [(0, ScanContinuous (lc_formats ctx) (lc_mode ctx))]\<rparr>"
    by (intro scanContinuous_delegate_hit) blast+
  then show "\<exists>r out. scanContinuous s options env = Some r \<and>
         completion r = Returned (Some out) \<and>
         out = formatScanResult (cfg_scanType (config s)) results (first_format results) \<and>
         success out \<and> cancelled out = None \<and> \<not> isScanning (after r)"
    using h formatScanResult_success formatScanResult_kept by simp
next
  assume h: "fs \<noteq> [] \<and> list_all supported_file fs \<and> scanFile_setup s options = Inr fplan \<and>
      1 \<le> n \<and> n \<le> length fs \<and> file_hit fplan (answers n) \<and>
      file_done fplan answers n < a \<and>
      (\<forall>j. 1 \<le> j \<and> j < n \<longrightarrow> file_settles fplan (answers j)) \<and>
      (\<forall>j. n < j \<and> j \<le> length fs \<longrightarrow> file_ends fplan (answers j))"
  have nm: "\<forall>t e. throwIfAborted (opt_signal options) t = Some e \<longrightarrow> err_name e = ''AbortError''"
    unfolding assms(1) using assms(3) by (rule abort_named)
  have la: "throwIfAborted (opt_signal options) (file_done fplan answers n) = None"
    unfolding assms(1) using assms(2) by (rule aborts_later) (use h in simp)
  show "\<exists>out. completion (scanFile s (FileArray fs) options answers) = Returned out \<and>
         success out \<and> cancelled out = None"
    using h nm la by (intro scanFile_hit [where k = n and plan = fplan]) blast+
qed

section \<open>The minimum scan time\<close>

lemma validateConfiguration_subset:
  "validateConfiguration s = Inr avail \<Longrightarrow> getScanConfig s = Inr scanConfig \<Longrightarrow>
   set avail \<subseteq> set (formats scanConfig)"
  by (auto simp: validateConfiguration_def Let_def split: if_splits)

lemma setup_mrz_camera:
  assumes "scanOnce_setup s options = Inr plan" and "mrz_camera_mode s"
  shows "''mrz'' \<in> set (finalFormats plan)"
proof -
  have ty: "cfg_scanType (config s) = ''mrz''"
    using assms(2) by (simp add: mrz_camera_mode_def)
  then have g: "getScanConfig s =
      Inr \<lparr>formats = [''mrz''], useContinuousScanning = False, preferredMode = ''first''\<rparr>"
    by (simp add: getScanConfig_def)
  obtain avail where v: "validateConfiguration s = Inr avail"
    using assms(1) g by (auto simp: scanOnce_setup_def Let_def split: sum.splits)
  have sub: "set avail \<subseteq> {''mrz''}"
    using validateConfiguration_subset [OF v g] by simp
  have fin: "finalFormats plan =
      filter (\<lambda>f. f \<in> set avail) (default (opt_formats options) [''mrz''])"
    and ne: "finalFormats plan \<noteq> []"
    using assms(1) g v by (auto simp: scanOnce_setup_def Let_def split: if_splits)
  obtain x where "x \<in> set (finalFormats plan)"
    using ne by (cases "finalFormats plan") auto
  then have "x \<in> set avail" "x \<in> set (finalFormats plan)"
    by (simp_all add: fin)
  then show ?thesis using sub by auto
qed

lemma setup_minScanTime:
  assumes "scanOnce_setup s options = Inr plan" and "''mrz'' \<notin> set (finalFormats plan)"
  shows "plan_minScanTime plan = 1500"
  using assms
  by (auto simp: scanOnce_setup_def getTimeoutConfig_def Let_def split: sum.splits if_splits)

lemma race_in_time:
  "in_time d ms \<Longrightarrow> race (Resolves d v) ms e = Resolves d v"
  "in_time d ms \<Longrightarrow> race (Rejects d x) ms e = Rejects d x"
  by (auto simp: in_time_def race_def)

lemma scanOnce_catch_failed: "\<not> success (scanOnce_catch ty e False)"
  by (simp add: scanOnce_catch_def outcome_def)

lemma scan_catch_V1_failed: "\<not> success (scan_catch_V1 ty e)"
  by (simp add: scan_catch_V1_def outcome_def)

lemma formatScanResult_V1_success: "has_results rs \<Longrightarrow> success (formatScanResult_V1 ty rs fmt)"
  by (auto simp: has_results_def formatScanResult_V1_def outcome_def formatMrzResult_def
      formatDriverLicenseResult_def formatPdf417Result_def formatQrCodeResult_def
      formatGenericResult_def Let_def split: option.splits list.splits)

lemma scanOnce_resolved_floor:
  assumes "''mrz'' \<notin> set fs"
  shows "fst (snd (scanOnce_resolved ty fs 1500 timer d rs)) = max d 1500"
    and "success (fst (scanOnce_resolved ty fs 1500 timer d rs)) = has_results rs"
  using assms formatScanResult_success [of rs ty "first_format rs"]
  by (auto simp: scanOnce_resolved_def Let_def outcome_def max_def split: prod.splits)

lemma scanOnce_resolved_mrz:
  assumes "''mrz'' \<in> set fs"
  shows "fst (snd (scanOnce_resolved ty fs m timer d rs)) = d"
  using assms by (auto simp: scanOnce_resolved_def Let_def split: prod.splits)

lemma scan_resolved_V1_floor:
  "fst (snd (scan_resolved_V1 ty 1500 timer d rs)) = max d 1500"
  "success (fst (scan_resolved_V1 ty 1500 timer d rs)) = has_results rs"
  "fst (snd (scan_resolved_V1 ty 0 timer d rs)) = d"
  using formatScanResult_V1_success [of rs ty "first_format rs"]
  by (auto simp: scan_resolved_V1_def Let_def outcome_def max_def split: prod.splits)

text \<open>
  C1, as the code has it. Take a call of \<^verbatim>\<open>scanOnce\<close> on a running, idle instance with
  a valid configuration, and a call of \<^verbatim>\<open>scan\<close> (revision V1) that does not override the
  formats; the formats meant are those handed to the low-level scanner. If they do not
  include \<open>mrz\<close> and the scan promise resolves after \<open>d\<close> ms, before its timeout, the call
  returns at \<open>max d 1500\<close> ms, whether or not anything was detected. If they include
  \<open>mrz\<close>, the call returns at \<open>d\<close>. If the scan promise rejects at \<open>d\<close>, or the timeout
  fires, the call returns a failure at that moment and no floor applies.
\<close>

theorem minimum_scan_time:
  assumes "videoElement s \<noteq> None" and "stream s \<noteq> None" and "\<not> isScanning s"
    and "scanOnce_setup s options = Inr plan"
    and "videoElement v \<noteq> None" and "stream v \<noteq> None" and "\<not> isScanning v"
    and "opt_formats voptions = None"
  shows "(in_time d (timeoutMs plan) \<and> ''mrz'' \<notin> set (finalFormats plan) \<longrightarrow>
            clock (scanOnce s options (Resolves d rs)) = max d 1500 \<and>
            (\<exists>out. completion (scanOnce s options (Resolves d rs)) = Returned out \<and>
                   success out = has_results rs)) \<and>
         (in_time d (timeoutMs plan) \<and> ''mrz'' \<in> set (finalFormats plan) \<longrightarrow>
            clock (scanOnce s options (Resolves d rs)) = d) \<and>
         (in_time d (timeoutMs plan) \<longrightarrow>
            clock (scanOnce s options (Rejects d e)) = d \<and>
            (\<exists>out. completion (scanOnce s options (Rejects d e)) = Returned out \<and>
                   \<not> success out)) \<and>
         (0 < timeoutMs plan \<and> \<not> mrz_camera_mode s \<longrightarrow>
            clock (scanOnce s options Never) = nat (timeoutMs plan) \<and>
            (\<exists>out. completion (scanOnce s options Never) = Returned out \<and>
                   \<not> success out \<and> code out = Some ''SCAN_TIMEOUT'')) \<and>
         (in_time d (getTimeout_V1 v) \<and> ''mrz'' \<notin> set (fst (buildScanOptions_V1 v voptions)) \<longrightarrow>
            clock (scan_V1 v voptions (Resolves d rs)) = max d 1500 \<and>
            (\<exists>out. completion (scan_V1 v voptions (Resolves d rs)) = Returned out \<and>
                   success out = has_results rs)) \<and>
         (in_time d (getTimeout_V1 v) \<and> ''mrz'' \<in> set (fst (buildScanOptions_V1 v voptions)) \<longrightarrow>
            clock (scan_V1 v voptions (Resolves d rs)) = d) \<and>
         (in_time d (getTimeout_V1 v) \<longrightarrow>
            clock (scan_V1 v voptions (Rejects d e)) = d \<and>
            (\<exists>out. completion (scan_V1 v voptions (Rejects d e)) = Returned out \<and>
                   \<not> success out)) \<and>
         (0 < getTimeout_V1 v \<longrightarrow>
            clock (scan_V1 v voptions Never) = nat (getTimeout_V1 v) \<and>
            (\<exists>out. completion (scan_V1 v voptions Never) = Returned out \<and>
                   \<not> success out \<and> code out = Some ''SCAN_TIMEOUT''))"
proof -
  have body: "scanOnce s options p = scanOnce_try s options p" for p
    using assms(1-3) by (auto simp: scanOnce_def)
  have A: "clock (scanOnce s options (Resolves d rs)) = max d 1500 \<and>
      (\<exists>out. completion (scanOnce s options (Resolves d rs)) = Returned out \<and>
             success out = has_results rs)"
    if "in_time d (timeoutMs plan)" and "''mrz'' \<notin> set (finalFormats plan)"
  proof -
    have nc: "\<not> mrz_camera_mode s"
      using setup_mrz_camera [OF assms(4)] that(2) by blast
    show ?thesis
      by (simp add: body scanOnce_try_def assms(4) nc race_in_time [OF that(1)]
          setup_minScanTime [OF assms(4) that(2)] Let_def case_prod_beta
          scanOnce_resolved_floor [OF that(2)])
  qed
  have B: "clock (scanOnce s options (Resolves d rs)) = d"
    if "in_time d (timeoutMs plan)" and "''mrz'' \<in> set (finalFormats plan)"
    by (simp add: body scanOnce_try_def assms(4) race_in_time [OF that(1)] Let_def
        case_prod_beta scanOnce_resolved_mrz [OF that(2)])
  have C: "clock (scanOnce s options (Rejects d e)) = d \<and>
      (\<exists>out. completion (scanOnce s options (Rejects d e)) = Returned out \<and> \<not> success out)"
    if "in_time d (timeoutMs plan)"
    by (simp add: body scanOnce_try_def assms(4) race_in_time [OF that] Let_def
        scanOnce_catch_failed)
  have D: "clock (scanOnce s options Never) = nat (timeoutMs plan) \<and>
      (\<exists>out. completion (scanOnce s options Never) = Returned out \<and>
             \<not> success out \<and> code out = Some ''SCAN_TIMEOUT'')"
    if "0 < timeoutMs plan" and "\<not> mrz_camera_mode s"
    using that
    by (simp add: body scanOnce_try_def assms(4) race_def Let_def scanOnce_catch_def Error_def
        outcome_def)
  have vbody: "\<not> (videoElement v = None \<or> stream v = None)" "\<not> isScanning v"
    using assms(5-7) by auto
  have fm: "fst (buildScanOptions_V1 v voptions) = formats_V1 v"
    using assms(8) by (simp add: buildScanOptions_V1_def default_def)
  have A': "clock (scan_V1 v voptions (Resolves d rs)) = max d 1500 \<and>
      (\<exists>out. completion (scan_V1 v voptions (Resolves d rs)) = Returned out \<and>
             success out = has_results rs)"
    if "in_time d (getTimeout_V1 v)" and "''mrz'' \<notin> set (fst (buildScanOptions_V1 v voptions))"
    using that(2)
    by (simp add: scan_V1_def vbody fm getMinScanTime_V1_def race_in_time [OF that(1)] Let_def
        case_prod_beta scan_resolved_V1_floor)
  have B': "clock (scan_V1 v voptions (Resolves d rs)) = d"
    if "in_time d (getTimeout_V1 v)" and "''mrz'' \<in> set (fst (buildScanOptions_V1 v voptions))"
    using that(2)
    by (simp add: scan_V1_def vbody fm getMinScanTime_V1_def race_in_time [OF that(1)] Let_def
        case_prod_beta scan_resolved_V1_floor)
  have C': "clock (scan_V1 v voptions (Rejects d e)) = d \<and>
      (\<exists>out. completion (scan_V1 v voptions (Rejects d e)) = Returned out \<and> \<not> success out)"
    if "in_time d (getTimeout_V1 v)"
    by (simp add: scan_V1_def vbody race_in_time [OF that] Let_def scan_catch_V1_failed
        case_prod_beta)
  have D': "clock (scan_V1 v voptions Never) = nat (getTimeout_V1 v) \<and>
      (\<exists>out. completion (scan_V1 v voptions Never) = Returned out \<and>
             \<not> success out \<and> code out = Some ''SCAN_TIMEOUT'')"
    if "0 < getTimeout_V1 v"
    using that
    by (simp add: scan_V1_def vbody race_def Let_def scan_catch_V1_def Error_def outcome_def
        case_prod_beta)
  show ?thesis
    using A B C D A' B' C' D' by blast
qed

section \<open>The properties on the sample instances\<close>

lemma mrz_scanner_constructed:
  "CameraScanner mrz_constructor_options four_formats = Inr mrz_scanner"
  by (simp add: CameraScanner_def mrz_constructor_options_def four_formats_def mrz_scanner_def
      default_def Let_def buildPluginOptions_def validateConfiguration_def getScanConfig_def
      getEnhancedFeatures_def)

lemma mrz_scanner_V1_constructed:
  "CameraScanner_V1 mrz_constructor_options four_formats = Inr mrz_scanner_V1"
  by (simp add: CameraScanner_V1_def mrz_constructor_options_def four_formats_def
      mrz_scanner_V1_def default_def Let_def)

lemma running_scanOnce_setup: "scanOnce_setup running_scanner no_options = Inr barcode_plan"
  by (simp add: scanOnce_setup_def running_scanner_def barcode_scanner_def no_options_def
      getScanConfig_def validateConfiguration_def getEnhancedFeatures_def four_formats_def
      default_def str_or_else_def Let_def getTimeoutConfig_def barcode_plan_def)

lemma running_mrz_scanOnce_setup: "scanOnce_setup running_mrz_scanner no_options = Inr mrz_plan"
  by (simp add: scanOnce_setup_def running_mrz_scanner_def mrz_scanner_def no_options_def
      getScanConfig_def validateConfiguration_def getEnhancedFeatures_def four_formats_def
      default_def str_or_else_def Let_def getTimeoutConfig_def mrz_plan_def)

theorem minimum_scan_time_witness:
  "clock (scanOnce running_scanner no_options (Resolves 5 (Some [qr_hit]))) = 1500 \<and>
   clock (scanOnce running_scanner no_options (Rejects 5 (Error ''decode failed''))) = 5 \<and>
   clock (scanOnce running_scanner no_options Never) = 20000 \<and>
   clock (scanOnce running_mrz_scanner no_options (Resolves 5 (Some [mrz_hit]))) = 5 \<and>
   clock (scan_V1 running_scanner_V1 no_options (Resolves 5 (Some [qr_hit]))) = 1500 \<and>
   clock (scan_V1 running_mrz_scanner_V1 no_options (Resolves 5 (Some [mrz_hit]))) = 5"
proof -
  have b: "videoElement running_scanner \<noteq> None" "stream running_scanner \<noteq> None"
    "\<not> isScanning running_scanner" "\<not> mrz_camera_mode running_scanner"
    by (simp_all add: running_scanner_def barcode_scanner_def mrz_camera_mode_def)
  have m: "videoElement running_mrz_scanner \<noteq> None" "stream running_mrz_scanner \<noteq> None"
    "\<not> isScanning running_mrz_scanner"
    by (simp_all add: running_mrz_scanner_def mrz_scanner_def)
  have bv: "videoElement running_scanner_V1 \<noteq> None" "stream running_scanner_V1 \<noteq> None"
    "\<not> isScanning running_scanner_V1"
    by (simp_all add: running_scanner_V1_def barcode_scanner_V1_def)
  have mv: "videoElement running_mrz_scanner_V1 \<noteq> None" "stream running_mrz_scanner_V1 \<noteq> None"
    "\<not> isScanning running_mrz_scanner_V1"
    by (simp_all add: running_mrz_scanner_V1_def mrz_scanner_V1_def)
  have o: "opt_formats no_options = None"
    by (simp add: no_options_def)
  have tb: "getTimeout_V1 running_scanner_V1 = 10000"
    "fst (buildScanOptions_V1 running_scanner_V1 no_options) =
       [''qr_code'', ''pdf417_enhanced'', ''pdf417'']"
    by (simp_all add: getTimeout_V1_def running_scanner_V1_def barcode_scanner_V1_def
        TIMEOUT_CONFIG_def buildScanOptions_V1_def no_options_def default_def)
  have tm: "getTimeout_V1 running_mrz_scanner_V1 = 0"
    "fst (buildScanOptions_V1 running_mrz_scanner_V1 no_options) = [''mrz'']"
    by (simp_all add: getTimeout_V1_def running_mrz_scanner_V1_def mrz_scanner_V1_def
        buildScanOptions_V1_def no_options_def default_def)
  note w1 = minimum_scan_time [OF b(1-3) running_scanOnce_setup bv o,
      of 5 "Some [qr_hit]" "Error ''decode failed''"]
  note w2 = minimum_scan_time [OF m running_mrz_scanOnce_setup mv o,
      of 5 "Some [mrz_hit]" "Error ''decode failed''"]
  show ?thesis
    using w1 w2 b(4)
    by (simp add: in_time_def barcode_plan_def mrz_plan_def tb tm)
qed

text \<open>
  The claim as first stated fails where it says that a scan without detections is not
  held to the floor: such a scan, resolving after 5 ms, returns at 1500 ms, in both
  revisions. It also fails when "formats" is read as the formats asked for: \<^verbatim>\<open>scanOnce\<close>
  drops \<open>mrz\<close> from the request of a barcode scanner and applies the floor, and \<^verbatim>\<open>scan\<close>
  of revision V1 decides on the floor by the configured formats, whatever the override.
\<close>

theorem minimum_scan_time_counterexample:
  "clock (scanOnce running_scanner no_options (Resolves 5 (Some []))) = 1500 \<and>
   map_option success (returned (scanOnce running_scanner no_options (Resolves 5 (Some [])))) =
     Some False \<and>
   clock (scan_V1 running_scanner_V1 no_options (Resolves 5 (Some []))) = 1500 \<and>
   map_option success (returned (scan_V1 running_scanner_V1 no_options (Resolves 5 (Some [])))) =
     Some False \<and>
   clock (scanOnce running_scanner (no_options\<lparr>opt_formats := Some [''mrz'', ''qr_code'']\<rparr>)
            (Resolves 5 (Some [qr_hit]))) = 1500 \<and>
   clock (scan_V1 running_scanner_V1 (no_options\<lparr>opt_formats := Some [''mrz'']\<rparr>)
            (Resolves 5 (Some [mrz_hit]))) = 1500"
proof -
  have b: "\<not> (videoElement running_scanner = None \<or> stream running_scanner = None)"
    "\<not> isScanning running_scanner" "\<not> mrz_camera_mode running_scanner"
    "cfg_scanType (config running_scanner) = ''barcode''"
    by (simp_all add: running_scanner_def barcode_scanner_def mrz_camera_mode_def)
  have one: "scanOnce running_scanner no_options (Resolves 5 (Some [])) =
      \<lparr>completion = Returned ((outcome False ''barcode'')
          \<lparr>error := Some ''No optical codes detected in current frame''\<rparr>),
       clock = 1500, after = running_scanner\<lparr>isScanning := False\<rparr>,
       effects = [(0, Scan [''qr_code'', ''pdf417_enhanced'', ''pdf417''] ''first''),
                  (0, SetTimeout ScanTimeout 20000), (5, ClearTimeout ScanTimeout),
                  (5, SetTimeout MinimumTime 1495)]\<rparr>"
    by (simp add: scanOnce_def b scanOnce_try_def running_scanOnce_setup barcode_plan_def
        race_def scanOnce_resolved_def has_results_def Let_def)
  have two: "scan_V1 running_scanner_V1 no_options (Resolves 5 (Some [])) =
      \<lparr>completion = Returned ((outcome False ''barcode'')
          \<lparr>error := Some ''No optical codes detected in current frame'',
           code := Some ''NO_RESULTS''\<rparr>),
       clock = 1500, after = running_scanner_V1\<lparr>isScanning := False\<rparr>,
       effects = [(0, Scan [''qr_code'', ''pdf417_enhanced'', ''pdf417''] ''first''),
                  (0, SetTimeout ScanTimeout 10000), (5, ClearTimeout ScanTimeout),
                  (5, SetTimeout MinimumTime 1495)]\<rparr>"
    by (simp add: scan_V1_def running_scanner_V1_def barcode_scanner_V1_def no_options_def
        buildScanOptions_V1_def getTimeout_V1_def getMinScanTime_V1_def TIMEOUT_CONFIG_def
        default_def race_def scan_resolved_V1_def has_results_def Let_def)
  have su: "scanOnce_setup running_scanner (no_options\<lparr>opt_formats := Some [''mrz'', ''qr_code'']\<rparr>) =
      Inr \<lparr>finalFormats = [''qr_code''], plan_mode = ''first'', timeoutMs = 10000,
           plan_minScanTime = 1500\<rparr>"
    by (simp add: scanOnce_setup_def running_scanner_def barcode_scanner_def no_options_def
        getScanConfig_def validateConfiguration_def getEnhancedFeatures_def four_formats_def
        default_def str_or_else_def Let_def getTimeoutConfig_def)
  have three: "clock (scanOnce running_scanner
      (no_options\<lparr>opt_formats := Some [''mrz'', ''qr_code'']\<rparr>) (Resolves 5 (Some [qr_hit]))) = 1500"
    by (simp add: scanOnce_def b scanOnce_try_def su race_def scanOnce_resolved_def
        has_results_def Let_def)
  have four: "clock (scan_V1 running_scanner_V1 (no_options\<lparr>opt_formats := Some [''mrz'']\<rparr>)
      (Resolves 5 (Some [mrz_hit]))) = 1500"
    by (simp add: scan_V1_def running_scanner_V1_def barcode_scanner_V1_def no_options_def
        buildScanOptions_V1_def getTimeout_V1_def getMinScanTime_V1_def TIMEOUT_CONFIG_def
        default_def race_def scan_resolved_V1_def has_results_def Let_def)
  show ?thesis
    by (simp add: one two three four returned_def outcome_def)
qed

lemma barcode_scanFile_setup:
  "scanFile_setup barcode_scanner (no_options\<lparr>opt_processAll := Some True, opt_signal := sig\<rparr>) =
     Inr (barcode_file_plan sig)"
  by (simp add: scanFile_setup_def barcode_scanner_def no_options_def getScanConfig_def
      getFileScanFormats_def validateConfiguration_def getEnhancedFeatures_def four_formats_def
      default_def str_or_else_def Let_def getFileTimeoutConfig_def barcode_file_plan_def)

lemma supported_samples:
  "supported_file front_png" "supported_file back_jpg" "supported_file blurred_png"
  "\<not> supported_file notes_txt"
  by (simp_all add: supported_file_def supportedTypes_def after_slash_def toLowerCase_def
      toLowerCase_char_def front_png_def back_jpg_def blurred_png_def notes_txt_def)

theorem scanFile_processAll_summary_witness:
  "\<exists>out entries.
     completion (scanFile barcode_scanner (FileArray [front_png, blurred_png, back_jpg])
                   process_all hit_miss_hit) = Returned out \<and>
     results_prop out = Some entries \<and>
     entry_names entries = [Some ''front.png'', Some ''blurred.png'', Some ''back.jpg''] \<and>
     summary out = Some \<lparr>totalFiles = 3, processedFiles = 3, successfulFiles = Some 2,
                          failedFiles = Some 1\<rparr> \<and>
     success out"
proof -
  have p: "scanFile_setup barcode_scanner process_all = Inr (barcode_file_plan None)"
    using barcode_scanFile_setup [of None] by (simp add: process_all_def no_options_def)
  have s: "list_all supported_file [front_png, blurred_png, back_jpg]"
    by (simp add: supported_samples)
  have o: "opt_processAll process_all = Some True" "never_aborted (opt_signal process_all)"
    by (simp_all add: process_all_def no_options_def never_aborted_def)
  have st: "\<forall>k. 1 \<le> k \<and> k \<le> length [front_png, blurred_png, back_jpg] \<longrightarrow>
      file_settles (barcode_file_plan None) (hit_miss_hit k)"
    by (simp add: file_settles_def barcode_file_plan_def hit_miss_hit_def race_def Error_def)
  have h: "hit_count (barcode_file_plan None) hit_miss_hit 0 (Suc (Suc (Suc 0))) = Suc (Suc 0)"
    by (simp add: hit_count_def upt_rec file_hit_def barcode_file_plan_def hit_miss_hit_def
        race_def has_results_def)
  have ne: "[front_png, blurred_png, back_jpg] \<noteq> []"
    by simp
  from scanFile_processAll_summary [OF ne s p o st]
  show ?thesis
    by (simp add: h front_png_def blurred_png_def back_jpg_def numeral_3_eq_3 numeral_2_eq_2)
qed

text \<open>
  The claim as first stated fails for a file of an unsupported type: the call throws and
  returns no summary.
\<close>

theorem scanFile_processAll_counterexample:
  "completion (scanFile barcode_scanner (FileArray [front_png, notes_txt, back_jpg])
                 process_all hit_miss_hit) =
     Threw (Error ''Unsupported file types: notes.txt'')"
  by (simp add: scanFile_def supported_samples) (simp add: notes_txt_def)

lemma native_ready:
  "videoElement native_scanner \<noteq> None" "stream native_scanner \<noteq> None"
  "\<not> isScanning native_scanner" "has_scanContinuous (opticalScanner native_scanner)"
  "getScanConfig native_scanner = Inr barcode_config"
  by (simp_all add: native_scanner_def running_scanner_def barcode_scanner_def four_formats_def
      getScanConfig_def barcode_config_def)

lemma native_setup:
  "scanContinuous_setup native_scanner (no_options\<lparr>opt_signal := sig\<rparr>) barcode_config =
     Inr (barcode_ctx None sig)"
  by (simp add: scanContinuous_setup_def validateConfiguration_def getScanConfig_def
      getEnhancedFeatures_def native_scanner_def running_scanner_def barcode_scanner_def
      four_formats_def barcode_config_def barcode_ctx_def no_options_def default_def
      str_or_else_def Let_def getContinuousConfig_interval_def)

lemma running_scanOnce_setup_signal:
  "scanOnce_setup running_scanner (no_options\<lparr>opt_signal := sig\<rparr>) = Inr barcode_plan"
  by (simp add: scanOnce_setup_def running_scanner_def barcode_scanner_def no_options_def
      getScanConfig_def validateConfiguration_def getEnhancedFeatures_def four_formats_def
      default_def str_or_else_def Let_def getTimeoutConfig_def barcode_plan_def)

theorem abort_after_success_benign_witness:
  "completion (scanOnce running_scanner (no_options\<lparr>opt_signal := Some (abort_at 700)\<rparr>)
                 (Resolves 5 (Some [qr_hit]))) =
     Returned (formatScanResult ''barcode'' (Some [qr_hit]) ''qr_code'') \<and>
   (\<exists>r. scanContinuous running_scanner (no_options\<lparr>opt_signal := Some (abort_at 2700)\<rparr>)
           miss_then_hit = Some r \<and>
        completion r = Returned (Some (formatScanResult ''barcode'' (Some [qr_hit]) ''qr_code''))) \<and>
   (\<exists>r. scanContinuous native_scanner (no_options\<lparr>opt_signal := Some (abort_at 60)\<rparr>)
           native_hit = Some r \<and>
        completion r = Returned (Some (formatScanResult ''barcode'' (Some [qr_hit]) ''qr_code''))) \<and>
   (\<exists>out. completion (scanFile barcode_scanner (FileArray [front_png, blurred_png, back_jpg])
                        (no_options\<lparr>opt_processAll := Some True,
                                     opt_signal := Some (abort_at 40)\<rparr>) hit_miss_hit) =
            Returned out \<and>
          success out \<and> cancelled out = None)"
proof -
  have g: "opt_signal (no_options\<lparr>opt_signal := Some (abort_at t)\<rparr>) = Some (abort_at t)"
    "aborts_at (abort_at t) = Some t" "err_name (reason (abort_at t)) = ''AbortError''" for t
    by (simp_all add: abort_at_def AbortError_def)
  have gf: "opt_signal (no_options\<lparr>opt_processAll := Some True,
      opt_signal := Some (abort_at 40)\<rparr>) = Some (abort_at 40)"
    by simp
  have u: "useContinuousScanning barcode_config"
    by (simp add: barcode_config_def)
  have q: "has_results (Some [qr_hit])" "first_format (Some [qr_hit]) = ''qr_code''"
    by (simp_all add: has_results_def first_format_def qr_hit_def)
  have b: "cfg_scanType (config running_scanner) = ''barcode''"
    "\<not> mrz_camera_mode running_scanner" "cfg_scanType (config native_scanner) = ''barcode''"
    by (simp_all add: running_scanner_def barcode_scanner_def mrz_camera_mode_def
        native_scanner_def)
  have one: "completion (scanOnce running_scanner (no_options\<lparr>opt_signal := Some (abort_at 700)\<rparr>)
      (Resolves 5 (Some [qr_hit]))) =
      Returned (formatScanResult ''barcode'' (Some [qr_hit]) ''qr_code'')"
    using abort_after_success_benign [OF g [of 700], where s = running_scanner
        and plan = barcode_plan and d = 5 and results = "Some [qr_hit]", THEN conjunct1]
      running_ready(1-3) running_scanOnce_setup_signal [of "Some (abort_at 700)"] q b
    by (simp add: in_time_def barcode_plan_def)
  have s2: "scanContinuous_setup running_scanner (no_options\<lparr>opt_signal := Some (abort_at 2700)\<rparr>)
      barcode_config = Inr (barcode_ctx None (Some (abort_at 2700)))"
    using running_setup [of "no_options\<lparr>opt_signal := Some (abort_at 2700)\<rparr>" None]
    by (simp add: no_options_def)
  have two: "\<exists>r. scanContinuous running_scanner (no_options\<lparr>opt_signal := Some (abort_at 2700)\<rparr>)
           miss_then_hit = Some r \<and>
        completion r = Returned (Some (formatScanResult ''barcode'' (Some [qr_hit]) ''qr_code''))"
    using abort_after_success_benign [OF g [of 2700], where s = running_scanner
        and scanConfig = barcode_config and ctx = "barcode_ctx None (Some (abort_at 2700))"
        and k = 1 and env = miss_then_hit and d = 50 and results = "Some [qr_hit]",
        THEN conjunct2, THEN conjunct1]
      running_ready running_getScanConfig u s2 q b
    by (auto simp: miss_then_hit_def barcode_ctx_def max_reached_def no_detection_def
        has_results_def)
  have three: "\<exists>r. scanContinuous native_scanner (no_options\<lparr>opt_signal := Some (abort_at 60)\<rparr>)
           native_hit = Some r \<and>
        completion r = Returned (Some (formatScanResult ''barcode'' (Some [qr_hit]) ''qr_code''))"
    using abort_after_success_benign [OF g [of 60], where s = native_scanner
        and scanConfig = barcode_config and ctx = "barcode_ctx None (Some (abort_at 60))"
        and env = native_hit and d = 50 and results = "Some [qr_hit]",
        THEN conjunct2, THEN conjunct2, THEN conjunct1]
      native_ready u native_setup [of "Some (abort_at 60)"] q b
    by (auto simp: native_hit_def)
  have p: "scanFile_setup barcode_scanner (no_options\<lparr>opt_processAll := Some True,
      opt_signal := Some (abort_at 40)\<rparr>) = Inr (barcode_file_plan (Some (abort_at 40)))"
    by (rule barcode_scanFile_setup)
  have f: "file_hit (barcode_file_plan (Some (abort_at 40))) (hit_miss_hit 1)"
    "file_done (barcode_file_plan (Some (abort_at 40))) hit_miss_hit 1 = 30"
    "\<forall>j. 1 < j \<and> j \<le> length [front_png, blurred_png, back_jpg] \<longrightarrow>
       file_ends (barcode_file_plan (Some (abort_at 40))) (hit_miss_hit j)"
    by (simp_all add: file_hit_def file_ends_def barcode_file_plan_def hit_miss_hit_def race_def
        has_results_def)
  have four: "\<exists>out. completion (scanFile barcode_scanner (FileArray [front_png, blurred_png, back_jpg])
                        (no_options\<lparr>opt_processAll := Some True,
                                     opt_signal := Some (abort_at 40)\<rparr>) hit_miss_hit) =
            Returned out \<and> success out \<and> cancelled out = None"
    using abort_after_success_benign [OF gf g(2,3) [of 40], where s = barcode_scanner
        and fs = "[front_png, blurred_png, back_jpg]"
        and fplan = "barcode_file_plan (Some (abort_at 40))" and n = 1 and answers = hit_miss_hit,
        THEN conjunct2, THEN conjunct2, THEN conjunct2]
      p f
    by (simp add: supported_samples)
  show ?thesis
    using one two three four by simp
qed

text \<open>
  In that run of \<^verbatim>\<open>scanFile\<close> the first file is a hit at 30 ms, the signal is aborted at
  40 ms while the second file is being scanned, and the check before the third file
  throws: the \<^verbatim>\<open>catch\<close> block answers with its message for an abort after a success.
\<close>

lemma scanFile_abort_after_hit:
  "map_option (\<lambda>out. (success out, message out, filesProcessed out))
     (returned (scanFile barcode_scanner (FileArray [front_png, blurred_png, back_jpg])
        (no_options\<lparr>opt_processAll := Some True, opt_signal := Some (abort_at 40)\<rparr>)
        hit_miss_hit)) =
   Some (True, Some ''File scan completed successfully despite cleanup abort'', Some 3)"
  by (simp add: scanFile_def supported_samples scanFile_try_def barcode_scanFile_setup
      barcode_file_plan_def throwIfAborted_def aborted_def hit_miss_hit_def race_def
      has_results_def Let_def AbortError_def abort_at_def scanFile_catch_def returned_def plain_def
      scan_outcome.defs outcome_def Error_def)

end
